theory Spec2Isabelle
  imports Main "HOL-Library.Word" "HOL-Library.Monad_Syntax"
begin

unbundle bit_operations_syntax

chapter \<open>NESPRESSO: a shallow embedding of the emulator core\<close>

text \<open>
  The C sources are embedded function by function.  A C struct is a record, an enum a
  datatype, \<open>uint8_t\<close>, \<open>uint16_t\<close> and \<open>uint32_t\<close> are \<open>8 word\<close>, \<open>16 word\<close> and
  \<open>32 word\<close>.  C evaluates every operator on \<open>int\<close> after integer promotion and
  truncates on assignment; the operands here are at most 16 bits wide, so the word
  operation at the width of the assigned variable gives the same bits.  A fixed-size
  array whose index is masked or is a \<open>uint8_t\<close> is a function from the index.
  Field names carry the name of their struct as a prefix, since record fields share one
  name space.
\<close>

type_synonym u8 = "8 word"
type_synonym u16 = "16 word"
type_synonym u32 = "32 word"

section \<open>input/input.c: the controllers\<close>

definition NES_BUTTON_A :: nat where "NES_BUTTON_A = 0"
definition NUM_BUTTONS :: u8 where "NUM_BUTTONS = 8"

text \<open>\<open>nes_input_t\<close>: \<open>buttons[2][8]\<close>, \<open>strobe\<close>, \<open>read_index[2]\<close>, \<open>last_buttons[2][8]\<close>.\<close>

record nes_input =
  buttons :: "nat \<Rightarrow> nat \<Rightarrow> u8"
  strobe :: u8
  read_index :: "nat \<Rightarrow> u8"
  last_buttons :: "nat \<Rightarrow> nat \<Rightarrow> u8"

text \<open>\<open>nes_input_init\<close> is a \<open>memset\<close> to zero.\<close>

definition nes_input_init :: nes_input where
  "nes_input_init =
     \<lparr>buttons = (\<lambda>c b. 0), strobe = 0, read_index = (\<lambda>c. 0), last_buttons = (\<lambda>c b. 0)\<rparr>"

definition nes_input_reset :: "nes_input \<Rightarrow> nes_input" where
  "nes_input_reset input = input\<lparr>strobe := 0, read_index := (\<lambda>c. 0)\<rparr>"

text \<open>\<open>nes_input_set_button\<close>: the C function ignores a controller or button out of range.\<close>

definition nes_input_set_button :: "nes_input \<Rightarrow> int \<Rightarrow> int \<Rightarrow> int \<Rightarrow> nes_input" where
  "nes_input_set_button input controller button pressed =
     (if 0 \<le> controller \<and> controller < 2 \<and> 0 \<le> button \<and> button < 8
      then input\<lparr>buttons := (buttons input)
             (nat controller := (buttons input (nat controller))
                (nat button := (if pressed \<noteq> 0 then 1 else 0)))\<rparr>
      else input)"

definition nes_input_write_strobe :: "nes_input \<Rightarrow> u8 \<Rightarrow> nes_input" where
  "nes_input_write_strobe input val =
     (let strobe' = val AND 1;
          input1 = (if strobe' \<noteq> 0 \<and> strobe input = 0
                    then input\<lparr>read_index := (\<lambda>c. 0)\<rparr> else input)
      in input1\<lparr>strobe := strobe'\<rparr>)"

text \<open>
  \<open>nes_input_read\<close>: \<open>result\<close> starts at 0 and is assigned only under the strobe or while
  \<open>read_index[cid] < NUM_BUTTONS\<close>; the function returns \<open>result | 0x40\<close>.
\<close>

definition nes_input_read :: "nes_input \<Rightarrow> int \<Rightarrow> u8 \<times> nes_input" where
  "nes_input_read input controller =
     (let cid = (if controller = 0 then 0 else 1 :: nat) in
      if strobe input \<noteq> 0
      then ((if buttons input cid NES_BUTTON_A \<noteq> 0 then 1 else 0) OR 0x40, input)
      else if read_index input cid < NUM_BUTTONS
      then ((if buttons input cid (unat (read_index input cid)) \<noteq> 0 then 1 else 0) OR 0x40,
            input\<lparr>read_index := (read_index input)(cid := read_index input cid + 1)\<rparr>)
      else (0 OR 0x40, input))"

text \<open>The results of \<open>n\<close> successive reads of one controller, oldest first.\<close>

fun input_reads :: "nat \<Rightarrow> int \<Rightarrow> nes_input \<Rightarrow> u8 list" where
  "input_reads 0 controller input = []"
| "input_reads (Suc n) controller input =
     fst (nes_input_read input controller) #
     input_reads n controller (snd (nes_input_read input controller))"


section \<open>apu/apu.c: the audio unit\<close>

definition g_length_table :: "u8 list" where
  "g_length_table =
    [10, 254, 20,  2, 40,  4, 80,  6,
     160,  8, 60, 10, 14, 12, 26, 14,
     12, 16, 24, 18, 48, 20, 96, 22,
     192, 24, 72, 26, 16, 28, 32, 30]"

definition g_noise_period_table :: "u16 list" where
  "g_noise_period_table =
    [4, 8, 16, 32, 64, 96, 128, 160,
     202, 254, 380, 508, 762, 1016, 2034, 4068]"

definition g_dmc_period_table :: "u16 list" where
  "g_dmc_period_table =
    [428, 380, 340, 320, 286, 254, 226, 214,
     190, 160, 142, 128, 106, 84, 72, 54]"

text \<open>
  The structs of apu.h.  A C truth value stored in a \<open>uint8_t\<close> field stays a byte:
  \<open>of_bool b\<close> is the 0 or 1 that \<open>!x\<close> and \<open>x != 0\<close> produce.
\<close>

record apu_envelope =
  env_start :: u8
  env_loop :: u8
  env_constant :: u8
  env_volume :: u8
  env_divider :: u8
  env_counter :: u8
  env_decay_level :: u8

record apu_sweep =
  swp_enabled :: u8
  swp_period :: u8
  swp_negate :: u8
  swp_shift :: u8
  swp_reload :: u8
  swp_divider :: u8
  swp_one :: u8

record apu_square =
  sq_envelope :: apu_envelope
  sq_sweep :: apu_sweep
  sq_timer_period :: u16
  sq_timer_value :: u16
  sq_duty :: u8
  sq_duty_index :: u8
  sq_length_counter :: u8
  sq_length_enabled :: u8

record apu_triangle =
  tri_length_counter :: u8
  tri_length_enabled :: u8
  tri_timer_period :: u16
  tri_timer_value :: u16
  tri_linear_counter :: u8
  tri_linear_counter_reload :: u8
  tri_linear_counter_control :: u8
  tri_linear_counter_reload_flag :: u8
  tri_linear_counter_value :: u8
  tri_sequencing :: u8

record apu_noise =
  noi_envelope :: apu_envelope
  noi_period :: u16
  noi_timer_value :: u16
  noi_mode :: u8
  noi_length_counter :: u8
  noi_length_enabled :: u8
  noi_lfsr :: u16

record apu_dmc =
  dmc_enabled :: u8
  dmc_irq :: u8
  dmc_loop :: u8
  dmc_sample_addr :: u16
  dmc_sample_length :: u16
  dmc_current_addr :: u16
  dmc_bytes_remaining :: u16
  dmc_sample_buffer :: u8
  dmc_sample_buffer_empty :: u8
  dmc_shift_register :: u8
  dmc_bits_remaining :: u8
  dmc_silence :: u8
  dmc_output :: u8
  dmc_timer_period :: u8
  dmc_timer_value :: u8

record apu_frame_counter =
  fc_mode :: u8
  fc_irq :: u8
  fc_counter :: u8

text \<open>
  \<open>nes_apu_t\<close>.  Its three callback fields (\<open>context\<close>, \<open>read_dmc\<close>, \<open>irq_callback\<close>) are
  zeroed by \<open>nes_apu_init\<close> and never read or written again; they are left out.
\<close>

record nes_apu =
  square1 :: apu_square
  square2 :: apu_square
  triangle :: apu_triangle
  noise :: apu_noise
  dmc :: apu_dmc
  frame :: apu_frame_counter
  apu_cycle_count :: u32
  apu_frame_cycle :: u32

definition zero_envelope :: apu_envelope where
  "zero_envelope = \<lparr>env_start = 0, env_loop = 0, env_constant = 0, env_volume = 0,
     env_divider = 0, env_counter = 0, env_decay_level = 0\<rparr>"

definition zero_sweep :: apu_sweep where
  "zero_sweep = \<lparr>swp_enabled = 0, swp_period = 0, swp_negate = 0, swp_shift = 0,
     swp_reload = 0, swp_divider = 0, swp_one = 0\<rparr>"

definition zero_square :: apu_square where
  "zero_square = \<lparr>sq_envelope = zero_envelope, sq_sweep = zero_sweep, sq_timer_period = 0,
     sq_timer_value = 0, sq_duty = 0, sq_duty_index = 0, sq_length_counter = 0,
     sq_length_enabled = 0\<rparr>"

definition zero_triangle :: apu_triangle where
  "zero_triangle = \<lparr>tri_length_counter = 0, tri_length_enabled = 0, tri_timer_period = 0,
     tri_timer_value = 0, tri_linear_counter = 0, tri_linear_counter_reload = 0,
     tri_linear_counter_control = 0, tri_linear_counter_reload_flag = 0,
     tri_linear_counter_value = 0, tri_sequencing = 0\<rparr>"

definition zero_noise :: apu_noise where
  "zero_noise = \<lparr>noi_envelope = zero_envelope, noi_period = 0, noi_timer_value = 0,
     noi_mode = 0, noi_length_counter = 0, noi_length_enabled = 0, noi_lfsr = 0\<rparr>"

definition zero_dmc :: apu_dmc where
  "zero_dmc = \<lparr>dmc_enabled = 0, dmc_irq = 0, dmc_loop = 0, dmc_sample_addr = 0,
     dmc_sample_length = 0, dmc_current_addr = 0, dmc_bytes_remaining = 0,
     dmc_sample_buffer = 0, dmc_sample_buffer_empty = 0, dmc_shift_register = 0,
     dmc_bits_remaining = 0, dmc_silence = 0, dmc_output = 0, dmc_timer_period = 0,
     dmc_timer_value = 0\<rparr>"

subsection \<open>Channel helpers\<close>

definition envelope_clock :: "apu_envelope \<Rightarrow> apu_envelope" where
  "envelope_clock env =
     (if env_start env \<noteq> 0
      then env\<lparr>env_start := 0, env_decay_level := 15, env_divider := env_volume env\<rparr>
      else if env_divider env = 0
      then (let env1 = env\<lparr>env_divider := env_volume env\<rparr> in
            if env_decay_level env1 > 0
            then env1\<lparr>env_decay_level := env_decay_level env1 - 1\<rparr>
            else if env_loop env1 \<noteq> 0 then env1\<lparr>env_decay_level := 15\<rparr>
            else env1)
      else env\<lparr>env_divider := env_divider env - 1\<rparr>)"

text \<open>\<open>square_timer_clock\<close> takes the sweep unit and does not use it.\<close>

definition square_timer_clock :: "apu_square \<Rightarrow> apu_square" where
  "square_timer_clock sq =
     (if sq_timer_value sq = 0
      then sq\<lparr>sq_timer_value := sq_timer_period sq,
              sq_duty_index := (sq_duty_index sq + 1) AND 7\<rparr>
      else sq\<lparr>sq_timer_value := sq_timer_value sq - 1\<rparr>)"

definition triangle_clock_linear :: "apu_triangle \<Rightarrow> apu_triangle" where
  "triangle_clock_linear tri =
     (let tri1 =
        (if tri_linear_counter_reload_flag tri \<noteq> 0
         then tri\<lparr>tri_linear_counter := tri_linear_counter_reload tri\<rparr>
         else if tri_linear_counter tri > 0
         then tri\<lparr>tri_linear_counter := tri_linear_counter tri - 1\<rparr>
         else tri)
      in if tri_linear_counter_control tri1 = 0
         then tri1\<lparr>tri_linear_counter_reload_flag := 0\<rparr> else tri1)"

definition triangle_timer_clock :: "apu_triangle \<Rightarrow> apu_triangle" where
  "triangle_timer_clock tri =
     (if tri_timer_value tri = 0
      then (let tri1 = tri\<lparr>tri_timer_value := tri_timer_period tri\<rparr> in
            if tri_length_counter tri1 > 0 \<and> tri_linear_counter tri1 > 0
            then tri1\<lparr>tri_sequencing := (tri_sequencing tri1 + 1) AND 31\<rparr>
            else tri1)
      else tri\<lparr>tri_timer_value := tri_timer_value tri - 1\<rparr>)"

text \<open>
  \<open>noise_timer_clock\<close>: when the timer is 0 the LFSR steps.  A nonzero \<open>mode\<close> is the
  branch the source comments as short period mode (tap at bit 6), \<open>mode = 0\<close> the long
  period mode (tap at bit 1).
\<close>

definition noise_timer_clock :: "apu_noise \<Rightarrow> apu_noise" where
  "noise_timer_clock n =
     (if noi_timer_value n = 0
      then (let bit = noi_lfsr n AND 1;
                feedback = (if noi_mode n \<noteq> 0
                            then bit XOR (drop_bit 6 (noi_lfsr n) AND 1)
                            else bit XOR (drop_bit 1 (noi_lfsr n) AND 1))
            in n\<lparr>noi_lfsr := drop_bit 1 (noi_lfsr n) OR push_bit 14 feedback,
                 noi_timer_value := noi_period n\<rparr>)
      else n\<lparr>noi_timer_value := noi_timer_value n - 1\<rparr>)"

text \<open>
  \<open>dmc_clock_reader\<close> is only called as \<open>dmc_clock_reader(NULL, NULL, dmc)\<close>, and the
  static \<open>g_apu_bus\<close> is \<open>NULL\<close>: \<open>nes_sys_init\<close> passes \<open>NULL\<close> to \<open>nes_apu_init\<close> and
  nothing calls \<open>nes_apu_set_bus\<close>.  So neither read branch runs and the sample buffer
  byte stays as it is.
\<close>

definition dmc_clock_reader :: "apu_dmc \<Rightarrow> apu_dmc" where
  "dmc_clock_reader d =
     (if dmc_sample_buffer_empty d = 0 then d
      else if dmc_bytes_remaining d = 0
      then (if dmc_loop d \<noteq> 0
            then d\<lparr>dmc_current_addr := dmc_sample_addr d,
                   dmc_bytes_remaining := dmc_sample_length d\<rparr>
            else d)
      else d\<lparr>dmc_sample_buffer_empty := 0,
             dmc_current_addr := (dmc_current_addr d + 1) OR 0x8000,
             dmc_bytes_remaining := dmc_bytes_remaining d - 1\<rparr>)"

definition dmc_clock_shifter :: "apu_dmc \<Rightarrow> apu_dmc" where
  "dmc_clock_shifter d =
     (if dmc_silence d \<noteq> 0 then d
      else (let d1 = (if dmc_shift_register d AND 1 \<noteq> 0
                      then (if dmc_output d \<le> 125 then d\<lparr>dmc_output := dmc_output d + 2\<rparr> else d)
                      else (if dmc_output d \<ge> 2 then d\<lparr>dmc_output := dmc_output d - 2\<rparr> else d))
            in d1\<lparr>dmc_shift_register := drop_bit 1 (dmc_shift_register d1),
                  dmc_bits_remaining := dmc_bits_remaining d1 - 1\<rparr>))"

definition dmc_timer_clock :: "apu_dmc \<Rightarrow> apu_dmc" where
  "dmc_timer_clock d =
     (if dmc_timer_value d = 0
      then (let d1 = d\<lparr>dmc_timer_value := dmc_timer_period d\<rparr>;
                d2 = (if dmc_bits_remaining d1 = 0
                      then (let d3 = d1\<lparr>dmc_bits_remaining := 8\<rparr> in
                            if dmc_sample_buffer_empty d3 \<noteq> 0
                            then d3\<lparr>dmc_silence := 1\<rparr>
                            else dmc_clock_reader
                                   (d3\<lparr>dmc_silence := 0,
                                       dmc_shift_register := dmc_sample_buffer d3,
                                       dmc_sample_buffer_empty := 1\<rparr>))
                      else d1)
            in dmc_clock_shifter d2)
      else d\<lparr>dmc_timer_value := dmc_timer_value d - 1\<rparr>)"

definition dec_length :: "u8 \<Rightarrow> u8" where
  "dec_length c = (if c > 0 then c - 1 else 0)"

definition frame_clock :: "nes_apu \<Rightarrow> u8 \<Rightarrow> nes_apu" where
  "frame_clock apu step =
     (let apu1 =
        (if step = 0 \<or> step = 2
         then apu\<lparr>square1 := (square1 apu)\<lparr>sq_envelope := envelope_clock (sq_envelope (square1 apu))\<rparr>,
                  square2 := (square2 apu)\<lparr>sq_envelope := envelope_clock (sq_envelope (square2 apu))\<rparr>,
                  noise := (noise apu)\<lparr>noi_envelope := envelope_clock (noi_envelope (noise apu))\<rparr>,
                  triangle := triangle_clock_linear (triangle apu)\<rparr>
         else apu)
      in if step = 1
         then apu1\<lparr>square1 := (square1 apu1)\<lparr>sq_length_counter := dec_length (sq_length_counter (square1 apu1))\<rparr>,
                   square2 := (square2 apu1)\<lparr>sq_length_counter := dec_length (sq_length_counter (square2 apu1))\<rparr>,
                   noise := (noise apu1)\<lparr>noi_length_counter := dec_length (noi_length_counter (noise apu1))\<rparr>,
                   triangle := (triangle apu1)\<lparr>tri_length_counter := dec_length (tri_length_counter (triangle apu1))\<rparr>\<rparr>
         else apu1)"

subsection \<open>The public functions\<close>

text \<open>\<open>nes_apu_init\<close>: \<open>memset\<close> to zero, then the LFSR seed and three DMC fields.\<close>

definition nes_apu_init :: nes_apu where
  "nes_apu_init =
     \<lparr>square1 = zero_square, square2 = zero_square, triangle = zero_triangle,
      noise = zero_noise\<lparr>noi_lfsr := 1\<rparr>,
      dmc = zero_dmc\<lparr>dmc_sample_addr := 0xC000, dmc_sample_buffer_empty := 1,
                     dmc_bits_remaining := 8\<rparr>,
      frame = \<lparr>fc_mode = 0, fc_irq = 0, fc_counter = 0\<rparr>,
      apu_cycle_count = 0, apu_frame_cycle = 0\<rparr>"

definition nes_apu_reset :: "nes_apu \<Rightarrow> nes_apu" where
  "nes_apu_reset apu =
     apu\<lparr>square1 := zero_square, square2 := zero_square, triangle := zero_triangle,
         noise := zero_noise\<lparr>noi_lfsr := 1\<rparr>, dmc := zero_dmc,
         frame := (frame apu)\<lparr>fc_mode := 0\<rparr>,
         apu_cycle_count := 0, apu_frame_cycle := 0\<rparr>"

definition nes_apu_step :: "nes_apu \<Rightarrow> nes_apu" where
  "nes_apu_step apu =
     (let cycle = apu_cycle_count apu;
          apu1 = apu\<lparr>apu_cycle_count := cycle + 1, apu_frame_cycle := cycle\<rparr>;
          apu2 = apu1\<lparr>square1 := square_timer_clock (square1 apu1)\<rparr>;
          apu3 = apu2\<lparr>square2 := square_timer_clock (square2 apu2)\<rparr>;
          apu4 = apu3\<lparr>triangle := triangle_timer_clock (triangle apu3)\<rparr>;
          apu5 = apu4\<lparr>noise := noise_timer_clock (noise apu4)\<rparr>;
          apu6 = apu5\<lparr>dmc := dmc_timer_clock (dmc apu5)\<rparr>
      in if fc_mode (frame apu6) = 0
         then (if cycle = 3729 then frame_clock apu6 0
               else if cycle = 7457 then frame_clock apu6 1
               else if cycle = 11186 then frame_clock apu6 0
               else if cycle = 14915 then (frame_clock apu6 1)\<lparr>apu_cycle_count := 0\<rparr>
               else apu6)
         else (if cycle = 3729 then frame_clock apu6 0
               else if cycle = 7457 then frame_clock apu6 1
               else if cycle = 11186 then frame_clock apu6 0
               else if cycle = 14915 then apu6
               else if cycle = 18641 then (frame_clock apu6 0)\<lparr>apu_cycle_count := 0\<rparr>
               else apu6))"

text \<open>\<open>nes_apu_execute_cycles\<close>: the \<open>for\<close> loop over a \<open>uint32_t\<close> count.\<close>

fun apu_steps :: "nat \<Rightarrow> nes_apu \<Rightarrow> nes_apu" where
  "apu_steps 0 apu = apu"
| "apu_steps (Suc n) apu = apu_steps n (nes_apu_step apu)"

definition nes_apu_execute_cycles :: "nes_apu \<Rightarrow> u32 \<Rightarrow> nes_apu" where
  "nes_apu_execute_cycles apu cycles = apu_steps (unat cycles) apu"

definition write_square_ctrl :: "apu_square \<Rightarrow> u8 \<Rightarrow> apu_square" where
  "write_square_ctrl sq val =
     sq\<lparr>sq_duty := drop_bit 6 val AND 3,
        sq_length_enabled := of_bool (val AND 0x20 = 0),
        sq_envelope := (sq_envelope sq)
          \<lparr>env_loop := of_bool (val AND 0x20 \<noteq> 0),
           env_constant := of_bool (val AND 0x10 \<noteq> 0),
           env_volume := val AND 0x0F\<rparr>\<rparr>"

definition write_square_sweep :: "apu_square \<Rightarrow> u8 \<Rightarrow> apu_square" where
  "write_square_sweep sq val =
     sq\<lparr>sq_sweep := (sq_sweep sq)
          \<lparr>swp_enabled := of_bool (val AND 0x80 \<noteq> 0),
           swp_period := drop_bit 4 val AND 7,
           swp_negate := of_bool (val AND 8 \<noteq> 0),
           swp_shift := val AND 7,
           swp_reload := 1\<rparr>\<rparr>"

definition write_square_timer :: "apu_square \<Rightarrow> u8 \<Rightarrow> apu_square" where
  "write_square_timer sq val =
     sq\<lparr>sq_timer_period := (sq_timer_period sq AND 0x700) OR ucast val\<rparr>"

definition write_square_length :: "apu_square \<Rightarrow> u8 \<Rightarrow> apu_square" where
  "write_square_length sq val =
     sq\<lparr>sq_timer_period := (sq_timer_period sq AND 0xFF) OR push_bit 8 (ucast (val AND 7)),
        sq_length_counter := g_length_table ! unat (drop_bit 3 val AND 0x1F),
        sq_envelope := (sq_envelope sq)\<lparr>env_start := 1\<rparr>,
        sq_duty_index := 0\<rparr>"

text \<open>
  \<open>nes_apu_cpu_write\<close>: the \<open>switch\<close> on the address.  The four square registers of the
  two channels have the same bodies in the source; the helpers above are those bodies.
  Table indices are masked to the table's length.
\<close>

definition nes_apu_cpu_write :: "nes_apu \<Rightarrow> u16 \<Rightarrow> u8 \<Rightarrow> nes_apu" where
  "nes_apu_cpu_write apu addr val =
     (if addr = 0x4000 then apu\<lparr>square1 := write_square_ctrl (square1 apu) val\<rparr>
      else if addr = 0x4001 then apu\<lparr>square1 := write_square_sweep (square1 apu) val\<rparr>
      else if addr = 0x4002 then apu\<lparr>square1 := write_square_timer (square1 apu) val\<rparr>
      else if addr = 0x4003 then apu\<lparr>square1 := write_square_length (square1 apu) val\<rparr>
      else if addr = 0x4004 then apu\<lparr>square2 := write_square_ctrl (square2 apu) val\<rparr>
      else if addr = 0x4005 then apu\<lparr>square2 := write_square_sweep (square2 apu) val\<rparr>
      else if addr = 0x4006 then apu\<lparr>square2 := write_square_timer (square2 apu) val\<rparr>
      else if addr = 0x4007 then apu\<lparr>square2 := write_square_length (square2 apu) val\<rparr>
      else if addr = 0x4008 then
        apu\<lparr>triangle := (triangle apu)
          \<lparr>tri_length_enabled := of_bool (val AND 0x80 = 0),
           tri_linear_counter_control := of_bool (val AND 0x80 \<noteq> 0),
           tri_linear_counter_reload := val AND 0x7F\<rparr>\<rparr>
      else if addr = 0x400A then
        apu\<lparr>triangle := (triangle apu)
          \<lparr>tri_timer_period := (tri_timer_period (triangle apu) AND 0x700) OR ucast val\<rparr>\<rparr>
      else if addr = 0x400B then
        apu\<lparr>triangle := (triangle apu)
          \<lparr>tri_timer_period := (tri_timer_period (triangle apu) AND 0xFF)
                                 OR push_bit 8 (ucast (val AND 7)),
           tri_length_counter := g_length_table ! unat (drop_bit 3 val AND 0x1F),
           tri_linear_counter_reload_flag := 1\<rparr>\<rparr>
      else if addr = 0x400C then
        apu\<lparr>noise := (noise apu)
          \<lparr>noi_length_enabled := of_bool (val AND 0x20 = 0),
           noi_envelope := (noi_envelope (noise apu))
             \<lparr>env_loop := of_bool (val AND 0x20 \<noteq> 0),
              env_constant := of_bool (val AND 0x10 \<noteq> 0),
              env_volume := val AND 0x0F\<rparr>\<rparr>\<rparr>
      else if addr = 0x400E then
        apu\<lparr>noise := (noise apu)
          \<lparr>noi_mode := of_bool (val AND 0x80 \<noteq> 0),
           noi_period := g_noise_period_table ! unat (val AND 0x0F)\<rparr>\<rparr>
      else if addr = 0x400F then
        apu\<lparr>noise := (noise apu)
          \<lparr>noi_length_counter := g_length_table ! unat (drop_bit 3 val AND 0x1F),
           noi_envelope := (noi_envelope (noise apu))\<lparr>env_start := 1\<rparr>\<rparr>\<rparr>
      else if addr = 0x4010 then
        apu\<lparr>dmc := (dmc apu)
          \<lparr>dmc_irq := of_bool (val AND 0x80 \<noteq> 0),
           dmc_loop := of_bool (val AND 0x40 \<noteq> 0),
           dmc_timer_period := ucast (g_dmc_period_table ! unat (val AND 0x0F))\<rparr>\<rparr>
      else if addr = 0x4011 then apu\<lparr>dmc := (dmc apu)\<lparr>dmc_output := val AND 0x7F\<rparr>\<rparr>
      else if addr = 0x4012 then
        apu\<lparr>dmc := (dmc apu)\<lparr>dmc_sample_addr := 0xC000 OR push_bit 6 (ucast val)\<rparr>\<rparr>
      else if addr = 0x4013 then
        apu\<lparr>dmc := (dmc apu)\<lparr>dmc_sample_length := push_bit 4 (ucast val) OR 1\<rparr>\<rparr>
      else if addr = 0x4015 then
        (let apu1 = apu
           \<lparr>square1 := (square1 apu)\<lparr>sq_length_counter :=
               (if val AND 1 \<noteq> 0 then sq_length_counter (square1 apu) else 0)\<rparr>,
            square2 := (square2 apu)\<lparr>sq_length_counter :=
               (if val AND 2 \<noteq> 0 then sq_length_counter (square2 apu) else 0)\<rparr>,
            triangle := (triangle apu)\<lparr>tri_length_counter :=
               (if val AND 4 \<noteq> 0 then tri_length_counter (triangle apu) else 0)\<rparr>,
            noise := (noise apu)\<lparr>noi_length_counter :=
               (if val AND 8 \<noteq> 0 then noi_length_counter (noise apu) else 0)\<rparr>\<rparr>
         in if val AND 0x10 \<noteq> 0
            then (let d = (dmc apu1)\<lparr>dmc_enabled := 1\<rparr> in
                  apu1\<lparr>dmc := (if dmc_bytes_remaining d = 0
                                 then d\<lparr>dmc_current_addr := dmc_sample_addr d,
                                        dmc_bytes_remaining := dmc_sample_length d\<rparr>
                                 else d)\<rparr>)
            else apu1\<lparr>dmc := (dmc apu1)\<lparr>dmc_enabled := 0, dmc_bytes_remaining := 0\<rparr>\<rparr>)
      else if addr = 0x4017 then
        (let apu1 = apu\<lparr>frame := (frame apu)
                     \<lparr>fc_mode := of_bool (val AND 0x80 \<noteq> 0),
                      fc_irq := of_bool (val AND 0x40 = 0)\<rparr>\<rparr>
         in if fc_mode (frame apu1) \<noteq> 0 then frame_clock apu1 0 else apu1)
      else apu)"

definition nes_apu_cpu_read :: "nes_apu \<Rightarrow> u16 \<Rightarrow> u8" where
  "nes_apu_cpu_read apu addr =
     (if addr = 0x4015
      then (if sq_length_counter (square1 apu) > 0 then 1 else 0)
        OR (if sq_length_counter (square2 apu) > 0 then 2 else 0)
        OR (if tri_length_counter (triangle apu) > 0 then 4 else 0)
        OR (if noi_length_counter (noise apu) > 0 then 8 else 0)
        OR (if dmc_bytes_remaining (dmc apu) > 0 then 0x10 else 0)
      else 0)"

text \<open>
  The calls a client can make on the APU between two resets, as data, so that a property
  of every reachable state is a property of every list of calls.  \<open>NoiseTimerClock\<close> is
  the timer step of the noise channel on its own.
\<close>

datatype apu_call =
    ApuStep
  | ApuExecuteCycles u32
  | ApuCpuWrite u16 u8
  | ApuReset
  | NoiseTimerClock

fun apu_apply :: "apu_call \<Rightarrow> nes_apu \<Rightarrow> nes_apu" where
  "apu_apply ApuStep apu = nes_apu_step apu"
| "apu_apply (ApuExecuteCycles n) apu = nes_apu_execute_cycles apu n"
| "apu_apply (ApuCpuWrite addr val) apu = nes_apu_cpu_write apu addr val"
| "apu_apply ApuReset apu = nes_apu_reset apu"
| "apu_apply NoiseTimerClock apu = apu\<lparr>noise := noise_timer_clock (noise apu)\<rparr>"

definition apu_run :: "apu_call list \<Rightarrow> nes_apu \<Rightarrow> nes_apu" where
  "apu_run calls apu = fold apu_apply calls apu"

section \<open>cartridge/rom.c: the cartridge\<close>

text \<open>
  \<open>mirroring_t\<close> of rom.h; ppu.c declares the same enum again as \<open>mirror_mode_t\<close>, with
  the same constants in the same order.  \<open>mirroring_value\<close> is the enum's integer value.
\<close>

datatype mirroring_t =
    MIRROR_HORIZONTAL
  | MIRROR_VERTICAL
  | MIRROR_SINGLE_0
  | MIRROR_SINGLE_1
  | MIRROR_FOUR_SCREEN

fun mirroring_value :: "mirroring_t \<Rightarrow> u8" where
  "mirroring_value MIRROR_HORIZONTAL = 0"
| "mirroring_value MIRROR_VERTICAL = 1"
| "mirroring_value MIRROR_SINGLE_0 = 2"
| "mirroring_value MIRROR_SINGLE_1 = 3"
| "mirroring_value MIRROR_FOUR_SCREEN = 4"

datatype nes_rom_result_t =
    NES_ROM_OK
  | NES_ROM_ERROR_FILE_NOT_FOUND
  | NES_ROM_ERROR_INVALID_HEADER
  | NES_ROM_ERROR_UNSUPPORTED_MAPPER
  | NES_ROM_ERROR_MEMORY
  | NES_ROM_ERROR_TRUNCATED
  | NES_ROM_ERROR_CHECKSUM

definition NES_ROM_HEADER_SIZE :: nat where "NES_ROM_HEADER_SIZE = 16"
definition NES_PRG_ROM_SIZE :: int where "NES_PRG_ROM_SIZE = 16384"
definition NES_CHR_ROM_SIZE :: int where "NES_CHR_ROM_SIZE = 8192"
definition PRG_RAM_SIZE :: nat where "PRG_RAM_SIZE = 8192"
definition NES_MAGIC :: "u8 list" where "NES_MAGIC = [0x4E, 0x45, 0x53, 0x1A]"

definition FLAGS6_MIRROR_MASK :: u8 where "FLAGS6_MIRROR_MASK = 0x01"
definition FLAGS6_BATTERY :: u8 where "FLAGS6_BATTERY = 0x02"
definition FLAGS6_TRAINER :: u8 where "FLAGS6_TRAINER = 0x04"
definition FLAGS6_FOUR_SCREEN :: u8 where "FLAGS6_FOUR_SCREEN = 0x08"
definition FLAGS6_MAPPER_LO :: u8 where "FLAGS6_MAPPER_LO = 0xF0"
definition FLAGS7_VS_UNISYSTEM :: u8 where "FLAGS7_VS_UNISYSTEM = 0x01"
definition FLAGS7_PLAYCHOICE_10 :: u8 where "FLAGS7_PLAYCHOICE_10 = 0x02"
definition FLAGS7_NES_2_0 :: u8 where "FLAGS7_NES_2_0 = 0x0C"
definition FLAGS7_MAPPER_HI :: u8 where "FLAGS7_MAPPER_HI = 0xF0"
definition FLAGS10_TV_SYSTEM :: u8 where "FLAGS10_TV_SYSTEM = 0x03"

text \<open>\<open>nes_rom_header_t\<close>: the first 16 bytes of the image.\<close>

record nes_rom_header =
  hdr_magic :: "u8 list"
  hdr_prg_rom_size :: u8
  hdr_chr_rom_size :: u8
  hdr_flags6 :: u8
  hdr_flags7 :: u8
  hdr_flags8 :: u8
  hdr_flags9 :: u8
  hdr_flags10 :: u8
  hdr_unused :: "u8 list"

text \<open>The cast \<open>(const nes_rom_header_t*)data\<close>; the caller has checked \<open>size >= 16\<close>.\<close>

definition header_of :: "u8 list \<Rightarrow> nes_rom_header" where
  "header_of data =
     \<lparr>hdr_magic = take 4 data,
      hdr_prg_rom_size = data ! 4, hdr_chr_rom_size = data ! 5,
      hdr_flags6 = data ! 6, hdr_flags7 = data ! 7, hdr_flags8 = data ! 8,
      hdr_flags9 = data ! 9, hdr_flags10 = data ! 10,
      hdr_unused = take 5 (drop 11 data)\<rparr>"

text \<open>
  \<open>nes_rom_info_t\<close>.  rom.c stores the byte sizes in \<open>info.prg_rom_size\<close> and
  \<open>info.chr_rom_size\<close>, two fields that the struct declaration in rom.h does not list;
  they are taken as \<open>int\<close> fields of the struct.  The \<open>int\<close> fields hold values far
  below \<open>2^31\<close>.  Left out: \<open>submapper\<close> (never assigned), the two pointers that alias
  the cartridge's buffers, \<open>crc32\<close> and \<open>title\<close>.
\<close>

record nes_rom_info =
  info_mapper :: u8
  info_prg_rom_banks :: int
  info_chr_rom_banks :: int
  info_has_chrram :: int
  info_has_battery :: int
  info_has_trainer :: int
  info_mirroring :: mirroring_t
  info_fourscreen :: int
  info_vs_unisystem :: int
  info_playchoice :: int
  info_is_nes_2_0 :: int
  info_is_pal :: int
  info_prg_rom_size :: int
  info_chr_rom_size :: int

text \<open>
  \<open>nes_cartridge_t\<close>.  A buffer pointer is \<open>None\<close> when it is \<open>NULL\<close> and otherwise the
  allocated block; the three \<open>size_t\<close> fields are the struct's own size fields, which the
  mappers read.
\<close>

record nes_cartridge =
  cart_info :: nes_rom_info
  cart_prg_rom :: "u8 list option"
  cart_chr_rom :: "u8 list option"
  cart_prg_ram :: "u8 list option"
  cart_prg_rom_size :: nat
  cart_chr_rom_size :: nat
  cart_prg_ram_size :: nat

text \<open>\<open>nes_cartridge_init\<close>: \<open>memset\<close> to zero (the enum value 0 is \<open>MIRROR_HORIZONTAL\<close>).\<close>

definition nes_cartridge_init :: nes_cartridge where
  "nes_cartridge_init =
     \<lparr>cart_info = \<lparr>info_mapper = 0, info_prg_rom_banks = 0, info_chr_rom_banks = 0,
        info_has_chrram = 0, info_has_battery = 0, info_has_trainer = 0,
        info_mirroring = MIRROR_HORIZONTAL, info_fourscreen = 0, info_vs_unisystem = 0,
        info_playchoice = 0, info_is_nes_2_0 = 0, info_is_pal = 0,
        info_prg_rom_size = 0, info_chr_rom_size = 0\<rparr>,
      cart_prg_rom = None, cart_chr_rom = None, cart_prg_ram = None,
      cart_prg_rom_size = 0, cart_chr_rom_size = 0, cart_prg_ram_size = 0\<rparr>"

definition nes_cartridge_free :: "nes_cartridge \<Rightarrow> nes_cartridge" where
  "nes_cartridge_free cart = cart\<lparr>cart_prg_rom := None, cart_chr_rom := None\<rparr>"

text \<open>
  \<open>parse_header\<close>.  Allocation is taken to succeed, so the \<open>NES_ROM_ERROR_MEMORY\<close>
  returns do not appear; \<open>malloc\<close> gives a block of the requested size (its bytes are
  overwritten by the caller's \<open>memcpy\<close>, here they start as 0), \<open>calloc\<close> a zeroed one.
\<close>

definition parse_header :: "nes_rom_header \<Rightarrow> nes_cartridge \<Rightarrow> nes_rom_result_t \<times> nes_cartridge" where
  "parse_header header cart =
     (if hdr_magic header \<noteq> NES_MAGIC then (NES_ROM_ERROR_INVALID_HEADER, cart)
      else
        let mapper_lo = drop_bit 4 (hdr_flags6 header AND FLAGS6_MAPPER_LO);
            mapper_hi = drop_bit 4 (hdr_flags7 header AND FLAGS7_MAPPER_HI);
            is_nes_2_0 = (if hdr_flags7 header AND FLAGS7_NES_2_0 = FLAGS7_NES_2_0 then 1 else 0 :: int);
            prg_rom_banks = uint (hdr_prg_rom_size header);
            prg_rom_size = prg_rom_banks * NES_PRG_ROM_SIZE;
            chr_rom_banks =
              (if is_nes_2_0 \<noteq> 0
               then (let chr_lo = hdr_chr_rom_size header AND 0x0F;
                         chr_hi = drop_bit 4 (hdr_chr_rom_size header) AND 0xF0
                     in uint (push_bit 4 (ucast chr_hi :: u32) OR ucast chr_lo))
               else uint (hdr_chr_rom_size header));
            chr_rom_size = chr_rom_banks * NES_CHR_ROM_SIZE;
            four = (hdr_flags6 header AND FLAGS6_FOUR_SCREEN \<noteq> 0);
            info' = (cart_info cart)
              \<lparr>info_mapper := push_bit 4 mapper_hi OR mapper_lo,
               info_is_nes_2_0 := is_nes_2_0,
               info_prg_rom_banks := prg_rom_banks,
               info_prg_rom_size := prg_rom_size,
               info_chr_rom_banks := chr_rom_banks,
               info_chr_rom_size := chr_rom_size,
               info_has_chrram := (if chr_rom_banks = 0 then 1 else 0),
               info_mirroring :=
                 (if four then MIRROR_FOUR_SCREEN
                  else if hdr_flags6 header AND FLAGS6_MIRROR_MASK \<noteq> 0 then MIRROR_VERTICAL
                  else MIRROR_HORIZONTAL),
               info_fourscreen := (if four then 1 else info_fourscreen (cart_info cart)),
               info_has_battery := (if hdr_flags6 header AND FLAGS6_BATTERY \<noteq> 0 then 1 else 0),
               info_has_trainer := (if hdr_flags6 header AND FLAGS6_TRAINER \<noteq> 0 then 1 else 0),
               info_vs_unisystem := (if hdr_flags7 header AND FLAGS7_VS_UNISYSTEM \<noteq> 0 then 1 else 0),
               info_playchoice := (if hdr_flags7 header AND FLAGS7_PLAYCHOICE_10 \<noteq> 0 then 1 else 0),
               info_is_pal := uint ((hdr_flags10 header AND FLAGS10_TV_SYSTEM) AND 0x01)\<rparr>;
            cart1 = cart\<lparr>cart_info := info', cart_prg_rom := Some (replicate (nat prg_rom_size) 0)\<rparr>;
            cart2 = (if chr_rom_size > 0
                     then cart1\<lparr>cart_chr_rom := Some (replicate (nat chr_rom_size) 0)\<rparr>
                     else cart1\<lparr>cart_chr_rom_size := nat NES_CHR_ROM_SIZE,
                               cart_chr_rom := Some (replicate (nat NES_CHR_ROM_SIZE) 0)\<rparr>);
            cart3 = cart2\<lparr>cart_prg_ram_size := PRG_RAM_SIZE,
                          cart_prg_ram := Some (replicate PRG_RAM_SIZE 0)\<rparr>
        in (NES_ROM_OK, cart3))"

text \<open>
  \<open>nes_cartridge_load_memory\<close>: \<open>data\<close> is the image and \<open>size\<close> its length.  The CRC of
  the copied bytes, stored in \<open>info.crc32\<close>, is not modelled.
\<close>

definition nes_cartridge_load_memory :: "nes_cartridge \<Rightarrow> u8 list \<Rightarrow> nes_rom_result_t \<times> nes_cartridge" where
  "nes_cartridge_load_memory cart data =
     (if length data < NES_ROM_HEADER_SIZE then (NES_ROM_ERROR_TRUNCATED, cart)
      else
        case parse_header (header_of data) cart of (result, cart1) \<Rightarrow>
        if result \<noteq> NES_ROM_OK then (result, cart1)
        else
          let info = cart_info cart1;
              trainer = (if info_has_trainer info \<noteq> 0 then 512 else 0 :: nat);
              offset = NES_ROM_HEADER_SIZE + trainer;
              rom_size = NES_ROM_HEADER_SIZE + nat (info_prg_rom_size info)
                         + nat (info_chr_rom_size info) + trainer
          in if length data < rom_size
             then (NES_ROM_ERROR_TRUNCATED, nes_cartridge_free cart1)
             else
               let cart2 = cart1\<lparr>cart_prg_rom :=
                              Some (take (nat (info_prg_rom_size info)) (drop offset data))\<rparr>;
                   offset2 = offset + nat (info_prg_rom_size info);
                   cart3 = (if info_chr_rom_banks info > 0
                            then cart2\<lparr>cart_chr_rom :=
                                   Some (take (nat (info_chr_rom_size info)) (drop offset2 data))\<rparr>
                            else cart2)
               in (NES_ROM_OK, cart3))"

text \<open>
  Array accesses.  Reading or writing through a \<open>NULL\<close> pointer or outside the block,
  and \<open>%\<close> by zero, are undefined in C; the model returns \<open>None\<close> there.
\<close>

definition mem_read :: "u8 list option \<Rightarrow> nat \<Rightarrow> u8 option" where
  "mem_read buf i =
     (case buf of None \<Rightarrow> None
      | Some xs \<Rightarrow> if i < length xs then Some (xs ! i) else None)"

definition mem_write :: "u8 list option \<Rightarrow> nat \<Rightarrow> u8 \<Rightarrow> u8 list option option" where
  "mem_write buf i v =
     (case buf of None \<Rightarrow> None
      | Some xs \<Rightarrow> if i < length xs then Some (Some (xs[i := v])) else None)"

text \<open>\<open>i % n\<close> on unsigned operands.\<close>

definition c_mod :: "nat \<Rightarrow> nat \<Rightarrow> nat option" where
  "c_mod i n = (if n = 0 then None else Some (i mod n))"

text \<open>\<open>addr & (size - 1)\<close> at the width of \<open>size_t\<close>: with \<open>size = 0\<close> the mask is all ones.\<close>

definition size_mask :: "nat \<Rightarrow> nat \<Rightarrow> nat" where
  "size_mask addr n = (if n = 0 then addr else addr AND (n - 1))"

definition nes_cartridge_write_prg_ram :: "nes_cartridge \<Rightarrow> u32 \<Rightarrow> u8 \<Rightarrow> nes_cartridge option" where
  "nes_cartridge_write_prg_ram cart addr val =
     (if cart_prg_ram cart \<noteq> None \<and> unat addr < cart_prg_ram_size cart
      then do { m \<leftarrow> mem_write (cart_prg_ram cart) (unat addr) val;
                Some (cart\<lparr>cart_prg_ram := m\<rparr>) }
      else Some cart)"

definition nes_cartridge_read_prg_ram :: "nes_cartridge \<Rightarrow> u32 \<Rightarrow> u8 option" where
  "nes_cartridge_read_prg_ram cart addr =
     (if cart_prg_ram cart \<noteq> None \<and> unat addr < cart_prg_ram_size cart
      then mem_read (cart_prg_ram cart) (unat addr)
      else Some 0)"

definition nes_cartridge_read_chr :: "nes_cartridge \<Rightarrow> u32 \<Rightarrow> u8 option" where
  "nes_cartridge_read_chr cart addr =
     mem_read (cart_chr_rom cart) (size_mask (unat addr) (cart_chr_rom_size cart))"

definition nes_cartridge_write_chr_ram :: "nes_cartridge \<Rightarrow> u32 \<Rightarrow> u8 \<Rightarrow> nes_cartridge option" where
  "nes_cartridge_write_chr_ram cart addr val =
     (if info_has_chrram (cart_info cart) \<noteq> 0
      then do { m \<leftarrow> mem_write (cart_chr_rom cart)
                       (size_mask (unat addr) (cart_chr_rom_size cart)) val;
                Some (cart\<lparr>cart_chr_rom := m\<rparr>) }
      else Some cart)"

section \<open>mapper/mapper.c: the cartridge mappers\<close>

text \<open>
  Each mapper keeps its registers in a \<open>static\<close> context struct whose first field points
  to the cartridge; here the functions take the cartridge as an argument.  The tail that
  all PRG and CHR reads share,
  \<open>if (base < size) return rom[base]; return rom[base % size];\<close>, is \<open>rom_fetch\<close>.
\<close>

definition rom_fetch :: "u8 list option \<Rightarrow> nat \<Rightarrow> u32 \<Rightarrow> u8 option" where
  "rom_fetch rom sz base =
     (if unat base < sz then mem_read rom (unat base)
      else do { i \<leftarrow> c_mod (unat base) sz; mem_read rom i })"

definition prg_fetch :: "nes_cartridge \<Rightarrow> u32 \<Rightarrow> u8 option" where
  "prg_fetch cart base = rom_fetch (cart_prg_rom cart) (cart_prg_rom_size cart) base"

definition chr_fetch :: "nes_cartridge \<Rightarrow> u32 \<Rightarrow> u8 option" where
  "chr_fetch cart base = rom_fetch (cart_chr_rom cart) (cart_chr_rom_size cart) base"

text \<open>\<open>rom[base % size] = val\<close>.\<close>

definition chr_store_mod :: "nes_cartridge \<Rightarrow> u32 \<Rightarrow> u8 \<Rightarrow> nes_cartridge option" where
  "chr_store_mod cart base val =
     do { i \<leftarrow> c_mod (unat base) (cart_chr_rom_size cart);
          m \<leftarrow> mem_write (cart_chr_rom cart) i val;
          Some (cart\<lparr>cart_chr_rom := m\<rparr>) }"

text \<open>\<open>chr_rom[addr & (chr_rom_size - 1)]\<close>, read and written.\<close>

definition chr_read_masked :: "nes_cartridge \<Rightarrow> u16 \<Rightarrow> u8 option" where
  "chr_read_masked cart addr =
     mem_read (cart_chr_rom cart) (size_mask (unat addr) (cart_chr_rom_size cart))"

definition chr_write_masked :: "nes_cartridge \<Rightarrow> u16 \<Rightarrow> u8 \<Rightarrow> nes_cartridge option" where
  "chr_write_masked cart addr val =
     do { m \<leftarrow> mem_write (cart_chr_rom cart)
                 (size_mask (unat addr) (cart_chr_rom_size cart)) val;
          Some (cart\<lparr>cart_chr_rom := m\<rparr>) }"

text \<open>\<open>prg_ram[addr & 0x1FFF]\<close>, under the mappers' guard
  \<open>addr >= 0x6000 && addr < 0x8000 && cart->prg_ram\<close>.\<close>

definition prg_ram_window :: "u16 \<Rightarrow> nes_cartridge \<Rightarrow> bool" where
  "prg_ram_window addr cart \<longleftrightarrow> addr \<ge> 0x6000 \<and> addr < 0x8000 \<and> cart_prg_ram cart \<noteq> None"

definition prg_ram_load :: "nes_cartridge \<Rightarrow> u16 \<Rightarrow> u8 option" where
  "prg_ram_load cart addr = mem_read (cart_prg_ram cart) (unat (addr AND 0x1FFF))"

definition prg_ram_store :: "nes_cartridge \<Rightarrow> u16 \<Rightarrow> u8 \<Rightarrow> nes_cartridge option" where
  "prg_ram_store cart addr val =
     do { m \<leftarrow> mem_write (cart_prg_ram cart) (unat (addr AND 0x1FFF)) val;
          Some (cart\<lparr>cart_prg_ram := m\<rparr>) }"

text \<open>A bank number times a bank size plus an offset, in \<open>uint32_t\<close>.\<close>

definition bank_base :: "u8 \<Rightarrow> int \<Rightarrow> u16 \<Rightarrow> u32" where
  "bank_base bank bank_size off = ucast bank * word_of_int bank_size + ucast off"

text \<open>\<open>(cart->info.prg_rom_banks - k) * NES_PRG_ROM_SIZE + off\<close>: \<open>int\<close> arithmetic stored
  in a \<open>uint32_t\<close>.\<close>

definition last_bank_base :: "nes_cartridge \<Rightarrow> u16 \<Rightarrow> u32" where
  "last_bank_base cart off =
     word_of_int ((info_prg_rom_banks (cart_info cart) - 1) * NES_PRG_ROM_SIZE) + ucast off"

subsection \<open>Mapper 0 (NROM)\<close>

definition mapper_0_cpu_read :: "nes_cartridge \<Rightarrow> u16 \<Rightarrow> u8 option" where
  "mapper_0_cpu_read cart addr =
     (if addr \<ge> 0x8000 then prg_fetch cart (ucast (addr AND 0x7FFF)) else Some 0)"

definition mapper_0_ppu_read :: "nes_cartridge \<Rightarrow> u16 \<Rightarrow> u8 option" where
  "mapper_0_ppu_read cart addr =
     (if addr < 0x2000 \<and> cart_chr_rom cart \<noteq> None then chr_read_masked cart addr else Some 0)"

definition mapper_0_ppu_write :: "nes_cartridge \<Rightarrow> u16 \<Rightarrow> u8 \<Rightarrow> nes_cartridge option" where
  "mapper_0_ppu_write cart addr val =
     (if addr < 0x2000 then chr_write_masked cart addr val else Some cart)"

subsection \<open>Mapper 1 (MMC1)\<close>

record mapper_1_ctx =
  m1_shift_reg :: u8
  m1_shift_count :: u8
  m1_control :: u8
  m1_chr_bank_0 :: u8
  m1_chr_bank_1 :: u8
  m1_prg_bank :: u8
  m1_prg_mode :: u8
  m1_chr_mode :: u8
  m1_mirroring :: u8
  m1_prg_ram_disabled :: u8

definition mapper_1_init :: mapper_1_ctx where
  "mapper_1_init =
     \<lparr>m1_shift_reg = 0x10, m1_shift_count = 0, m1_control = 0x0C, m1_chr_bank_0 = 0,
      m1_chr_bank_1 = 0, m1_prg_bank = 0, m1_prg_mode = 3, m1_chr_mode = 0,
      m1_mirroring = 2, m1_prg_ram_disabled = 0\<rparr>"

definition mmc1_get_bank :: "nes_cartridge \<Rightarrow> u8 \<Rightarrow> u8" where
  "mmc1_get_bank cart bank =
     (let num_banks = info_prg_rom_banks (cart_info cart) in
      if num_banks \<le> 1 then 0 else bank AND word_of_int (num_banks - 1))"

definition mapper_1_cpu_read :: "mapper_1_ctx \<Rightarrow> nes_cartridge \<Rightarrow> u16 \<Rightarrow> u8 option" where
  "mapper_1_cpu_read m cart addr =
     (if addr \<ge> 0x8000 \<and> (m1_prg_mode m = 0 \<or> m1_prg_mode m = 1)
      then prg_fetch cart
             (bank_base (mmc1_get_bank cart ((m1_prg_bank m AND 0x0E) OR (ucast (drop_bit 14 addr) AND 1)))
                NES_PRG_ROM_SIZE (addr AND 0x7FFF))
      else if addr \<ge> 0x8000 \<and> m1_prg_mode m = 2
      then prg_fetch cart
             (if addr < 0xC000 then 0
              else bank_base (m1_prg_bank m) NES_PRG_ROM_SIZE (addr AND 0x3FFF))
      else if addr \<ge> 0x8000 \<and> m1_prg_mode m = 3
      then prg_fetch cart
             (if addr < 0xC000
              then bank_base (m1_prg_bank m) NES_PRG_ROM_SIZE (addr AND 0x3FFF)
              else last_bank_base cart (addr AND 0x3FFF))
      else if prg_ram_window addr cart then prg_ram_load cart addr
      else Some 0)"

text \<open>
  \<open>nes_ppu_set_mirror_mode\<close> of ppu.c, which the mappers call: it assigns the static
  \<open>g_mirror_mode\<close> for the arguments 0 to 3 and leaves it alone otherwise.  The first
  argument here is the current \<open>g_mirror_mode\<close>, the result the new one.
\<close>

definition nes_ppu_set_mirror_mode :: "mirroring_t \<Rightarrow> u8 \<Rightarrow> mirroring_t" where
  "nes_ppu_set_mirror_mode g_mirror_mode mirroring =
     (if mirroring = 0 then MIRROR_HORIZONTAL
      else if mirroring = 1 then MIRROR_VERTICAL
      else if mirroring = 2 then MIRROR_SINGLE_0
      else if mirroring = 3 then MIRROR_SINGLE_1
      else g_mirror_mode)"

text \<open>\<open>mapper_1_write\<close>: the result is the new context and the new \<open>g_mirror_mode\<close>.\<close>

definition mapper_1_write :: "mapper_1_ctx \<Rightarrow> mirroring_t \<Rightarrow> u16 \<Rightarrow> u8 \<Rightarrow> mapper_1_ctx \<times> mirroring_t" where
  "mapper_1_write m g_mirror_mode addr val =
     (let reg = (if addr < 0xA000 then 0 else if addr < 0xC000 then 1
                 else if addr < 0xE000 then 2 else 3 :: nat)
      in if val AND 0x80 \<noteq> 0
         then (m\<lparr>m1_shift_reg := 0x10, m1_shift_count := 0, m1_prg_mode := 3\<rparr>, g_mirror_mode)
         else
           let m1 = m\<lparr>m1_shift_reg := drop_bit 1 (m1_shift_reg m) OR push_bit 4 (val AND 1),
                      m1_shift_count := m1_shift_count m + 1\<rparr>
           in if m1_shift_count m1 = 5
              then (let data = m1_shift_reg m1;
                        m2 = (if reg = 0
                              then m1\<lparr>m1_control := data,
                                      m1_mirroring := data AND 3,
                                      m1_prg_mode := drop_bit 2 data AND 3,
                                      m1_chr_mode := drop_bit 4 data AND 1\<rparr>
                              else if reg = 1 then m1\<lparr>m1_chr_bank_0 := data\<rparr>
                              else if reg = 2 then m1\<lparr>m1_chr_bank_1 := data\<rparr>
                              else m1\<lparr>m1_prg_bank := data AND 0x0F,
                                      m1_prg_ram_disabled := of_bool (data AND 0x10 \<noteq> 0)\<rparr>);
                        g' = (if reg = 0 then nes_ppu_set_mirror_mode g_mirror_mode (m1_mirroring m2)
                              else g_mirror_mode)
                    in (m2\<lparr>m1_shift_reg := 0x10, m1_shift_count := 0\<rparr>, g'))
              else (m1, g_mirror_mode))"

definition mapper_1_ppu_read :: "mapper_1_ctx \<Rightarrow> nes_cartridge \<Rightarrow> u16 \<Rightarrow> u8 option" where
  "mapper_1_ppu_read m cart addr =
     (if addr < 0x2000 \<and> cart_chr_rom cart \<noteq> None
      then (if m1_chr_mode m = 0
            then chr_fetch cart (bank_base (m1_chr_bank_0 m AND 0x1E) NES_CHR_ROM_SIZE addr)
            else chr_fetch cart
                   (bank_base (if addr < 0x1000 then m1_chr_bank_0 m else m1_chr_bank_1 m)
                      NES_CHR_ROM_SIZE (addr AND 0x0FFF)))
      else Some 0)"

definition mapper_1_ppu_write :: "mapper_1_ctx \<Rightarrow> nes_cartridge \<Rightarrow> u16 \<Rightarrow> u8 \<Rightarrow> nes_cartridge option" where
  "mapper_1_ppu_write m cart addr val =
     (if addr < 0x2000 \<and> info_has_chrram (cart_info cart) \<noteq> 0
      then (if m1_chr_mode m = 0
            then chr_store_mod cart
                   (bank_base (drop_bit 1 (m1_chr_bank_0 m) AND 0x1F) NES_CHR_ROM_SIZE addr) val
            else chr_store_mod cart
                   (bank_base (if addr < 0x1000 then m1_chr_bank_0 m else m1_chr_bank_1 m)
                      NES_CHR_ROM_SIZE (addr AND 0x0FFF)) val)
      else Some cart)"

subsection \<open>Mapper 2 (UxROM)\<close>

definition mapper_2_cpu_read :: "u8 \<Rightarrow> nes_cartridge \<Rightarrow> u16 \<Rightarrow> u8 option" where
  "mapper_2_cpu_read bank_select cart addr =
     (if addr \<ge> 0x8000
      then prg_fetch cart
             (if addr < 0xC000
              then bank_base (bank_select AND word_of_int (info_prg_rom_banks (cart_info cart) - 1))
                     NES_PRG_ROM_SIZE (addr AND 0x3FFF)
              else last_bank_base cart (addr AND 0x3FFF))
      else if prg_ram_window addr cart then prg_ram_load cart addr
      else Some 0)"

text \<open>The result is the new \<open>bank_select\<close> and the new cartridge.\<close>

definition mapper_2_cpu_write :: "u8 \<Rightarrow> nes_cartridge \<Rightarrow> u16 \<Rightarrow> u8 \<Rightarrow> (u8 \<times> nes_cartridge) option" where
  "mapper_2_cpu_write bank_select cart addr val =
     (if addr \<ge> 0x8000 then Some (val, cart)
      else if prg_ram_window addr cart
      then do { cart' \<leftarrow> prg_ram_store cart addr val; Some (bank_select, cart') }
      else Some (bank_select, cart))"

text \<open>Mappers 2, 4 and 7 share the bodies of their CHR accessors with each other.\<close>

definition mapper_2_ppu_read :: "nes_cartridge \<Rightarrow> u16 \<Rightarrow> u8 option" where
  "mapper_2_ppu_read cart addr =
     (if addr < 0x2000 \<and> cart_chr_rom cart \<noteq> None then chr_read_masked cart addr else Some 0)"

definition mapper_2_ppu_write :: "nes_cartridge \<Rightarrow> u16 \<Rightarrow> u8 \<Rightarrow> nes_cartridge option" where
  "mapper_2_ppu_write cart addr val =
     (if addr < 0x2000 \<and> info_has_chrram (cart_info cart) \<noteq> 0
      then chr_write_masked cart addr val else Some cart)"

subsection \<open>Mapper 3 (CNROM)\<close>

definition mapper_3_cpu_read :: "nes_cartridge \<Rightarrow> u16 \<Rightarrow> u8 option" where
  "mapper_3_cpu_read cart addr =
     (if addr \<ge> 0x8000 then prg_fetch cart (ucast (addr AND 0x7FFF))
      else if prg_ram_window addr cart then prg_ram_load cart addr
      else Some 0)"

definition mapper_3_cpu_write :: "u8 \<Rightarrow> nes_cartridge \<Rightarrow> u16 \<Rightarrow> u8 \<Rightarrow> (u8 \<times> nes_cartridge) option" where
  "mapper_3_cpu_write chr_bank cart addr val =
     (if addr \<ge> 0x8000 then Some (val AND 0x03, cart)
      else if prg_ram_window addr cart
      then do { cart' \<leftarrow> prg_ram_store cart addr val; Some (chr_bank, cart') }
      else Some (chr_bank, cart))"

definition mapper_3_ppu_read :: "u8 \<Rightarrow> nes_cartridge \<Rightarrow> u16 \<Rightarrow> u8 option" where
  "mapper_3_ppu_read chr_bank cart addr =
     (if addr < 0x2000 \<and> cart_chr_rom cart \<noteq> None
      then chr_fetch cart
             (bank_base (chr_bank AND word_of_int (info_chr_rom_banks (cart_info cart) - 1))
                NES_CHR_ROM_SIZE addr)
      else Some 0)"

definition mapper_3_ppu_write :: "u8 \<Rightarrow> nes_cartridge \<Rightarrow> u16 \<Rightarrow> u8 \<Rightarrow> nes_cartridge option" where
  "mapper_3_ppu_write chr_bank cart addr val =
     (if addr < 0x2000 \<and> info_has_chrram (cart_info cart) \<noteq> 0
      then chr_store_mod cart (bank_base (drop_bit 3 chr_bank AND 0x03) NES_CHR_ROM_SIZE addr) val
      else Some cart)"

subsection \<open>Mapper 4 (MMC3, simplified in the source)\<close>

record mapper_4_ctx =
  m4_registers :: "nat \<Rightarrow> u8"
  m4_bank_select :: u8
  m4_irq_counter :: u8
  m4_irq_latch :: u8
  m4_irq_enabled :: u8
  m4_irq_reload :: u8
  m4_prg_mode :: u8
  m4_chr_mode :: u8

definition mapper_4_init :: mapper_4_ctx where
  "mapper_4_init =
     \<lparr>m4_registers = (\<lambda>i. 0), m4_bank_select = 0, m4_irq_counter = 0, m4_irq_latch = 0,
      m4_irq_enabled = 0, m4_irq_reload = 0, m4_prg_mode = 0, m4_chr_mode = 0\<rparr>"

text \<open>The read has a side effect on \<open>irq_enabled\<close>; the result carries the new context.\<close>

definition mapper_4_cpu_read :: "mapper_4_ctx \<Rightarrow> nes_cartridge \<Rightarrow> u16 \<Rightarrow> (u8 \<times> mapper_4_ctx) option" where
  "mapper_4_cpu_read m cart addr =
     (let m1 = (if addr = 0xE000 then m\<lparr>m4_irq_enabled := 0\<rparr>
                else if addr = 0xE001 then m\<lparr>m4_irq_enabled := 1\<rparr> else m);
          banks = info_prg_rom_banks (cart_info cart)
      in if addr \<ge> 0x8000
         then (let bank =
                 (if m4_prg_mode m1 = 0
                  then (if addr < 0xA000 then m4_registers m1 6
                        else if addr < 0xC000 then m4_registers m1 7
                        else if addr < 0xE000 then word_of_int (banks - 2)
                        else word_of_int (banks - 1))
                  else (if addr < 0xA000 then word_of_int (banks - 2)
                        else if addr < 0xC000 then m4_registers m1 7
                        else if addr < 0xE000 then m4_registers m1 6
                        else word_of_int (banks - 1)))
               in do { v \<leftarrow> prg_fetch cart
                               (ucast bank * word_of_int NES_PRG_ROM_SIZE * 8 + ucast (addr AND 0x1FFF));
                       Some (v, m1) })
         else if prg_ram_window addr cart
         then do { v \<leftarrow> prg_ram_load cart addr; Some (v, m1) }
         else Some (0, m1))"

definition mapper_4_write :: "mapper_4_ctx \<Rightarrow> nes_cartridge \<Rightarrow> u16 \<Rightarrow> u8 \<Rightarrow> (mapper_4_ctx \<times> nes_cartridge) option" where
  "mapper_4_write m cart addr val =
     (if addr \<ge> 0x8000 \<and> addr < 0xA001
      then (if addr AND 1 \<noteq> 0
            then Some (m\<lparr>m4_bank_select := val,
                         m4_prg_mode := drop_bit 6 val AND 1,
                         m4_chr_mode := drop_bit 7 val AND 1\<rparr>, cart)
            else Some (m, cart))
      else if addr \<ge> 0xA000 \<and> addr < 0xC001
      then Some (m\<lparr>m4_registers := (m4_registers m)(unat (m4_bank_select m AND 7) := val)\<rparr>, cart)
      else if addr \<ge> 0xC000 \<and> addr < 0xE001
      then (if addr AND 1 \<noteq> 0 then Some (m\<lparr>m4_irq_reload := 1\<rparr>, cart)
            else Some (m\<lparr>m4_irq_latch := val\<rparr>, cart))
      else if addr \<ge> 0xE000
      then (if addr AND 1 \<noteq> 0 then Some (m\<lparr>m4_irq_enabled := 1\<rparr>, cart)
            else Some (m\<lparr>m4_irq_enabled := 0\<rparr>, cart))
      else if prg_ram_window addr cart
      then do { cart' \<leftarrow> prg_ram_store cart addr val; Some (m, cart') }
      else Some (m, cart))"

definition mapper_4_ppu_read :: "mapper_4_ctx \<Rightarrow> nes_cartridge \<Rightarrow> u16 \<Rightarrow> u8 option" where
  "mapper_4_ppu_read m cart addr =
     (if addr < 0x2000 \<and> cart_chr_rom cart \<noteq> None
      then (let bank =
              (if m4_chr_mode m = 0
               then (if addr < 0x0800 then m4_registers m 0 AND 0xFE
                     else if addr < 0x1000 then m4_registers m 1 AND 0xFE
                     else if addr < 0x1400 then m4_registers m 2 AND 0xFE
                     else if addr < 0x1800 then m4_registers m 3 AND 0xFE
                     else if addr < 0x1C00 then m4_registers m 4 AND 0xFE
                     else m4_registers m 5 AND 0xFE)
               else (if addr < 0x0400 then m4_registers m 0
                     else if addr < 0x0800 then m4_registers m 1
                     else if addr < 0x0C00 then m4_registers m 2
                     else if addr < 0x1000 then m4_registers m 3
                     else if addr < 0x1400 then m4_registers m 4
                     else m4_registers m 5))
            in chr_fetch cart (bank_base bank NES_CHR_ROM_SIZE addr))
      else Some 0)"

subsection \<open>Mapper 7 (AxROM)\<close>

definition mapper_7_cpu_read :: "u8 \<Rightarrow> nes_cartridge \<Rightarrow> u16 \<Rightarrow> u8 option" where
  "mapper_7_cpu_read prg_bank cart addr =
     (if addr \<ge> 0x8000
      then prg_fetch cart
             (bank_base (prg_bank AND word_of_int (info_prg_rom_banks (cart_info cart) - 1))
                NES_PRG_ROM_SIZE (addr AND 0x7FFF))
      else Some 0)"

text \<open>The result is the new \<open>prg_bank\<close> and the new \<open>g_mirror_mode\<close>.\<close>

definition mapper_7_cpu_write :: "u8 \<Rightarrow> mirroring_t \<Rightarrow> u16 \<Rightarrow> u8 \<Rightarrow> u8 \<times> mirroring_t" where
  "mapper_7_cpu_write prg_bank g_mirror_mode addr val =
     (if addr \<ge> 0x8000
      then (val AND 0x07,
            nes_ppu_set_mirror_mode g_mirror_mode (if val AND 0x10 \<noteq> 0 then 3 else 2))
      else (prg_bank, g_mirror_mode))"

subsection \<open>The mapper object\<close>

text \<open>
  \<open>nes_mapper_t\<close> is a table of function pointers and a context pointer.  A value of
  \<open>nes_mapper\<close> names the mapper whose functions \<open>nes_mapper_create\<close> installed, with its
  context; \<open>MapperNull\<close> is the table after \<open>nes_mapper_destroy\<close>, all \<open>NULL\<close>.  The
  \<open>reset\<close>, \<open>scanline\<close> and \<open>clock_irq\<close> callbacks are \<open>NULL\<close> in every mapper.
\<close>

datatype nes_mapper =
    Mapper0
  | Mapper1 mapper_1_ctx
  | Mapper2 u8
  | Mapper3 u8
  | Mapper4 mapper_4_ctx
  | Mapper7 u8
  | MapperNull

definition nes_mapper_create :: "nes_cartridge \<Rightarrow> nes_mapper option" where
  "nes_mapper_create cart =
     (let mapper_num = info_mapper (cart_info cart) in
      if mapper_num = 0 then Some Mapper0
      else if mapper_num = 1 then Some (Mapper1 mapper_1_init)
      else if mapper_num = 2 then Some (Mapper2 0)
      else if mapper_num = 3 then Some (Mapper3 0)
      else if mapper_num = 4 then Some (Mapper4 mapper_4_init)
      else if mapper_num = 7 then Some (Mapper7 0)
      else None)"

section \<open>cpu/cpu.h, ppu/ppu.h, memory/bus.h: the state of the machine\<close>

text \<open>\<open>cpu_registers_t\<close> and \<open>nes_cpu_t\<close> (the constant \<open>opcode_table\<close> pointer is left out).\<close>

record cpu_registers =
  reg_pc :: u16
  reg_a :: u8
  reg_x :: u8
  reg_y :: u8
  reg_sp :: u8
  reg_p :: u8

record nes_cpu =
  reg :: cpu_registers
  cycle_count :: u32
  pending_nmi :: u8
  pending_irq :: u8
  stall_cycles :: u8

text \<open>\<open>ppu_sprite_t\<close>, and \<open>nes_ppu_t\<close> with \<open>ppu_registers_t\<close> and \<open>ppu_scroll_t\<close> inlined
  (\<open>ppu_ctrl\<close> is \<open>reg.ctrl\<close>, \<open>scroll_v\<close> is \<open>reg.scroll.v\<close>).  The three callback fields
  are never used and are left out.\<close>

record ppu_sprite =
  spr_y :: u8
  spr_tile :: u8
  spr_attr :: u8
  spr_x :: u8

record nes_ppu =
  ppu_ctrl :: u8
  ppu_mask :: u8
  ppu_status :: u8
  ppu_oam_addr :: u8
  ppu_data_buffer :: u8
  scroll_v :: u16
  scroll_t :: u16
  scroll_x :: u8
  scroll_w :: u8
  vram :: "u16 \<Rightarrow> u8"
  palette :: "u16 \<Rightarrow> u8"
  oam :: "u8 \<Rightarrow> u8"
  secondary_oam :: "u8 \<Rightarrow> u8"
  scanline :: u16
  cycle :: u16
  ppu_frame :: u32
  odd_frame :: u8
  sprite_count :: u8
  sprite_pattern :: "nat \<Rightarrow> u8"
  sprites :: "nat \<Rightarrow> ppu_sprite"
  background_shift_lo :: u8
  background_shift_hi :: u8
  attribute_shift_lo :: u8
  attribute_shift_hi :: u8
  attribute_latch_lo :: u8
  attribute_latch_hi :: u8
  background_fetch_tile :: u8
  background_fetch_attr :: u8

text \<open>
  \<open>nes_system_t\<close>, together with the file-scope variables of ppu.c that the functions
  below read and write: \<open>g_mirror_mode\<close> and \<open>g_frame_buffer\<close> (256 * 240 bytes).
  The components are the objects the struct points to; \<open>mapper\<close> is \<open>None\<close> for a
  \<open>NULL\<close> pointer.  \<open>ram\<close> is indexed by addresses below \<open>0x800\<close>.

  The model is of a system after \<open>nes_sys_init\<close>: the bus callbacks of the CPU and of
  the PPU are installed (\<open>g_bus\<close> and \<open>g_ppu_bus\<close> point to \<open>nes_sys_cpu_read\<close>,
  \<open>nes_sys_cpu_write\<close>, \<open>nes_sys_ppu_read\<close> and \<open>nes_sys_ppu_write\<close> with the system as
  context), so the \<open>NULL\<close> tests on them succeed.
\<close>

record nes_system =
  cpu :: nes_cpu
  ppu :: nes_ppu
  apu :: nes_apu
  input :: nes_input
  cartridge :: nes_cartridge
  mapper :: "nes_mapper option"
  ram :: "u16 \<Rightarrow> u8"
  cpu_cycles_per_frame :: u32
  ppu_cycles_per_frame :: u32
  frame_complete :: int
  running :: int
  paused :: int
  g_mirror_mode :: mirroring_t
  g_frame_buffer :: "nat \<Rightarrow> u8"

definition NES_RAM_END :: u16 where "NES_RAM_END = 0x07FF"
definition NES_RAM_MIRRORS :: u16 where "NES_RAM_MIRRORS = 0x1FFF"
definition NES_ADDR_PPU_REG :: u16 where "NES_ADDR_PPU_REG = 0x2000"
definition NES_ADDR_APU_REG :: u16 where "NES_ADDR_APU_REG = 0x4000"
definition NES_ADDR_CARTRIDGE :: u16 where "NES_ADDR_CARTRIDGE = 0x4020"
definition CONTROLLER_1 :: u16 where "CONTROLLER_1 = 0x4016"
definition CONTROLLER_2 :: u16 where "CONTROLLER_2 = 0x4017"
definition JOY_STROBE :: u16 where "JOY_STROBE = 0x4016"
definition OAM_DMA_ADDR :: u16 where "OAM_DMA_ADDR = 0x4014"
definition NES_CPU_PPU_RATIO :: u32 where "NES_CPU_PPU_RATIO = 3"
definition NES_CPU_CYCLES_PER_FRAME :: u32 where "NES_CPU_CYCLES_PER_FRAME = 29780"
definition NES_PPU_CYCLES_PER_FRAME :: u32 where "NES_PPU_CYCLES_PER_FRAME = 89341"

definition PPUCTRL_NMI :: u8 where "PPUCTRL_NMI = 0x80"
definition PPUCTRL_INC32 :: u8 where "PPUCTRL_INC32 = 0x04"
definition PPUSTATUS_VBLANK :: u8 where "PPUSTATUS_VBLANK = 0x80"
definition PPUSTATUS_SP0_HIT :: u8 where "PPUSTATUS_SP0_HIT = 0x40"
definition PPUSTATUS_SP_OVF :: u8 where "PPUSTATUS_SP_OVF = 0x20"

section \<open>memory/bus.c: the PPU's side of the bus\<close>

text \<open>The mapper's \<open>ppu_read\<close> and \<open>ppu_write\<close> entries.\<close>

definition mapper_ppu_read :: "nes_mapper \<Rightarrow> nes_cartridge \<Rightarrow> u16 \<Rightarrow> u8 option" where
  "mapper_ppu_read mp cart addr =
     (case mp of
        Mapper0 \<Rightarrow> mapper_0_ppu_read cart addr
      | Mapper1 m \<Rightarrow> mapper_1_ppu_read m cart addr
      | Mapper2 b \<Rightarrow> mapper_2_ppu_read cart addr
      | Mapper3 b \<Rightarrow> mapper_3_ppu_read b cart addr
      | Mapper4 m \<Rightarrow> mapper_4_ppu_read m cart addr
      | Mapper7 b \<Rightarrow> mapper_2_ppu_read cart addr
      | MapperNull \<Rightarrow> None)"

definition mapper_ppu_write :: "nes_mapper \<Rightarrow> nes_cartridge \<Rightarrow> u16 \<Rightarrow> u8 \<Rightarrow> nes_cartridge option" where
  "mapper_ppu_write mp cart addr val =
     (case mp of
        Mapper0 \<Rightarrow> mapper_0_ppu_write cart addr val
      | Mapper1 m \<Rightarrow> mapper_1_ppu_write m cart addr val
      | Mapper2 b \<Rightarrow> mapper_2_ppu_write cart addr val
      | Mapper3 b \<Rightarrow> mapper_3_ppu_write b cart addr val
      | Mapper4 m \<Rightarrow> mapper_2_ppu_write cart addr val
      | Mapper7 b \<Rightarrow> mapper_2_ppu_write cart addr val
      | MapperNull \<Rightarrow> None)"

text \<open>\<open>sys->mapper && sys->mapper->ppu_read\<close>.\<close>

definition has_mapper_callbacks :: "nes_system \<Rightarrow> bool" where
  "has_mapper_callbacks s \<longleftrightarrow> mapper s \<noteq> None \<and> mapper s \<noteq> Some MapperNull"

definition nes_sys_ppu_read :: "nes_system \<Rightarrow> u16 \<Rightarrow> u8 option" where
  "nes_sys_ppu_read s addr =
     (if has_mapper_callbacks s
      then mapper_ppu_read (the (mapper s)) (cartridge s) addr
      else nes_cartridge_read_chr (cartridge s) (ucast addr))"

definition nes_sys_ppu_write :: "nes_system \<Rightarrow> u16 \<Rightarrow> u8 \<Rightarrow> nes_system option" where
  "nes_sys_ppu_write s addr val =
     do { cart' \<leftarrow> (if has_mapper_callbacks s
                     then mapper_ppu_write (the (mapper s)) (cartridge s) addr val
                     else nes_cartridge_write_chr_ram (cartridge s) (ucast addr) val);
          Some (s\<lparr>cartridge := cart'\<rparr>) }"

section \<open>ppu/ppu.c: memory and registers of the PPU\<close>

text \<open>The first colour component of \<open>g_nes_palette\<close>, which is all that \<open>read_palette\<close> uses.\<close>

definition g_nes_palette_0 :: "u8 list" where
  "g_nes_palette_0 =
    [0x66, 0x00, 0x14, 0x3B, 0x5C, 0x6E, 0x6C, 0x56,
     0x33, 0x0B, 0x00, 0x00, 0x00, 0x00, 0x00, 0x00,
     0xAD, 0x15, 0x42, 0x75, 0xA0, 0xB7, 0xB5, 0x99,
     0x6B, 0x38, 0x0C, 0x00, 0x00, 0x00, 0x00, 0x00,
     0xFF, 0x64, 0x92, 0xC6, 0xF3, 0xFE, 0xFE, 0xEA,
     0xBC, 0x88, 0x5C, 0x45, 0x48, 0x4F, 0x00, 0x00,
     0xFF, 0xC0, 0xD3, 0xE8, 0xFB, 0xFE, 0xFE, 0xF7,
     0xE4, 0xCF, 0xBD, 0xB3, 0xB5, 0xB8, 0x00, 0x00]"

definition read_name_table_addr :: "mirroring_t \<Rightarrow> u16 \<Rightarrow> u16" where
  "read_name_table_addr mm addr =
     (let base = addr AND 0x03FF;
          sel = addr AND 0x0C00;
          base' =
            (if sel = 0x0000 then base
             else if sel = 0x0400 then
               (case mm of
                  MIRROR_HORIZONTAL \<Rightarrow> base OR 0x0400
                | MIRROR_VERTICAL \<Rightarrow> base AND NOT 0x0400
                | MIRROR_SINGLE_0 \<Rightarrow> base AND NOT 0x0400
                | MIRROR_SINGLE_1 \<Rightarrow> base OR 0x0400
                | MIRROR_FOUR_SCREEN \<Rightarrow> base OR 0x0400)
             else if sel = 0x0800 then
               (case mm of
                  MIRROR_HORIZONTAL \<Rightarrow> base AND NOT 0x0400
                | MIRROR_VERTICAL \<Rightarrow> base OR 0x0400
                | MIRROR_SINGLE_0 \<Rightarrow> base AND NOT 0x0400
                | MIRROR_SINGLE_1 \<Rightarrow> base OR 0x0400
                | MIRROR_FOUR_SCREEN \<Rightarrow> base OR 0x0800)
             else
               (case mm of
                  MIRROR_HORIZONTAL \<Rightarrow> base OR 0x0400
                | MIRROR_VERTICAL \<Rightarrow> base OR 0x0400
                | MIRROR_SINGLE_0 \<Rightarrow> base AND NOT 0x0400
                | MIRROR_SINGLE_1 \<Rightarrow> base OR 0x0400
                | MIRROR_FOUR_SCREEN \<Rightarrow> base OR 0x0C00))
      in 0x2000 OR base')"

definition read_palette :: "u16 \<Rightarrow> u8" where
  "read_palette addr =
     (let a1 = addr AND 0x1F;
          a2 = (if a1 AND 0x13 = 0x10 then a1 AND NOT 0x10 else a1)
      in g_nes_palette_0 ! (unat a2 mod 0x40))"

text \<open>The index \<open>(mirrored - 0x2000) & 0xFFF\<close> of a nametable byte.\<close>

definition nametable_index :: "mirroring_t \<Rightarrow> u16 \<Rightarrow> u16" where
  "nametable_index mm addr = (read_name_table_addr mm addr - 0x2000) AND 0xFFF"

definition ppu_read_vram :: "nes_system \<Rightarrow> u16 \<Rightarrow> u8 option" where
  "ppu_read_vram s addr0 =
     (let addr = addr0 AND 0x3FFF in
      if addr < 0x2000 then nes_sys_ppu_read s addr
      else if addr < 0x3F00
      then Some (g_frame_buffer s (unat (nametable_index (g_mirror_mode s) addr)))
      else Some (read_palette addr))"

definition ppu_write_vram :: "nes_system \<Rightarrow> u16 \<Rightarrow> u8 \<Rightarrow> nes_system option" where
  "ppu_write_vram s addr0 val =
     (let addr = addr0 AND 0x3FFF in
      if addr < 0x2000 then nes_sys_ppu_write s addr val
      else if addr < 0x3F00
      then Some (s\<lparr>ppu := (ppu s)\<lparr>vram := (vram (ppu s))
                    (nametable_index (g_mirror_mode s) addr := val)\<rparr>\<rparr>)
      else (let a1 = addr AND 0x1F;
                a2 = (if a1 AND 0x13 = 0x10 then a1 AND NOT 0x10 else a1)
            in Some (s\<lparr>ppu := (ppu s)\<lparr>palette := (palette (ppu s))(a2 := val AND 0x3F)\<rparr>\<rparr>)))"

definition increment_vram_addr :: "nes_ppu \<Rightarrow> nes_ppu" where
  "increment_vram_addr p =
     p\<lparr>scroll_v := (if ppu_ctrl p AND PPUCTRL_INC32 \<noteq> 0 then scroll_v p + 32
                     else scroll_v p + 1) AND 0x7FFF\<rparr>"

definition write_ppu_scroll_x :: "nes_ppu \<Rightarrow> u8 \<Rightarrow> nes_ppu" where
  "write_ppu_scroll_x p val =
     p\<lparr>scroll_t := (scroll_t p AND NOT 0x001F) OR (ucast (drop_bit 3 val) AND 0x001F),
       scroll_x := val AND 0x07,
       scroll_w := 1\<rparr>"

definition write_ppu_scroll_y :: "nes_ppu \<Rightarrow> u8 \<Rightarrow> nes_ppu" where
  "write_ppu_scroll_y p val =
     (let t1 = (scroll_t p AND 0xFBE0) OR push_bit 2 (ucast (val AND 0xF8));
          t2 = (t1 AND 0x7C1F) OR push_bit 12 (ucast (val AND 0x07))
      in p\<lparr>scroll_t := t2, scroll_w := 0\<rparr>)"

definition write_ppu_addr :: "nes_ppu \<Rightarrow> u8 \<Rightarrow> nes_ppu" where
  "write_ppu_addr p val =
     (if scroll_w p = 0
      then p\<lparr>scroll_t := (scroll_t p AND 0x80FF) OR push_bit 8 (ucast val AND 0x3F),
             scroll_v := (scroll_v p AND 0x80FF) OR push_bit 8 (ucast val AND 0x3F),
             scroll_w := 1\<rparr>
      else p\<lparr>scroll_t := (scroll_t p AND 0x7F00) OR ucast val,
             scroll_v := (scroll_v p AND 0x7F00) OR ucast val,
             scroll_w := 0\<rparr>)"

text \<open>\<open>nes_ppu_init\<close> after the \<open>memset\<close>, and \<open>nes_ppu_reset\<close>.\<close>

definition nes_ppu_init :: nes_ppu where
  "nes_ppu_init =
     \<lparr>ppu_ctrl = 0, ppu_mask = 0, ppu_status = PPUSTATUS_VBLANK, ppu_oam_addr = 0,
      ppu_data_buffer = 0, scroll_v = 0, scroll_t = 0, scroll_x = 0, scroll_w = 0,
      vram = (\<lambda>i. 0), palette = (\<lambda>i. ucast i), oam = (\<lambda>i. 0), secondary_oam = (\<lambda>i. 0),
      scanline = 261, cycle = 0, ppu_frame = 0, odd_frame = 0, sprite_count = 0,
      sprite_pattern = (\<lambda>i. 0),
      sprites = (\<lambda>i. \<lparr>spr_y = 0, spr_tile = 0, spr_attr = 0, spr_x = 0\<rparr>),
      background_shift_lo = 0, background_shift_hi = 0, attribute_shift_lo = 0,
      attribute_shift_hi = 0, attribute_latch_lo = 0, attribute_latch_hi = 0,
      background_fetch_tile = 0, background_fetch_attr = 0\<rparr>"

definition nes_ppu_reset :: "nes_ppu \<Rightarrow> nes_ppu" where
  "nes_ppu_reset p =
     p\<lparr>ppu_ctrl := 0, ppu_mask := 0, ppu_oam_addr := 0, scroll_w := 0, ppu_data_buffer := 0,
       ppu_status := PPUSTATUS_VBLANK, scanline := 261, cycle := 0, ppu_frame := 0,
       odd_frame := 0, sprite_count := 0\<rparr>"

text \<open>
  \<open>nes_ppu_cpu_write\<close> and \<open>nes_ppu_cpu_read\<close>, on the system since \<open>$2007\<close> goes through
  the PPU's bus to the cartridge.  Both mask the address with 7; registers that a
  \<open>switch\<close> does not list fall through.
\<close>

definition nes_ppu_cpu_write :: "nes_system \<Rightarrow> u16 \<Rightarrow> u8 \<Rightarrow> nes_system option" where
  "nes_ppu_cpu_write s addr0 val =
     (let addr = addr0 AND 0x0007; p = ppu s in
      if addr = 0
      then Some (s\<lparr>ppu := p\<lparr>ppu_ctrl := val,
                   scroll_t := (scroll_t p AND 0x73FF) OR push_bit 10 (ucast (val AND 0x03))\<rparr>\<rparr>)
      else if addr = 1 then Some (s\<lparr>ppu := p\<lparr>ppu_mask := val\<rparr>\<rparr>)
      else if addr = 3 then Some (s\<lparr>ppu := p\<lparr>ppu_oam_addr := val\<rparr>\<rparr>)
      else if addr = 4
      then Some (s\<lparr>ppu := p\<lparr>oam := (oam p)(ppu_oam_addr p := val),
                             ppu_oam_addr := ppu_oam_addr p + 1\<rparr>\<rparr>)
      else if addr = 5
      then Some (s\<lparr>ppu := (if scroll_w p = 0 then write_ppu_scroll_x p val
                             else write_ppu_scroll_y p val)\<rparr>)
      else if addr = 6 then Some (s\<lparr>ppu := write_ppu_addr p val\<rparr>)
      else if addr = 7
      then do { s1 \<leftarrow> ppu_write_vram s (scroll_v p) val;
                Some (s1\<lparr>ppu := increment_vram_addr (ppu s1)\<rparr>) }
      else Some s)"

definition nes_ppu_cpu_read :: "nes_system \<Rightarrow> u16 \<Rightarrow> (u8 \<times> nes_system) option" where
  "nes_ppu_cpu_read s addr0 =
     (let addr = addr0 AND 0x0007; p = ppu s in
      if addr = 2
      then Some ((ppu_status p AND (PPUSTATUS_VBLANK OR PPUSTATUS_SP0_HIT OR PPUSTATUS_SP_OVF))
                   OR (ppu_data_buffer p AND 0x1F),
                 s\<lparr>ppu := p\<lparr>ppu_status := ppu_status p AND NOT PPUSTATUS_VBLANK,
                            scroll_w := 0\<rparr>\<rparr>)
      else if addr = 4 then Some (oam p (ppu_oam_addr p), s)
      else if addr = 7
      then do { b \<leftarrow> ppu_read_vram s (scroll_v p);
                Some (if scroll_v p AND 0x3FFF \<ge> 0x3F00 then b else ppu_data_buffer p,
                      s\<lparr>ppu := increment_vram_addr (p\<lparr>ppu_data_buffer := b\<rparr>)\<rparr>) }
      else Some (0, s))"

text \<open>\<open>nes_ppu_oam_dma\<close>: the loop \<open>oam[(oam_addr + i) & 0xFF] = page_data[i]\<close> for
  \<open>i\<close> from 0 to 255; \<open>page_data\<close> is given as the function \<open>i \<mapsto> page_data[i]\<close>.\<close>

definition nes_ppu_oam_dma :: "nes_ppu \<Rightarrow> (nat \<Rightarrow> u8) \<Rightarrow> nes_ppu" where
  "nes_ppu_oam_dma p page_data =
     p\<lparr>oam := fold (\<lambda>i m. m(ppu_oam_addr p + of_nat i := page_data i)) [0..<256] (oam p)\<rparr>"

section \<open>memory/bus.c: the CPU's side of the bus\<close>

text \<open>The mapper's \<open>cpu_read\<close> entry.  Only mapper 4 changes its context on a read.\<close>

definition mapper_cpu_read :: "nes_mapper \<Rightarrow> nes_cartridge \<Rightarrow> u16 \<Rightarrow> (u8 \<times> nes_mapper) option" where
  "mapper_cpu_read mp cart addr =
     (case mp of
        Mapper0 \<Rightarrow> do { v \<leftarrow> mapper_0_cpu_read cart addr; Some (v, mp) }
      | Mapper1 m \<Rightarrow> do { v \<leftarrow> mapper_1_cpu_read m cart addr; Some (v, mp) }
      | Mapper2 b \<Rightarrow> do { v \<leftarrow> mapper_2_cpu_read b cart addr; Some (v, mp) }
      | Mapper3 b \<Rightarrow> do { v \<leftarrow> mapper_3_cpu_read cart addr; Some (v, mp) }
      | Mapper4 m \<Rightarrow> do { (v, m') \<leftarrow> mapper_4_cpu_read m cart addr; Some (v, Mapper4 m') }
      | Mapper7 b \<Rightarrow> do { v \<leftarrow> mapper_7_cpu_read b cart addr; Some (v, mp) }
      | MapperNull \<Rightarrow> None)"

text \<open>The mapper's \<open>cpu_write\<close> entry: the new mapper, cartridge and \<open>g_mirror_mode\<close>.\<close>

definition mapper_cpu_write ::
  "nes_mapper \<Rightarrow> nes_cartridge \<Rightarrow> mirroring_t \<Rightarrow> u16 \<Rightarrow> u8 \<Rightarrow> (nes_mapper \<times> nes_cartridge \<times> mirroring_t) option" where
  "mapper_cpu_write mp cart mm addr val =
     (case mp of
        Mapper0 \<Rightarrow> Some (mp, cart, mm)
      | Mapper1 m \<Rightarrow> (case mapper_1_write m mm addr val of (m', mm') \<Rightarrow> Some (Mapper1 m', cart, mm'))
      | Mapper2 b \<Rightarrow> do { (b', cart') \<leftarrow> mapper_2_cpu_write b cart addr val; Some (Mapper2 b', cart', mm) }
      | Mapper3 b \<Rightarrow> do { (b', cart') \<leftarrow> mapper_3_cpu_write b cart addr val; Some (Mapper3 b', cart', mm) }
      | Mapper4 m \<Rightarrow> do { (m', cart') \<leftarrow> mapper_4_write m cart addr val; Some (Mapper4 m', cart', mm) }
      | Mapper7 b \<Rightarrow> (case mapper_7_cpu_write b mm addr val of (b', mm') \<Rightarrow> Some (Mapper7 b', cart, mm'))
      | MapperNull \<Rightarrow> None)"

text \<open>
  \<open>nes_sys_cpu_read\<close>.  The tests are the source's, in its order: RAM below
  \<open>NES_RAM_MIRRORS\<close>, the eight PPU registers, the APU and controller block, the
  cartridge, and last the "open bus" return of \<open>ram[addr & NES_RAM_END]\<close>.
\<close>

definition nes_sys_cpu_read :: "nes_system \<Rightarrow> u16 \<Rightarrow> (u8 \<times> nes_system) option" where
  "nes_sys_cpu_read s addr =
     (if addr < NES_RAM_MIRRORS then Some (ram s (addr AND NES_RAM_END), s)
      else if addr \<ge> NES_ADDR_PPU_REG \<and> addr < NES_ADDR_PPU_REG + 8
      then nes_ppu_cpu_read s (addr AND 7)
      else if addr \<ge> NES_ADDR_APU_REG \<and> addr < NES_ADDR_CARTRIDGE
      then (if addr = 0x4015 then Some (nes_apu_cpu_read (apu s) addr, s)
            else if addr = CONTROLLER_1 \<or> addr = CONTROLLER_2
            then (case nes_input_read (input s) (if addr = CONTROLLER_1 then 0 else 1) of
                    (v, inp) \<Rightarrow> Some (v, s\<lparr>input := inp\<rparr>))
            else Some (nes_apu_cpu_read (apu s) addr, s))
      else if addr \<ge> NES_ADDR_CARTRIDGE \<and> mapper s \<noteq> None \<and> addr \<ge> 0x6000 \<and> addr < 0x8000
      then do { v \<leftarrow> nes_cartridge_read_prg_ram (cartridge s) (ucast (addr - 0x6000));
                Some (v, s) }
      else if addr \<ge> NES_ADDR_CARTRIDGE \<and> has_mapper_callbacks s
      then do { (v, mp) \<leftarrow> mapper_cpu_read (the (mapper s)) (cartridge s) addr;
                Some (v, s\<lparr>mapper := Some mp\<rparr>) }
      else Some (ram s (addr AND NES_RAM_END), s))"

text \<open>
  \<open>nes_sys_cpu_write\<close>.  Its \<open>OAM_DMA_ADDR\<close> case calls \<open>nes_sys_oam_dma\<close>, which runs
  the CPU, which writes to the bus again; the first argument stands for that call, and
  the recursion is closed further down.  A write that no test accepts does nothing.
\<close>

definition nes_sys_cpu_write_body ::
  "(nes_system \<Rightarrow> u8 \<Rightarrow> nes_system option) \<Rightarrow> nes_system \<Rightarrow> u16 \<Rightarrow> u8 \<Rightarrow> nes_system option" where
  "nes_sys_cpu_write_body oam_dma s addr val =
     (if addr < NES_RAM_MIRRORS then Some (s\<lparr>ram := (ram s)(addr AND NES_RAM_END := val)\<rparr>)
      else if addr \<ge> NES_ADDR_PPU_REG \<and> addr < NES_ADDR_PPU_REG + 8
      then nes_ppu_cpu_write s (addr AND 7) val
      else if addr \<ge> NES_ADDR_APU_REG \<and> addr < NES_ADDR_CARTRIDGE
      then (if addr = OAM_DMA_ADDR then oam_dma s val
            else if addr = JOY_STROBE
            then Some (s\<lparr>input := nes_input_write_strobe (input s) val\<rparr>)
            else Some (s\<lparr>apu := nes_apu_cpu_write (apu s) addr val\<rparr>))
      else if addr \<ge> 0x6000 \<and> mapper s \<noteq> None
      then do { cart1 \<leftarrow> (if addr \<ge> 0x6000 \<and> addr < 0x8000
                          then nes_cartridge_write_prg_ram (cartridge s) (ucast (addr - 0x6000)) val
                          else Some (cartridge s));
                if has_mapper_callbacks s
                then do { (mp, cart2, mm) \<leftarrow>
                            mapper_cpu_write (the (mapper s)) cart1 (g_mirror_mode s) addr val;
                          Some (s\<lparr>cartridge := cart2, mapper := Some mp, g_mirror_mode := mm\<rparr>) }
                else Some (s\<lparr>cartridge := cart1\<rparr>) }
      else Some s)"

section \<open>cpu/cpu.c: the 6502 interpreter\<close>

datatype addr_mode_t =
    MODE_IMPLIED
  | MODE_ACCUMULATOR
  | MODE_IMMEDIATE
  | MODE_ZERO_PAGE
  | MODE_ZERO_PAGE_X
  | MODE_ZERO_PAGE_Y
  | MODE_ABSOLUTE
  | MODE_ABSOLUTE_X
  | MODE_ABSOLUTE_Y
  | MODE_INDIRECT
  | MODE_INDEXED_INDIRECT
  | MODE_INDIRECT_INDEXED
  | MODE_RELATIVE

text \<open>\<open>g_opcode_table\<close>: addressing mode and base cycles of each opcode, \<open>$00\<close> first.  The
  mnemonic and the length of \<open>opcode_info_t\<close> serve the disassembler only.\<close>

definition g_opcode_table :: "(addr_mode_t \<times> u8) list" where
  "g_opcode_table =
    [
     (MODE_IMPLIED, 7), (MODE_INDEXED_INDIRECT, 6), (MODE_IMPLIED, 2), (MODE_IMPLIED, 2),
     (MODE_IMPLIED, 2), (MODE_ZERO_PAGE, 3), (MODE_ZERO_PAGE, 5), (MODE_IMPLIED, 2),
     (MODE_IMPLIED, 3), (MODE_IMMEDIATE, 2), (MODE_ACCUMULATOR, 2), (MODE_IMPLIED, 2),
     (MODE_IMPLIED, 2), (MODE_ABSOLUTE, 4), (MODE_ABSOLUTE, 6), (MODE_IMPLIED, 2),
     (MODE_RELATIVE, 2), (MODE_INDIRECT_INDEXED, 5), (MODE_IMPLIED, 2), (MODE_IMPLIED, 2),
     (MODE_IMPLIED, 2), (MODE_ZERO_PAGE_X, 4), (MODE_ZERO_PAGE_X, 6), (MODE_IMPLIED, 2),
     (MODE_IMPLIED, 2), (MODE_ABSOLUTE_Y, 4), (MODE_IMPLIED, 2), (MODE_IMPLIED, 2),
     (MODE_IMPLIED, 2), (MODE_ABSOLUTE_X, 4), (MODE_ABSOLUTE_X, 7), (MODE_IMPLIED, 2),
     (MODE_ABSOLUTE, 6), (MODE_INDEXED_INDIRECT, 6), (MODE_IMPLIED, 2), (MODE_IMPLIED, 2),
     (MODE_ZERO_PAGE, 3), (MODE_ZERO_PAGE, 3), (MODE_ZERO_PAGE, 5), (MODE_IMPLIED, 2),
     (MODE_IMPLIED, 4), (MODE_IMMEDIATE, 2), (MODE_ACCUMULATOR, 2), (MODE_IMPLIED, 2),
     (MODE_ABSOLUTE, 4), (MODE_ABSOLUTE, 4), (MODE_ABSOLUTE, 6), (MODE_IMPLIED, 2),
     (MODE_RELATIVE, 2), (MODE_INDIRECT_INDEXED, 5), (MODE_IMPLIED, 2), (MODE_IMPLIED, 2),
     (MODE_IMPLIED, 2), (MODE_ZERO_PAGE_X, 4), (MODE_ZERO_PAGE_X, 6), (MODE_IMPLIED, 2),
     (MODE_IMPLIED, 2), (MODE_ABSOLUTE_Y, 4), (MODE_IMPLIED, 2), (MODE_IMPLIED, 2),
     (MODE_IMPLIED, 2), (MODE_ABSOLUTE_X, 4), (MODE_ABSOLUTE_X, 7), (MODE_IMPLIED, 2),
     (MODE_IMPLIED, 6), (MODE_INDEXED_INDIRECT, 6), (MODE_IMPLIED, 2), (MODE_IMPLIED, 2),
     (MODE_IMPLIED, 2), (MODE_ZERO_PAGE, 3), (MODE_ZERO_PAGE, 5), (MODE_IMPLIED, 2),
     (MODE_IMPLIED, 3), (MODE_IMMEDIATE, 2), (MODE_ACCUMULATOR, 2), (MODE_IMPLIED, 2),
     (MODE_ABSOLUTE, 3), (MODE_ABSOLUTE, 4), (MODE_ABSOLUTE, 6), (MODE_IMPLIED, 2),
     (MODE_RELATIVE, 2), (MODE_INDIRECT_INDEXED, 5), (MODE_IMPLIED, 2), (MODE_IMPLIED, 2),
     (MODE_IMPLIED, 2), (MODE_ZERO_PAGE_X, 4), (MODE_ZERO_PAGE_X, 6), (MODE_IMPLIED, 2),
     (MODE_IMPLIED, 2), (MODE_ABSOLUTE_Y, 4), (MODE_IMPLIED, 2), (MODE_IMPLIED, 2),
     (MODE_IMPLIED, 2), (MODE_ABSOLUTE_X, 4), (MODE_ABSOLUTE_X, 7), (MODE_IMPLIED, 2),
     (MODE_IMPLIED, 6), (MODE_INDEXED_INDIRECT, 6), (MODE_IMPLIED, 2), (MODE_IMPLIED, 2),
     (MODE_IMPLIED, 2), (MODE_ZERO_PAGE, 3), (MODE_ZERO_PAGE, 5), (MODE_IMPLIED, 2),
     (MODE_IMPLIED, 4), (MODE_IMMEDIATE, 2), (MODE_ACCUMULATOR, 2), (MODE_IMPLIED, 2),
     (MODE_INDIRECT, 5), (MODE_ABSOLUTE, 4), (MODE_ABSOLUTE, 6), (MODE_IMPLIED, 2),
     (MODE_RELATIVE, 2), (MODE_INDIRECT_INDEXED, 5), (MODE_IMPLIED, 2), (MODE_IMPLIED, 2),
     (MODE_IMPLIED, 2), (MODE_ZERO_PAGE_X, 4), (MODE_ZERO_PAGE_X, 6), (MODE_IMPLIED, 2),
     (MODE_IMPLIED, 2), (MODE_ABSOLUTE_Y, 4), (MODE_IMPLIED, 2), (MODE_IMPLIED, 2),
     (MODE_IMPLIED, 2), (MODE_ABSOLUTE_X, 4), (MODE_ABSOLUTE_X, 7), (MODE_IMPLIED, 2),
     (MODE_IMPLIED, 2), (MODE_INDEXED_INDIRECT, 6), (MODE_IMPLIED, 2), (MODE_IMPLIED, 2),
     (MODE_ZERO_PAGE, 3), (MODE_ZERO_PAGE, 3), (MODE_ZERO_PAGE, 3), (MODE_IMPLIED, 2),
     (MODE_IMPLIED, 2), (MODE_IMPLIED, 2), (MODE_IMPLIED, 2), (MODE_IMPLIED, 2),
     (MODE_ABSOLUTE, 4), (MODE_ABSOLUTE, 4), (MODE_ABSOLUTE, 4), (MODE_IMPLIED, 2),
     (MODE_RELATIVE, 2), (MODE_INDIRECT_INDEXED, 6), (MODE_IMPLIED, 2), (MODE_IMPLIED, 2),
     (MODE_ZERO_PAGE_X, 4), (MODE_ZERO_PAGE_X, 4), (MODE_ZERO_PAGE_Y, 4), (MODE_IMPLIED, 2),
     (MODE_IMPLIED, 2), (MODE_ABSOLUTE_Y, 5), (MODE_IMPLIED, 2), (MODE_IMPLIED, 2),
     (MODE_IMPLIED, 2), (MODE_ABSOLUTE_X, 5), (MODE_IMPLIED, 2), (MODE_IMPLIED, 2),
     (MODE_IMMEDIATE, 2), (MODE_INDEXED_INDIRECT, 6), (MODE_IMMEDIATE, 2), (MODE_IMPLIED, 2),
     (MODE_ZERO_PAGE, 3), (MODE_ZERO_PAGE, 3), (MODE_ZERO_PAGE, 3), (MODE_IMPLIED, 2),
     (MODE_IMPLIED, 2), (MODE_IMMEDIATE, 2), (MODE_IMPLIED, 2), (MODE_IMPLIED, 2),
     (MODE_ABSOLUTE, 4), (MODE_ABSOLUTE, 4), (MODE_ABSOLUTE, 4), (MODE_IMPLIED, 2),
     (MODE_RELATIVE, 2), (MODE_INDIRECT_INDEXED, 5), (MODE_IMPLIED, 2), (MODE_IMPLIED, 2),
     (MODE_ZERO_PAGE_X, 4), (MODE_ZERO_PAGE_X, 4), (MODE_ZERO_PAGE_Y, 4), (MODE_IMPLIED, 2),
     (MODE_IMPLIED, 2), (MODE_ABSOLUTE_Y, 4), (MODE_IMPLIED, 2), (MODE_IMPLIED, 2),
     (MODE_ABSOLUTE_X, 4), (MODE_ABSOLUTE_X, 4), (MODE_ABSOLUTE_Y, 4), (MODE_IMPLIED, 2),
     (MODE_IMMEDIATE, 2), (MODE_INDEXED_INDIRECT, 6), (MODE_IMPLIED, 2), (MODE_IMPLIED, 2),
     (MODE_ZERO_PAGE, 3), (MODE_ZERO_PAGE, 3), (MODE_ZERO_PAGE, 5), (MODE_IMPLIED, 2),
     (MODE_IMPLIED, 2), (MODE_IMMEDIATE, 2), (MODE_IMPLIED, 2), (MODE_IMPLIED, 2),
     (MODE_ABSOLUTE, 4), (MODE_ABSOLUTE, 4), (MODE_ABSOLUTE, 6), (MODE_IMPLIED, 2),
     (MODE_RELATIVE, 2), (MODE_INDIRECT_INDEXED, 5), (MODE_IMPLIED, 2), (MODE_IMPLIED, 2),
     (MODE_IMPLIED, 2), (MODE_ZERO_PAGE_X, 4), (MODE_ZERO_PAGE_X, 6), (MODE_IMPLIED, 2),
     (MODE_IMPLIED, 2), (MODE_ABSOLUTE_Y, 4), (MODE_IMPLIED, 2), (MODE_IMPLIED, 2),
     (MODE_IMPLIED, 2), (MODE_ABSOLUTE_X, 4), (MODE_ABSOLUTE_X, 7), (MODE_IMPLIED, 2),
     (MODE_IMMEDIATE, 2), (MODE_INDEXED_INDIRECT, 6), (MODE_IMPLIED, 2), (MODE_IMPLIED, 2),
     (MODE_ZERO_PAGE, 3), (MODE_ZERO_PAGE, 3), (MODE_ZERO_PAGE, 5), (MODE_IMPLIED, 2),
     (MODE_IMPLIED, 2), (MODE_IMMEDIATE, 2), (MODE_IMPLIED, 2), (MODE_IMPLIED, 2),
     (MODE_ABSOLUTE, 4), (MODE_ABSOLUTE, 4), (MODE_ABSOLUTE, 6), (MODE_IMPLIED, 2),
     (MODE_RELATIVE, 2), (MODE_INDIRECT_INDEXED, 5), (MODE_IMPLIED, 2), (MODE_IMPLIED, 2),
     (MODE_IMPLIED, 2), (MODE_ZERO_PAGE_X, 4), (MODE_ZERO_PAGE_X, 6), (MODE_IMPLIED, 2),
     (MODE_IMPLIED, 2), (MODE_ABSOLUTE_Y, 4), (MODE_IMPLIED, 2), (MODE_IMPLIED, 2),
     (MODE_IMPLIED, 2), (MODE_ABSOLUTE_X, 4), (MODE_ABSOLUTE_X, 7), (MODE_IMPLIED, 2)
    ]"

definition info_mode :: "u8 \<Rightarrow> addr_mode_t" where
  "info_mode opcode = fst (g_opcode_table ! unat opcode)"

definition info_cycles :: "u8 \<Rightarrow> u8" where
  "info_cycles opcode = snd (g_opcode_table ! unat opcode)"

definition NES_STACK_BASE :: u16 where "NES_STACK_BASE = 0x0100"
definition NES_VECTOR_NMI :: u16 where "NES_VECTOR_NMI = 0xFFFA"
definition NES_VECTOR_RESET :: u16 where "NES_VECTOR_RESET = 0xFFFC"
definition NES_VECTOR_IRQ_BRK :: u16 where "NES_VECTOR_IRQ_BRK = 0xFFFE"

definition FLAG_CARRY :: u8 where "FLAG_CARRY = 0x01"
definition FLAG_ZERO :: u8 where "FLAG_ZERO = 0x02"
definition FLAG_INTERRUPT :: u8 where "FLAG_INTERRUPT = 0x04"
definition FLAG_DECIMAL :: u8 where "FLAG_DECIMAL = 0x08"
definition FLAG_BREAK :: u8 where "FLAG_BREAK = 0x10"
definition FLAG_UNUSED :: u8 where "FLAG_UNUSED = 0x20"
definition FLAG_OVERFLOW :: u8 where "FLAG_OVERFLOW = 0x40"
definition FLAG_NEGATIVE :: u8 where "FLAG_NEGATIVE = 0x80"

text \<open>
  The functions below take the system, of which \<open>cpu->reg\<close> is a part, and return it
  changed.  \<open>g_bus->read\<close> is \<open>nes_sys_cpu_read\<close>; \<open>g_bus->write\<close> is the argument \<open>wr\<close>
  where a function writes.  Shorthands for the registers:
\<close>

abbreviation REG :: "nes_system \<Rightarrow> cpu_registers" where
  "REG s \<equiv> reg (cpu s)"

abbreviation with_reg :: "(cpu_registers \<Rightarrow> cpu_registers) \<Rightarrow> nes_system \<Rightarrow> nes_system" where
  "with_reg f s \<equiv> cpu_update (reg_update f) s"

abbreviation set_pc :: "u16 \<Rightarrow> nes_system \<Rightarrow> nes_system" where
  "set_pc v s \<equiv> with_reg (reg_pc_update (\<lambda>_. v)) s"

abbreviation set_stall :: "u8 \<Rightarrow> nes_system \<Rightarrow> nes_system" where
  "set_stall v s \<equiv> cpu_update (stall_cycles_update (\<lambda>_. v)) s"

type_synonym bus_write = "nes_system \<Rightarrow> u16 \<Rightarrow> u8 \<Rightarrow> nes_system option"

subsection \<open>The inline helpers of cpu.h\<close>

definition nes_cpu_get_flag :: "cpu_registers \<Rightarrow> u8 \<Rightarrow> u8" where
  "nes_cpu_get_flag r flag = (if reg_p r AND flag \<noteq> 0 then 1 else 0)"

text \<open>The \<open>value\<close> argument is a C truth value.\<close>

definition nes_cpu_set_flag :: "u8 \<Rightarrow> bool \<Rightarrow> cpu_registers \<Rightarrow> cpu_registers" where
  "nes_cpu_set_flag flag val r =
     r\<lparr>reg_p := (if val then reg_p r OR flag else reg_p r AND NOT flag)\<rparr>"

definition nes_cpu_update_zn :: "u8 \<Rightarrow> cpu_registers \<Rightarrow> cpu_registers" where
  "nes_cpu_update_zn val r =
     nes_cpu_set_flag FLAG_NEGATIVE (val AND 0x80 \<noteq> 0) (nes_cpu_set_flag FLAG_ZERO (val = 0) r)"

text \<open>\<open>nes_cpu_push\<close>: the address is computed from \<open>sp\<close>, \<open>sp\<close> is decremented, then the
  bus is written.  \<open>nes_cpu_pop\<close>: \<open>sp\<close> is incremented first.\<close>

definition nes_cpu_push :: "bus_write \<Rightarrow> nes_system \<Rightarrow> u8 \<Rightarrow> nes_system option" where
  "nes_cpu_push wr s val =
     (let sp = reg_sp (REG s) in
      wr (with_reg (reg_sp_update (\<lambda>_. sp - 1)) s) (NES_STACK_BASE + ucast sp) val)"

definition nes_cpu_pop :: "nes_system \<Rightarrow> (u8 \<times> nes_system) option" where
  "nes_cpu_pop s =
     (let sp = reg_sp (REG s) + 1 in
      nes_sys_cpu_read (with_reg (reg_sp_update (\<lambda>_. sp)) s) (NES_STACK_BASE + ucast sp))"

definition nes_cpu_push_word :: "bus_write \<Rightarrow> nes_system \<Rightarrow> u16 \<Rightarrow> nes_system option" where
  "nes_cpu_push_word wr s val =
     do { s1 \<leftarrow> nes_cpu_push wr s (ucast (drop_bit 8 val AND 0xFF));
          nes_cpu_push wr s1 (ucast (val AND 0xFF)) }"

definition nes_cpu_pop_word :: "nes_system \<Rightarrow> (u16 \<times> nes_system) option" where
  "nes_cpu_pop_word s =
     do { (lo, s1) \<leftarrow> nes_cpu_pop s;
          (hi, s2) \<leftarrow> nes_cpu_pop s1;
          Some (push_bit 8 (ucast hi) OR ucast lo, s2) }"

subsection \<open>Addressing\<close>

definition read16 :: "nes_system \<Rightarrow> u16 \<Rightarrow> (u16 \<times> nes_system) option" where
  "read16 s addr =
     do { (lo, s1) \<leftarrow> nes_sys_cpu_read s addr;
          (hi, s2) \<leftarrow> nes_sys_cpu_read s1 (addr + 1);
          Some (ucast lo OR push_bit 8 (ucast hi), s2) }"

text \<open>\<open>g_bus->read(g_bus->context, cpu->reg.pc++)\<close>.\<close>

definition fetch_pc :: "nes_system \<Rightarrow> (u8 \<times> nes_system) option" where
  "fetch_pc s = nes_sys_cpu_read (set_pc (reg_pc (REG s) + 1) s) (reg_pc (REG s))"

text \<open>The page test of the indexed modes: \<open>stall_cycles = 1\<close> when the high bytes differ.\<close>

definition page_penalty :: "u16 \<Rightarrow> u16 \<Rightarrow> nes_system \<Rightarrow> nes_system" where
  "page_penalty base addr s =
     (if base AND 0xFF00 \<noteq> addr AND 0xFF00 then set_stall 1 s else s)"

definition get_effective_address :: "nes_system \<Rightarrow> addr_mode_t \<Rightarrow> (u16 \<times> nes_system) option" where
  "get_effective_address s mode =
     (case mode of
        MODE_IMMEDIATE \<Rightarrow> Some (reg_pc (REG s), set_pc (reg_pc (REG s) + 1) s)
      | MODE_ZERO_PAGE \<Rightarrow> do { (v, s1) \<leftarrow> fetch_pc s; Some (ucast v, s1) }
      | MODE_ZERO_PAGE_X \<Rightarrow>
          do { (v, s1) \<leftarrow> fetch_pc s; Some (ucast (v + reg_x (REG s1)), s1) }
      | MODE_ZERO_PAGE_Y \<Rightarrow>
          do { (v, s1) \<leftarrow> fetch_pc s; Some (ucast (v + reg_y (REG s1)), s1) }
      | MODE_ABSOLUTE \<Rightarrow>
          do { (addr, s1) \<leftarrow> read16 s (reg_pc (REG s));
               Some (addr, set_pc (reg_pc (REG s1) + 2) s1) }
      | MODE_ABSOLUTE_X \<Rightarrow>
          do { (base, s1) \<leftarrow> read16 s (reg_pc (REG s));
               let s2 = set_pc (reg_pc (REG s1) + 2) s1;
                   addr = base + ucast (reg_x (REG s2))
               in Some (addr, page_penalty base addr s2) }
      | MODE_ABSOLUTE_Y \<Rightarrow>
          do { (base, s1) \<leftarrow> read16 s (reg_pc (REG s));
               let s2 = set_pc (reg_pc (REG s1) + 2) s1;
                   addr = base + ucast (reg_y (REG s2))
               in Some (addr, page_penalty base addr s2) }
      | MODE_INDIRECT \<Rightarrow>
          do { (ptr, s1) \<leftarrow> read16 s (reg_pc (REG s));
               let s2 = set_pc (reg_pc (REG s1) + 2) s1 in
               do { (lo, s3) \<leftarrow> nes_sys_cpu_read s2 ptr;
                    (hi, s4) \<leftarrow> nes_sys_cpu_read s3 ((ptr AND 0xFF00) OR ((ptr + 1) AND 0xFF));
                    Some (ucast lo OR push_bit 8 (ucast hi), s4) } }
      | MODE_INDEXED_INDIRECT \<Rightarrow>
          do { (v, s1) \<leftarrow> fetch_pc s;
               let ptr = v + reg_x (REG s1) in
               do { (lo, s2) \<leftarrow> nes_sys_cpu_read s1 (ucast ptr);
                    (hi, s3) \<leftarrow> nes_sys_cpu_read s2 (ucast (ptr + 1));
                    Some (ucast lo OR push_bit 8 (ucast hi), s3) } }
      | MODE_INDIRECT_INDEXED \<Rightarrow>
          do { (ptr, s1) \<leftarrow> fetch_pc s;
               (lo, s2) \<leftarrow> nes_sys_cpu_read s1 (ucast ptr);
               (hi, s3) \<leftarrow> nes_sys_cpu_read s2 (ucast (ptr + 1));
               let base = ucast lo OR push_bit 8 (ucast hi);
                   addr = base + ucast (reg_y (REG s3))
               in Some (addr, page_penalty base addr s3) }
      | MODE_RELATIVE \<Rightarrow>
          do { (off, s1) \<leftarrow> fetch_pc s; Some (reg_pc (REG s1) + scast off, s1) }
      | _ \<Rightarrow> Some (0, s))"

definition load_byte :: "nes_system \<Rightarrow> addr_mode_t \<Rightarrow> (u8 \<times> nes_system) option" where
  "load_byte s mode =
     (case mode of
        MODE_ACCUMULATOR \<Rightarrow> Some (reg_a (REG s), s)
      | MODE_IMMEDIATE \<Rightarrow> fetch_pc s
      | _ \<Rightarrow> do { (addr, s1) \<leftarrow> get_effective_address s mode; nes_sys_cpu_read s1 addr })"

definition store_byte :: "bus_write \<Rightarrow> nes_system \<Rightarrow> addr_mode_t \<Rightarrow> u8 \<Rightarrow> nes_system option" where
  "store_byte wr s mode val =
     do { (addr, s1) \<leftarrow> get_effective_address s mode; wr s1 addr val }"

definition do_branch :: "nes_system \<Rightarrow> bool \<Rightarrow> nes_system option" where
  "do_branch s condition =
     do { (off, s1) \<leftarrow> fetch_pc s;
          if condition
          then (let old_pc = reg_pc (REG s1);
                    s2 = set_pc (old_pc + scast off) s1
                in Some (page_penalty old_pc (reg_pc (REG s2)) s2))
          else Some s1 }"

subsection \<open>Arithmetic helpers\<close>

definition compare :: "u8 \<Rightarrow> u8 \<Rightarrow> cpu_registers \<Rightarrow> cpu_registers" where
  "compare reg_val mem_val r =
     (let result = reg_val - mem_val in
      nes_cpu_set_flag FLAG_NEGATIVE (result AND 0x80 \<noteq> 0)
        (nes_cpu_set_flag FLAG_ZERO (result = 0)
           (nes_cpu_set_flag FLAG_CARRY (reg_val \<ge> mem_val) r)))"

definition do_adc :: "u8 \<Rightarrow> cpu_registers \<Rightarrow> cpu_registers" where
  "do_adc val r =
     (let result = (ucast (reg_a r) + ucast val + ucast (nes_cpu_get_flag r FLAG_CARRY) :: u16);
          r1 = nes_cpu_set_flag FLAG_CARRY (result > 0xFF) r;
          r2 = nes_cpu_set_flag FLAG_OVERFLOW
                 (((NOT (ucast (reg_a r1) XOR ucast val) AND (ucast (reg_a r1) XOR result)) AND 0x80) \<noteq> 0) r1;
          r3 = r2\<lparr>reg_a := ucast result\<rparr>
      in nes_cpu_update_zn (reg_a r3) r3)"

definition do_sbc :: "u8 \<Rightarrow> cpu_registers \<Rightarrow> cpu_registers" where
  "do_sbc val r = do_adc (NOT val) r"

text \<open>The shifts return the new byte and the carry out.\<close>

definition do_rol :: "u8 \<Rightarrow> u8 \<Rightarrow> u8 \<times> u8" where
  "do_rol val carry_in =
     (let result = (push_bit 1 (ucast val) OR ucast carry_in :: u16)
      in (ucast result, if result > 0xFF then 1 else 0))"

definition do_ror :: "u8 \<Rightarrow> u8 \<Rightarrow> u8 \<times> u8" where
  "do_ror val carry_in =
     (let result = (drop_bit 1 (ucast val) OR push_bit 7 (ucast carry_in) :: u16)
      in (ucast result, val AND 1))"

definition do_asl_cpu :: "u8 \<Rightarrow> u8 \<times> u8" where
  "do_asl_cpu val = (push_bit 1 val, if val AND 0x80 \<noteq> 0 then 1 else 0)"

definition do_lsr_cpu :: "u8 \<Rightarrow> u8 \<times> u8" where
  "do_lsr_cpu val = (drop_bit 1 val, val AND 1)"

subsection \<open>The instruction switch\<close>

text \<open>
  Three shapes recur in the cases of the \<open>switch\<close> in \<open>nes_cpu_step\<close>:
  \<^item> \<open>op_load\<close>: \<open>load_byte(cpu, info->mode)\<close>, then an update of the registers with the
    byte (ADC, AND, BIT, CMP, CPX, CPY, EOR, LDA, LDX, LDY, ORA, SBC);
  \<^item> \<open>op_rmw\<close>: effective address, bus read, a new byte (computed with the registers as
    they are after the read), bus write of the new byte, then the flag updates on the
    registers as they are after the write (ASL, LSR, ROL, ROR, INC, DEC on memory);
  \<^item> \<open>op_reg\<close>: an update of the registers alone.
\<close>

definition op_load ::
  "nes_system \<Rightarrow> addr_mode_t \<Rightarrow> (u8 \<Rightarrow> cpu_registers \<Rightarrow> cpu_registers) \<Rightarrow> nes_system option" where
  "op_load s mode f = do { (v, s1) \<leftarrow> load_byte s mode; Some (with_reg (f v) s1) }"

definition op_rmw ::
  "bus_write \<Rightarrow> nes_system \<Rightarrow> addr_mode_t \<Rightarrow>
   (u8 \<Rightarrow> cpu_registers \<Rightarrow> u8 \<times> (cpu_registers \<Rightarrow> cpu_registers)) \<Rightarrow> nes_system option" where
  "op_rmw wr s mode g =
     do { (addr, s1) \<leftarrow> get_effective_address s mode;
          (v, s2) \<leftarrow> nes_sys_cpu_read s1 addr;
          case g v (REG s2) of (v', flags) \<Rightarrow>
          do { s3 \<leftarrow> wr s2 addr v'; Some (with_reg flags s3) } }"

definition op_reg :: "nes_system \<Rightarrow> (cpu_registers \<Rightarrow> cpu_registers) \<Rightarrow> nes_system option" where
  "op_reg s f = Some (with_reg f s)"

text \<open>The bodies of the shift and rotate cases, on a byte and the registers.\<close>

definition asl_body :: "u8 \<Rightarrow> cpu_registers \<Rightarrow> u8 \<times> (cpu_registers \<Rightarrow> cpu_registers)" where
  "asl_body v r =
     (case do_asl_cpu v of (v', carry) \<Rightarrow>
        (v', \<lambda>r'. nes_cpu_update_zn v' (nes_cpu_set_flag FLAG_CARRY (carry \<noteq> 0) r')))"

definition lsr_body :: "u8 \<Rightarrow> cpu_registers \<Rightarrow> u8 \<times> (cpu_registers \<Rightarrow> cpu_registers)" where
  "lsr_body v r =
     (case do_lsr_cpu v of (v', carry) \<Rightarrow>
        (v', \<lambda>r'. nes_cpu_update_zn v' (nes_cpu_set_flag FLAG_CARRY (carry \<noteq> 0) r')))"

definition rol_body :: "u8 \<Rightarrow> cpu_registers \<Rightarrow> u8 \<times> (cpu_registers \<Rightarrow> cpu_registers)" where
  "rol_body v r =
     (case do_rol v (nes_cpu_get_flag r FLAG_CARRY) of (v', carry) \<Rightarrow>
        (v', \<lambda>r'. nes_cpu_update_zn v' (nes_cpu_set_flag FLAG_CARRY (carry \<noteq> 0) r')))"

definition ror_body :: "u8 \<Rightarrow> cpu_registers \<Rightarrow> u8 \<times> (cpu_registers \<Rightarrow> cpu_registers)" where
  "ror_body v r =
     (case do_ror v (nes_cpu_get_flag r FLAG_CARRY) of (v', carry) \<Rightarrow>
        (v', \<lambda>r'. nes_cpu_update_zn v' (nes_cpu_set_flag FLAG_CARRY (carry \<noteq> 0) r')))"

text \<open>A shift of the accumulator: the same body, the new byte stored in \<open>a\<close>.\<close>

definition acc_shift ::
  "(u8 \<Rightarrow> cpu_registers \<Rightarrow> u8 \<times> (cpu_registers \<Rightarrow> cpu_registers)) \<Rightarrow> cpu_registers \<Rightarrow> cpu_registers" where
  "acc_shift g r = (case g (reg_a r) r of (v', flags) \<Rightarrow> flags (r\<lparr>reg_a := v'\<rparr>))"

text \<open>A register gets a value and Z and N follow it.\<close>

definition ld_a :: "u8 \<Rightarrow> cpu_registers \<Rightarrow> cpu_registers" where
  "ld_a v r = nes_cpu_update_zn v (r\<lparr>reg_a := v\<rparr>)"

definition ld_x :: "u8 \<Rightarrow> cpu_registers \<Rightarrow> cpu_registers" where
  "ld_x v r = nes_cpu_update_zn v (r\<lparr>reg_x := v\<rparr>)"

definition ld_y :: "u8 \<Rightarrow> cpu_registers \<Rightarrow> cpu_registers" where
  "ld_y v r = nes_cpu_update_zn v (r\<lparr>reg_y := v\<rparr>)"

definition bit_body :: "u8 \<Rightarrow> cpu_registers \<Rightarrow> cpu_registers" where
  "bit_body v r =
     nes_cpu_set_flag FLAG_NEGATIVE (v AND 0x80 \<noteq> 0)
       (nes_cpu_set_flag FLAG_OVERFLOW (v AND 0x40 \<noteq> 0)
          (nes_cpu_set_flag FLAG_ZERO (reg_a r AND v = 0) r))"

text \<open>\<open>cpu->reg.p = (status & ~(FLAG_BREAK | FLAG_UNUSED)) | FLAG_UNUSED\<close> of PLP and RTI.\<close>

definition pulled_status :: "u8 \<Rightarrow> u8" where
  "pulled_status status = (status AND NOT (FLAG_BREAK OR FLAG_UNUSED)) OR FLAG_UNUSED"

text \<open>The interrupt sequence shared by NMI and IRQ: push \<open>pc\<close>, push \<open>p | FLAG_UNUSED\<close>,
  load \<open>pc\<close> from the vector, set I, count 7 cycles, return 7.\<close>

definition interrupt_sequence :: "bus_write \<Rightarrow> nes_system \<Rightarrow> u16 \<Rightarrow> (u8 \<times> nes_system) option" where
  "interrupt_sequence wr s vector =
     do { s1 \<leftarrow> nes_cpu_push_word wr s (reg_pc (REG s));
          s2 \<leftarrow> nes_cpu_push wr s1 (reg_p (REG s1) OR FLAG_UNUSED);
          (lo, s3) \<leftarrow> nes_sys_cpu_read s2 vector;
          (hi, s4) \<leftarrow> nes_sys_cpu_read s3 (vector + 1);
          let s5 = set_pc (ucast lo OR push_bit 8 (ucast hi)) s4;
              s6 = with_reg (\<lambda>r. r\<lparr>reg_p := reg_p r OR FLAG_INTERRUPT\<rparr>) s5
          in Some (7, cpu_update (cycle_count_update (\<lambda>c. c + 7)) s6) }"

text \<open>The \<open>switch (opcode)\<close>, case by case in the source's order; \<open>mode\<close> is \<open>info->mode\<close>.\<close>

definition execute_opcode :: "bus_write \<Rightarrow> nes_system \<Rightarrow> u8 \<Rightarrow> nes_system option" where
  "execute_opcode wr s opcode =
     (let mode = info_mode opcode in
      if opcode \<in> {0x69, 0x65, 0x75, 0x6D, 0x7D, 0x79, 0x61, 0x71} then op_load s mode do_adc
      else if opcode \<in> {0x29, 0x25, 0x35, 0x2D, 0x3D, 0x39, 0x21, 0x31}
      then op_load s mode (\<lambda>v r. ld_a (reg_a r AND v) r)
      else if opcode = 0x0A then op_reg s (acc_shift asl_body)
      else if opcode \<in> {0x06, 0x16, 0x0E, 0x1E} then op_rmw wr s mode asl_body
      else if opcode = 0x90 then do_branch s (nes_cpu_get_flag (REG s) FLAG_CARRY = 0)
      else if opcode = 0xB0 then do_branch s (nes_cpu_get_flag (REG s) FLAG_CARRY \<noteq> 0)
      else if opcode = 0xF0 then do_branch s (nes_cpu_get_flag (REG s) FLAG_ZERO \<noteq> 0)
      else if opcode \<in> {0x24, 0x2C} then op_load s mode bit_body
      else if opcode = 0x30 then do_branch s (nes_cpu_get_flag (REG s) FLAG_NEGATIVE \<noteq> 0)
      else if opcode = 0xD0 then do_branch s (nes_cpu_get_flag (REG s) FLAG_ZERO = 0)
      else if opcode = 0x10 then do_branch s (nes_cpu_get_flag (REG s) FLAG_NEGATIVE = 0)
      else if opcode = 0x00
      then (let s1 = set_pc (reg_pc (REG s) + 1) s in
            do { s2 \<leftarrow> nes_cpu_push_word wr s1 (reg_pc (REG s1));
                 s3 \<leftarrow> nes_cpu_push wr s2 (reg_p (REG s2) OR FLAG_BREAK OR FLAG_UNUSED);
                 (lo, s4) \<leftarrow> nes_sys_cpu_read s3 NES_VECTOR_IRQ_BRK;
                 (hi, s5) \<leftarrow> nes_sys_cpu_read s4 (NES_VECTOR_IRQ_BRK + 1);
                 Some (with_reg (\<lambda>r. r\<lparr>reg_p := reg_p r OR FLAG_INTERRUPT\<rparr>)
                         (set_pc (ucast lo OR push_bit 8 (ucast hi)) s5)) })
      else if opcode = 0x50 then do_branch s (nes_cpu_get_flag (REG s) FLAG_OVERFLOW = 0)
      else if opcode = 0x70 then do_branch s (nes_cpu_get_flag (REG s) FLAG_OVERFLOW \<noteq> 0)
      else if opcode = 0x18 then op_reg s (nes_cpu_set_flag FLAG_CARRY False)
      else if opcode = 0xD8 then op_reg s (nes_cpu_set_flag FLAG_DECIMAL False)
      else if opcode = 0x58 then op_reg s (nes_cpu_set_flag FLAG_INTERRUPT False)
      else if opcode = 0xB8 then op_reg s (nes_cpu_set_flag FLAG_OVERFLOW False)
      else if opcode \<in> {0xC9, 0xC5, 0xD5, 0xCD, 0xDD, 0xD9, 0xC1, 0xD1}
      then op_load s mode (\<lambda>v r. compare (reg_a r) v r)
      else if opcode \<in> {0xE0, 0xE4, 0xEC} then op_load s mode (\<lambda>v r. compare (reg_x r) v r)
      else if opcode \<in> {0xC0, 0xC4, 0xCC} then op_load s mode (\<lambda>v r. compare (reg_y r) v r)
      else if opcode \<in> {0xC6, 0xD6, 0xCE, 0xDE}
      then op_rmw wr s mode (\<lambda>v r. (v - 1, nes_cpu_update_zn (v - 1)))
      else if opcode = 0xCA then op_reg s (\<lambda>r. ld_x (reg_x r - 1) r)
      else if opcode = 0x88 then op_reg s (\<lambda>r. ld_y (reg_y r - 1) r)
      else if opcode \<in> {0x49, 0x45, 0x55, 0x4D, 0x5D, 0x59, 0x41, 0x51}
      then op_load s mode (\<lambda>v r. ld_a (reg_a r XOR v) r)
      else if opcode \<in> {0xE6, 0xF6, 0xEE, 0xFE}
      then op_rmw wr s mode (\<lambda>v r. (v + 1, nes_cpu_update_zn (v + 1)))
      else if opcode = 0xE8 then op_reg s (\<lambda>r. ld_x (reg_x r + 1) r)
      else if opcode = 0xC8 then op_reg s (\<lambda>r. ld_y (reg_y r + 1) r)
      else if opcode = 0x4C
      then do { (addr, s1) \<leftarrow> get_effective_address s MODE_ABSOLUTE; Some (set_pc addr s1) }
      else if opcode = 0x6C
      then do { (addr, s1) \<leftarrow> get_effective_address s MODE_INDIRECT; Some (set_pc addr s1) }
      else if opcode = 0x20
      then do { (addr, s1) \<leftarrow> get_effective_address s MODE_ABSOLUTE;
                let s2 = set_pc (reg_pc (REG s1) - 1) s1 in
                do { s3 \<leftarrow> nes_cpu_push_word wr s2 (reg_pc (REG s2));
                     Some (set_pc (addr + 1) s3) } }
      else if opcode \<in> {0xA9, 0xA5, 0xB5, 0xAD, 0xBD, 0xB9, 0xA1, 0xB1} then op_load s mode ld_a
      else if opcode \<in> {0xA2, 0xA6, 0xB6, 0xAE, 0xBE} then op_load s mode ld_x
      else if opcode \<in> {0xA0, 0xA4, 0xB4, 0xAC, 0xBC} then op_load s mode ld_y
      else if opcode = 0x4A then op_reg s (acc_shift lsr_body)
      else if opcode \<in> {0x46, 0x56, 0x4E, 0x5E} then op_rmw wr s mode lsr_body
      else if opcode = 0xEA then Some s
      else if opcode \<in> {0x09, 0x05, 0x15, 0x0D, 0x1D, 0x19, 0x01, 0x11}
      then op_load s mode (\<lambda>v r. ld_a (reg_a r OR v) r)
      else if opcode = 0x48 then nes_cpu_push wr s (reg_a (REG s))
      else if opcode = 0x08 then nes_cpu_push wr s (reg_p (REG s) OR FLAG_BREAK OR FLAG_UNUSED)
      else if opcode = 0x68
      then do { (v, s1) \<leftarrow> nes_cpu_pop s; Some (with_reg (ld_a v) s1) }
      else if opcode = 0x28
      then do { (status, s1) \<leftarrow> nes_cpu_pop s;
                Some (with_reg (\<lambda>r. r\<lparr>reg_p := pulled_status status\<rparr>) s1) }
      else if opcode = 0x2A then op_reg s (acc_shift rol_body)
      else if opcode \<in> {0x26, 0x36, 0x2E, 0x3E} then op_rmw wr s mode rol_body
      else if opcode = 0x6A then op_reg s (acc_shift ror_body)
      else if opcode \<in> {0x66, 0x76, 0x6E, 0x7E} then op_rmw wr s mode ror_body
      else if opcode = 0x40
      then do { (status, s1) \<leftarrow> nes_cpu_pop s;
                let s2 = with_reg (\<lambda>r. r\<lparr>reg_p := pulled_status status\<rparr>) s1 in
                do { (pc, s3) \<leftarrow> nes_cpu_pop_word s2; Some (set_pc pc s3) } }
      else if opcode = 0x60
      then do { (pc, s1) \<leftarrow> nes_cpu_pop_word s; Some (set_pc (pc + 1) s1) }
      else if opcode \<in> {0xE9, 0xE5, 0xF5, 0xED, 0xFD, 0xF9, 0xE1, 0xF1} then op_load s mode do_sbc
      else if opcode = 0x38 then op_reg s (nes_cpu_set_flag FLAG_CARRY True)
      else if opcode = 0xF8 then op_reg s (nes_cpu_set_flag FLAG_DECIMAL True)
      else if opcode = 0x78 then op_reg s (nes_cpu_set_flag FLAG_INTERRUPT True)
      else if opcode \<in> {0x85, 0x95, 0x8D, 0x9D, 0x99, 0x81, 0x91}
      then store_byte wr s mode (reg_a (REG s))
      else if opcode \<in> {0x86, 0x96, 0x8E} then store_byte wr s mode (reg_x (REG s))
      else if opcode \<in> {0x84, 0x94, 0x8C} then store_byte wr s mode (reg_y (REG s))
      else if opcode = 0xAA then op_reg s (\<lambda>r. ld_x (reg_a r) r)
      else if opcode = 0xA8 then op_reg s (\<lambda>r. ld_y (reg_a r) r)
      else if opcode = 0xBA then op_reg s (\<lambda>r. ld_x (reg_sp r) r)
      else if opcode = 0x8A then op_reg s (\<lambda>r. ld_a (reg_x r) r)
      else if opcode = 0x9A then op_reg s (\<lambda>r. r\<lparr>reg_sp := reg_x r\<rparr>)
      else if opcode = 0x98 then op_reg s (\<lambda>r. ld_a (reg_y r) r)
      else Some s)"

subsection \<open>\<open>nes_cpu_step\<close> and \<open>nes_cpu_execute_cycles\<close>\<close>

text \<open>
  \<open>nes_cpu_step\<close>.  At the end \<open>cycles + cpu->stall_cycles\<close> is added to the 32-bit
  cycle counter as an \<open>int\<close> and returned as a \<open>uint8_t\<close>.
\<close>

definition nes_cpu_step :: "bus_write \<Rightarrow> nes_system \<Rightarrow> (u8 \<times> nes_system) option" where
  "nes_cpu_step wr s =
     (if stall_cycles (cpu s) > 0
      then Some (1, cpu_update (\<lambda>c. c\<lparr>stall_cycles := stall_cycles c - 1,
                                       cycle_count := cycle_count c + 1\<rparr>) s)
      else if pending_nmi (cpu s) \<noteq> 0
      then interrupt_sequence wr (cpu_update (pending_nmi_update (\<lambda>_. 0)) s) NES_VECTOR_NMI
      else if pending_irq (cpu s) \<noteq> 0 \<and> nes_cpu_get_flag (REG s) FLAG_INTERRUPT = 0
      then interrupt_sequence wr (cpu_update (pending_irq_update (\<lambda>_. 0)) s) NES_VECTOR_IRQ_BRK
      else
        do { (opcode, s1) \<leftarrow> nes_sys_cpu_read s (reg_pc (REG s));
             let s2 = set_pc (reg_pc (REG s1) + 1) s1;
                 cycles = info_cycles opcode in
             do { s3 \<leftarrow> execute_opcode wr s2 opcode;
                  Some (cycles + stall_cycles (cpu s3),
                        cpu_update (\<lambda>c. c\<lparr>cycle_count := cycle_count c + (ucast cycles + ucast (stall_cycles c)),
                                          stall_cycles := 0\<rparr>) s3) } })"

text \<open>
  \<open>nes_cpu_execute_cycles\<close>: \<open>while (executed < cycles) executed += nes_cpu_step(cpu)\<close>.
  The loop is a partial function: its value is \<open>None\<close> when the loop does not end or a
  step is undefined.  \<open>execute_loop\<close> carries \<open>executed\<close>.
\<close>

partial_function (option) execute_loop :: "bus_write \<Rightarrow> u32 \<Rightarrow> u32 \<Rightarrow> nes_system \<Rightarrow> nes_system option" where
  "execute_loop wr executed cycles s =
     (if executed < cycles
      then do { (c, s1) \<leftarrow> nes_cpu_step wr s; execute_loop wr (executed + ucast c) cycles s1 }
      else Some s)"

definition nes_cpu_execute_cycles :: "bus_write \<Rightarrow> nes_system \<Rightarrow> u32 \<Rightarrow> nes_system option" where
  "nes_cpu_execute_cycles wr s cycles = execute_loop wr 0 cycles s"

definition nes_cpu_trigger_nmi :: "nes_system \<Rightarrow> nes_system" where
  "nes_cpu_trigger_nmi s = cpu_update (pending_nmi_update (\<lambda>_. 1)) s"

definition nes_cpu_trigger_irq :: "nes_system \<Rightarrow> nes_system" where
  "nes_cpu_trigger_irq s = cpu_update (pending_irq_update (\<lambda>_. 1)) s"

text \<open>\<open>nes_cpu_reset\<close>, with the bus installed: the reset vector is read through it.\<close>

definition nes_cpu_reset :: "nes_system \<Rightarrow> nes_system option" where
  "nes_cpu_reset s =
     (let s1 = cpu_update (\<lambda>c. c\<lparr>reg := (reg c)\<lparr>reg_p := FLAG_UNUSED OR FLAG_INTERRUPT, reg_sp := 0xFD\<rparr>,
                                  stall_cycles := 0, cycle_count := 0,
                                  pending_nmi := 0, pending_irq := 0\<rparr>) s
      in do { (lo, s2) \<leftarrow> nes_sys_cpu_read s1 NES_VECTOR_RESET;
              (hi, s3) \<leftarrow> nes_sys_cpu_read s2 (NES_VECTOR_RESET + 1);
              Some (set_pc (ucast lo OR push_bit 8 (ucast hi)) s3) })"

section \<open>memory/bus.c: OAM DMA and the frame driver\<close>

text \<open>
  \<open>nes_sys_oam_dma\<close>: \<open>page_data = &sys->ram[page << 8]\<close>, then
  \<open>nes_cpu_execute_cycles(sys->cpu, 514)\<close>, then \<open>nes_ppu_oam_dma(sys->ppu, page_data)\<close>.
  \<open>ram\<close> has 2048 bytes, so \<open>page_data[0..255]\<close> lies inside it for \<open>page < 8\<close> only;
  for the other pages the 256 reads are outside the array, which is undefined.  The
  bytes are read from \<open>ram\<close> as it is after the 514 cycles.
\<close>

definition nes_sys_oam_dma :: "bus_write \<Rightarrow> nes_system \<Rightarrow> u8 \<Rightarrow> nes_system option" where
  "nes_sys_oam_dma wr s page =
     (if page < 8
      then do { s1 \<leftarrow> nes_cpu_execute_cycles wr s 514;
                Some (s1\<lparr>ppu := nes_ppu_oam_dma (ppu s1)
                                   (\<lambda>i. ram s1 (push_bit 8 (ucast page) + of_nat i))\<rparr>) }
      else None)"

text \<open>
  \<open>nes_sys_cpu_write\<close>, the recursion closed.  The number is how many OAM DMA transfers
  may be in progress inside one another: a write to \<open>$4014\<close> runs instructions, which may
  write to \<open>$4014\<close> again.  Beyond that depth the value is \<open>None\<close>.
\<close>

primrec nes_sys_cpu_write :: "nat \<Rightarrow> bus_write" where
  "nes_sys_cpu_write 0 = nes_sys_cpu_write_body (\<lambda>s page. None)"
| "nes_sys_cpu_write (Suc d) = nes_sys_cpu_write_body (nes_sys_oam_dma (nes_sys_cpu_write d))"

text \<open>
  \<open>nes_sys_init\<close> after its allocations, for a system without a cartridge loaded, and
  \<open>nes_sys_reset\<close>.  \<open>nes_cpu_init\<close> is called without a bus and so only zeroes the CPU.
  The mapper object is allocated and not initialised; it is modelled with no callbacks.
  Every mapper's \<open>reset\<close> callback is \<open>NULL\<close>, so \<open>nes_mapper_reset\<close> does nothing.
\<close>

definition nes_cpu_init :: nes_cpu where
  "nes_cpu_init =
     \<lparr>reg = \<lparr>reg_pc = 0, reg_a = 0, reg_x = 0, reg_y = 0, reg_sp = 0, reg_p = 0\<rparr>,
      cycle_count = 0, pending_nmi = 0, pending_irq = 0, stall_cycles = 0\<rparr>"

definition nes_sys_init :: nes_system where
  "nes_sys_init =
     \<lparr>cpu = nes_cpu_init, ppu = nes_ppu_init, apu = nes_apu_init, input = nes_input_init,
      cartridge = nes_cartridge_init, mapper = Some MapperNull, ram = (\<lambda>a. 0),
      cpu_cycles_per_frame = NES_CPU_CYCLES_PER_FRAME,
      ppu_cycles_per_frame = NES_PPU_CYCLES_PER_FRAME,
      frame_complete = 0, running = 1, paused = 0,
      g_mirror_mode = MIRROR_HORIZONTAL, g_frame_buffer = (\<lambda>i. 0)\<rparr>"

definition nes_sys_reset :: "nes_system \<Rightarrow> nes_system option" where
  "nes_sys_reset s =
     do { s1 \<leftarrow> nes_cpu_reset s;
          Some (s1\<lparr>ppu := nes_ppu_reset (ppu s1), apu := nes_apu_reset (apu s1),
                   input := nes_input_reset (input s1)\<rparr>) }"

text \<open>
  \<open>nes_sys_step_frame\<close>.  The rendering step \<open>nes_ppu_step\<close> is an argument: a function
  that reads the system (the PPU, the statics of ppu.c and, through the PPU's bus, the
  cartridge) and returns its \<open>int\<close> result with the new PPU and the new frame buffer,
  the two objects it writes.  The \<open>for\<close> loop is \<open>frame_loop\<close>, counting down the
  iterations that are left.
\<close>

type_synonym ppu_step = "nes_system \<Rightarrow> (int \<times> nes_ppu \<times> (nat \<Rightarrow> u8)) option"

fun frame_loop :: "ppu_step \<Rightarrow> bus_write \<Rightarrow> nat \<Rightarrow> nes_system \<Rightarrow> nes_system option" where
  "frame_loop pstep wr 0 s = Some s"
| "frame_loop pstep wr (Suc n) s =
     (if frame_complete s \<noteq> 0 then Some s
      else do { (vblank, p', fb') \<leftarrow> pstep s;
                let s1 = s\<lparr>ppu := p', g_frame_buffer := fb'\<rparr>;
                    s2 = (if vblank \<noteq> 0 \<and> ppu_ctrl (ppu s1) AND PPUCTRL_NMI \<noteq> 0
                          then nes_cpu_trigger_nmi s1 else s1) in
                do { s3 \<leftarrow> nes_cpu_execute_cycles wr s2 NES_CPU_PPU_RATIO;
                     frame_loop pstep wr n s3 } })"

definition nes_sys_step_frame :: "ppu_step \<Rightarrow> nat \<Rightarrow> nes_system \<Rightarrow> (int \<times> nes_system) option" where
  "nes_sys_step_frame pstep d s =
     (if running s = 0 \<or> paused s \<noteq> 0 then Some (0, s)
      else do { s1 \<leftarrow> frame_loop pstep (nes_sys_cpu_write d) (unat NES_PPU_CYCLES_PER_FRAME)
                        (s\<lparr>frame_complete := 0\<rparr>);
                Some (1, s1\<lparr>apu := nes_apu_execute_cycles (apu s1) NES_CPU_CYCLES_PER_FRAME,
                           frame_complete := 1\<rparr>) })"

section \<open>memory/bus.c, platform/platform.c and main.c: the driver\<close>

text \<open>
  \<open>nes_sys_save_state\<close> writes the CPU, the PPU, the APU, the input and the RAM to a
  file, and \<open>nes_sys_load_state\<close> reads them back in place.  (Both also copy the mapper's
  \<open>state\<close> buffer, which no other function reads or writes; it is left out.)  A file that
  cannot be opened is \<open>None\<close>: \<open>nes_sys_load_state\<close> then returns -1 and changes nothing.
\<close>

record nes_state_file =
  file_cpu :: nes_cpu
  file_ppu :: nes_ppu
  file_apu :: nes_apu
  file_input :: nes_input
  file_ram :: "u16 \<Rightarrow> u8"

definition nes_sys_save_state :: "nes_system \<Rightarrow> nes_state_file" where
  "nes_sys_save_state s =
     \<lparr>file_cpu = cpu s, file_ppu = ppu s, file_apu = apu s, file_input = input s,
      file_ram = ram s\<rparr>"

definition nes_sys_load_state :: "nes_system \<Rightarrow> nes_state_file option \<Rightarrow> nes_system" where
  "nes_sys_load_state s f =
     (case f of
        None \<Rightarrow> s
      | Some st \<Rightarrow> s\<lparr>cpu := file_cpu st, ppu := file_ppu st, apu := file_apu st,
                     input := file_input st, ram := file_ram st\<rparr>)"

text \<open>
  The state of the program of main.c: the system, the files \<open>save/stateNN.sav\<close> by slot
  number, and the static \<open>g_save_slot\<close> of platform.c.
\<close>

record nes_driver =
  drv_sys :: nes_system
  drv_files :: "int \<Rightarrow> nes_state_file option"
  g_save_slot :: int

text \<open>
  The keys \<open>handle_key_event\<close> tells apart: a key of \<open>g_key_map\<close>, given by the NES button
  it is mapped to, the hotkeys that touch the system, and every other key (F11 and F12
  among them, which leave the system alone).
\<close>

datatype sdl_key = Key_Mapped int | SDLK_ESCAPE | SDLK_F1 | SDLK_F5 | SDLK_F7 | SDLK_F9 | Key_Other

definition handle_key_event :: "sdl_key \<Rightarrow> int \<Rightarrow> nes_driver \<Rightarrow> nes_driver option" where
  "handle_key_event key pressed d =
     (case key of
        Key_Mapped b \<Rightarrow>
          Some (d\<lparr>drv_sys := (drv_sys d)
                  \<lparr>input := nes_input_set_button (input (drv_sys d)) 0 b pressed\<rparr>\<rparr>)
      | _ \<Rightarrow>
          if pressed \<noteq> 0
          then (case key of
                  SDLK_ESCAPE \<Rightarrow> Some (d\<lparr>drv_sys := (drv_sys d)\<lparr>running := 0\<rparr>\<rparr>)
                | SDLK_F1 \<Rightarrow> do { s' \<leftarrow> nes_sys_reset (drv_sys d); Some (d\<lparr>drv_sys := s'\<rparr>) }
                | SDLK_F5 \<Rightarrow>
                    Some (d\<lparr>drv_files := (drv_files d)
                            (g_save_slot d := Some (nes_sys_save_state (drv_sys d)))\<rparr>)
                | SDLK_F7 \<Rightarrow> Some (d\<lparr>g_save_slot := (g_save_slot d + 1) mod 10\<rparr>)
                | SDLK_F9 \<Rightarrow>
                    Some (d\<lparr>drv_sys := nes_sys_load_state (drv_sys d)
                                          (drv_files d (g_save_slot d))\<rparr>)
                | _ \<Rightarrow> Some d)
          else Some d)"

text \<open>
  \<open>nes_platform_process_events\<close> on the events that \<open>SDL_PollEvent\<close> delivers in one call
  (key events that are not repeats; the other events change nothing): \<open>SDL_QUIT\<close> clears
  \<open>running\<close> and returns 0 at once, and when the queue is empty the result is \<open>running\<close>.
\<close>

datatype sdl_event = SDL_QUIT | SDL_KEYDOWN sdl_key | SDL_KEYUP sdl_key

fun nes_platform_process_events :: "sdl_event list \<Rightarrow> nes_driver \<Rightarrow> (int \<times> nes_driver) option" where
  "nes_platform_process_events [] d = Some (running (drv_sys d), d)"
| "nes_platform_process_events (SDL_QUIT # evs) d =
     Some (0, d\<lparr>drv_sys := (drv_sys d)\<lparr>running := 0\<rparr>\<rparr>)"
| "nes_platform_process_events (SDL_KEYDOWN k # evs) d =
     do { d1 \<leftarrow> handle_key_event k 1 d; nes_platform_process_events evs d1 }"
| "nes_platform_process_events (SDL_KEYUP k # evs) d =
     do { d1 \<leftarrow> handle_key_event k 0 d; nes_platform_process_events evs d1 }"

text \<open>
  The main loop of main.c, \<open>while (g_system.running)\<close>: process the events, leave if the
  result is 0, run one frame.  (Rendering the frame to RGBA and presenting it read the
  system only.)  The list gives, for each iteration, the events polled in it, and the
  two parameters of \<open>nes_sys_step_frame\<close> above; the value is the state when the list is
  used up or the loop has been left.
\<close>

fun main_loop :: "(sdl_event list \<times> ppu_step \<times> nat) list \<Rightarrow> nes_driver \<Rightarrow> nes_driver option" where
  "main_loop [] d = Some d"
| "main_loop ((evs, pstep, depth) # rest) d =
     (if running (drv_sys d) = 0 then Some d
      else do { (r, d1) \<leftarrow> nes_platform_process_events evs d;
                if r = 0 then Some d1
                else do { (r', s') \<leftarrow> nes_sys_step_frame pstep depth (drv_sys d1);
                          main_loop rest (d1\<lparr>drv_sys := s'\<rparr>) } })"

section \<open>The driver over a given CPU step\<close>

text \<open>
  To state that a branch of \<open>nes_cpu_step\<close> is never entered, the functions that run the
  CPU are given once more with the step as an argument \<open>st\<close>, everything else as above:
  \<open>nes_cpu_execute_cycles\<close>, \<open>nes_sys_oam_dma\<close>, \<open>nes_sys_cpu_write\<close>,
  \<open>nes_sys_step_frame\<close> and the main loop.  With \<open>nes_cpu_step\<close> for \<open>st\<close> they are the
  functions above (the lemmas \<open>\<dots>_with_step\<close> below).
\<close>

type_synonym cpu_step = "bus_write \<Rightarrow> nes_system \<Rightarrow> (u8 \<times> nes_system) option"

partial_function (option) execute_loop_with ::
  "cpu_step \<Rightarrow> bus_write \<Rightarrow> u32 \<Rightarrow> u32 \<Rightarrow> nes_system \<Rightarrow> nes_system option" where
  "execute_loop_with st wr executed cycles s =
     (if executed < cycles
      then do { (c, s1) \<leftarrow> st wr s; execute_loop_with st wr (executed + ucast c) cycles s1 }
      else Some s)"

definition nes_cpu_execute_cycles_with ::
  "cpu_step \<Rightarrow> bus_write \<Rightarrow> nes_system \<Rightarrow> u32 \<Rightarrow> nes_system option" where
  "nes_cpu_execute_cycles_with st wr s cycles = execute_loop_with st wr 0 cycles s"

definition nes_sys_oam_dma_with :: "cpu_step \<Rightarrow> bus_write \<Rightarrow> nes_system \<Rightarrow> u8 \<Rightarrow> nes_system option" where
  "nes_sys_oam_dma_with st wr s page =
     (if page < 8
      then do { s1 \<leftarrow> nes_cpu_execute_cycles_with st wr s 514;
                Some (s1\<lparr>ppu := nes_ppu_oam_dma (ppu s1)
                                   (\<lambda>i. ram s1 (push_bit 8 (ucast page) + of_nat i))\<rparr>) }
      else None)"

primrec nes_sys_cpu_write_with :: "cpu_step \<Rightarrow> nat \<Rightarrow> bus_write" where
  "nes_sys_cpu_write_with st 0 = nes_sys_cpu_write_body (\<lambda>s page. None)"
| "nes_sys_cpu_write_with st (Suc d) =
     nes_sys_cpu_write_body (nes_sys_oam_dma_with st (nes_sys_cpu_write_with st d))"

fun frame_loop_with ::
  "cpu_step \<Rightarrow> ppu_step \<Rightarrow> bus_write \<Rightarrow> nat \<Rightarrow> nes_system \<Rightarrow> nes_system option" where
  "frame_loop_with st pstep wr 0 s = Some s"
| "frame_loop_with st pstep wr (Suc n) s =
     (if frame_complete s \<noteq> 0 then Some s
      else do { (vblank, p', fb') \<leftarrow> pstep s;
                let s1 = s\<lparr>ppu := p', g_frame_buffer := fb'\<rparr>;
                    s2 = (if vblank \<noteq> 0 \<and> ppu_ctrl (ppu s1) AND PPUCTRL_NMI \<noteq> 0
                          then nes_cpu_trigger_nmi s1 else s1) in
                do { s3 \<leftarrow> nes_cpu_execute_cycles_with st wr s2 NES_CPU_PPU_RATIO;
                     frame_loop_with st pstep wr n s3 } })"

definition nes_sys_step_frame_with ::
  "cpu_step \<Rightarrow> ppu_step \<Rightarrow> nat \<Rightarrow> nes_system \<Rightarrow> (int \<times> nes_system) option" where
  "nes_sys_step_frame_with st pstep d s =
     (if running s = 0 \<or> paused s \<noteq> 0 then Some (0, s)
      else do { s1 \<leftarrow> frame_loop_with st pstep (nes_sys_cpu_write_with st d)
                        (unat NES_PPU_CYCLES_PER_FRAME) (s\<lparr>frame_complete := 0\<rparr>);
                Some (1, s1\<lparr>apu := nes_apu_execute_cycles (apu s1) NES_CPU_CYCLES_PER_FRAME,
                           frame_complete := 1\<rparr>) })"

fun main_loop_with ::
  "cpu_step \<Rightarrow> (sdl_event list \<times> ppu_step \<times> nat) list \<Rightarrow> nes_driver \<Rightarrow> nes_driver option" where
  "main_loop_with st [] d = Some d"
| "main_loop_with st ((evs, pstep, depth) # rest) d =
     (if running (drv_sys d) = 0 then Some d
      else do { (r, d1) \<leftarrow> nes_platform_process_events evs d;
                if r = 0 then Some d1
                else do { (r', s') \<leftarrow> nes_sys_step_frame_with st pstep depth (drv_sys d1);
                          main_loop_with st rest (d1\<lparr>drv_sys := s'\<rparr>) } })"

text \<open>
  \<open>irq_dispatch\<close> is the condition on which \<open>nes_cpu_step\<close> enters its IRQ branch: the
  tests before it fail (no stall, no NMI pending) and \<open>pending_irq && !I\<close> holds.
  \<open>nes_cpu_step_chk\<close> is \<open>nes_cpu_step\<close> with that branch made an error: it has no value
  where the branch would be entered and is \<open>nes_cpu_step\<close> everywhere else.
\<close>

definition irq_dispatch :: "nes_system \<Rightarrow> bool" where
  "irq_dispatch s \<longleftrightarrow>
     \<not> stall_cycles (cpu s) > 0 \<and> \<not> pending_nmi (cpu s) \<noteq> 0 \<and>
     pending_irq (cpu s) \<noteq> 0 \<and> nes_cpu_get_flag (REG s) FLAG_INTERRUPT = 0"

definition nes_cpu_step_chk :: cpu_step where
  "nes_cpu_step_chk wr s = (if irq_dispatch s then None else nes_cpu_step wr s)"

section \<open>Scenarios and call sequences used in the properties\<close>

text \<open>An iNES image with one PRG bank and one CHR bank, all flag bytes 0 except \<open>flags7\<close>.\<close>

definition ines_image :: "u8 \<Rightarrow> u8 list" where
  "ines_image flags7 =
     [0x4E, 0x45, 0x53, 0x1A, 1, 1, 0, flags7, 0, 0, 0, 0, 0, 0, 0, 0] @ replicate 24576 0"

text \<open>Five writes to the MMC1 at \<open>addr\<close> that shift in the low five bits of \<open>c\<close>, bit 0
  first.\<close>

definition mmc1_serial_write :: "mapper_1_ctx \<Rightarrow> mirroring_t \<Rightarrow> u16 \<Rightarrow> u8 \<Rightarrow> mapper_1_ctx \<times> mirroring_t" where
  "mmc1_serial_write m mm addr c =
     fold (\<lambda>i (m', mm'). mapper_1_write m' mm' addr (drop_bit i c AND 1)) [0..<5] (m, mm)"

text \<open>The table of the specification for the low two bits of the MMC1 control register:
  00 single-low, 01 single-high, 10 vertical, 11 horizontal.\<close>

definition mmc1_spec_mirroring :: "u8 \<Rightarrow> mirroring_t" where
  "mmc1_spec_mirroring c =
     (if c AND 3 = 0 then MIRROR_SINGLE_0
      else if c AND 3 = 1 then MIRROR_SINGLE_1
      else if c AND 3 = 2 then MIRROR_VERTICAL
      else MIRROR_HORIZONTAL)"

text \<open>
  A system with a 16 KiB NROM cartridge in place: the PRG-ROM holds \<open>prog\<close> followed by
  zeros, the RAM is \<open>mem\<close>, and the CPU is about to fetch from \<open>$8000\<close> with the stack
  pointer and status a reset leaves.
\<close>

definition nrom_system :: "u8 list \<Rightarrow> (u16 \<Rightarrow> u8) \<Rightarrow> nes_system" where
  "nrom_system prog mem =
     nes_sys_init
       \<lparr>cpu := nes_cpu_init\<lparr>reg := (reg nes_cpu_init)\<lparr>reg_pc := 0x8000, reg_sp := 0xFD, reg_p := 0x24\<rparr>\<rparr>,
        cartridge := nes_cartridge_init
           \<lparr>cart_prg_rom := Some (prog @ replicate (16384 - length prog) 0),
            cart_prg_rom_size := 16384\<rparr>,
        mapper := Some Mapper0, ram := mem\<rparr>"

text \<open>The IRQ latch of the CPU is clear.\<close>

definition irq_clear :: "nes_system \<Rightarrow> bool" where
  "irq_clear s \<longleftrightarrow> pending_irq (cpu s) = 0"

text \<open>
  The system \<open>nes_sys_reset\<close> returns on \<open>nes_sys_init\<close>; no state file at all; a state
  file like the one a save of that system writes, but with the IRQ latch set, the I
  flag clear, and \<open>$34\<close>, \<open>$12\<close> in the RAM at \<open>$07FE\<close>, \<open>$07FF\<close>, where a system without a
  cartridge reads the vector \<open>$FFFE\<close>.
\<close>

definition reset_system :: nes_system where
  "reset_system =
     nes_sys_init
       \<lparr>cpu := nes_cpu_init\<lparr>reg := (reg nes_cpu_init)\<lparr>reg_p := 0x24, reg_sp := 0xFD\<rparr>\<rparr>,
        ppu := nes_ppu_reset nes_ppu_init, apu := nes_apu_reset nes_apu_init,
        input := nes_input_reset nes_input_init\<rparr>"

definition no_state_files :: "int \<Rightarrow> nes_state_file option" where
  "no_state_files k = None"

definition irq_state_file :: nes_state_file where
  "irq_state_file =
     (nes_sys_save_state reset_system)
       \<lparr>file_cpu := (cpu reset_system)
                      \<lparr>reg := (reg (cpu reset_system))\<lparr>reg_p := 0x20\<rparr>, pending_irq := 1\<rparr>,
        file_ram := (\<lambda>a. 0)(0x07FE := 0x34, 0x07FF := 0x12)\<rparr>"

text \<open>An iteration of the main loop that a quit event ends does not reach
  \<open>nes_sys_step_frame\<close>; its rendering step, which is never called, is given as the step
  without a value.\<close>

definition frame_not_reached :: ppu_step where
  "frame_not_reached s = None"

text \<open>A system without a cartridge whose RAM holds \<open>STA $4014\<close> at \<open>$0000\<close> and \<open>NOP\<close>
  everywhere else, with \<open>A = $02\<close>, \<open>PC = 0\<close> and the cycle counter at \<open>c\<close>.\<close>

definition dma_system :: "u32 \<Rightarrow> nes_system" where
  "dma_system c =
     nes_sys_init
       \<lparr>cpu := nes_cpu_init\<lparr>reg := (reg nes_cpu_init)\<lparr>reg_a := 0x02\<rparr>, cycle_count := c\<rparr>,
        ram := (\<lambda>a. 0xEA)(0 := 0x8D, 1 := 0x14, 2 := 0x40)\<rparr>"

text \<open>
  The CPU's accesses to the eight PPU registers, through \<open>nes_sys_cpu_read\<close> and
  \<open>nes_sys_cpu_write\<close> at \<open>$2000\<close> to \<open>$2007\<close> (no OAM DMA is involved at these addresses).
  \<open>ppu_accesses\<close> makes a list of them in order and returns the bytes read and the state
  they leave.
\<close>

datatype ppu_reg = PPUCTRL | PPUMASK | PPUSTATUS | OAMADDR | OAMDATA | PPUSCROLL | PPUADDR | PPUDATA

fun reg_addr :: "ppu_reg \<Rightarrow> u16" where
  "reg_addr PPUCTRL = 0x2000"
| "reg_addr PPUMASK = 0x2001"
| "reg_addr PPUSTATUS = 0x2002"
| "reg_addr OAMADDR = 0x2003"
| "reg_addr OAMDATA = 0x2004"
| "reg_addr PPUSCROLL = 0x2005"
| "reg_addr PPUADDR = 0x2006"
| "reg_addr PPUDATA = 0x2007"

datatype ppu_access = Reg_read ppu_reg | Reg_write ppu_reg u8

fun ppu_accesses :: "ppu_access list \<Rightarrow> nes_system \<Rightarrow> (u8 list \<times> nes_system) option" where
  "ppu_accesses [] s = Some ([], s)"
| "ppu_accesses (Reg_read r # acc) s =
     do { (v, s1) \<leftarrow> nes_sys_cpu_read s (reg_addr r);
          (vs, s2) \<leftarrow> ppu_accesses acc s1;
          Some (v # vs, s2) }"
| "ppu_accesses (Reg_write r v # acc) s =
     do { s1 \<leftarrow> nes_sys_cpu_write 0 s (reg_addr r) v;
          ppu_accesses acc s1 }"

text \<open>The state with the contents of the PPU's \<open>vram\<close> array left out of account: two
  states differ in \<open>vram\<close> at most when \<open>forget_vram\<close> makes them equal.\<close>

definition forget_vram :: "nes_system \<Rightarrow> nes_system" where
  "forget_vram s = s\<lparr>ppu := (ppu s)\<lparr>vram := (\<lambda>i. 0)\<rparr>\<rparr>"

text \<open>The system of \<open>nes_sys_init\<close> with the VRAM address \<open>v\<close> at \<open>$2000\<close>, the first byte
  of the first nametable.\<close>

definition nametable_system :: nes_system where
  "nametable_system = nes_sys_init\<lparr>ppu := nes_ppu_init\<lparr>scroll_v := 0x2000\<rparr>\<rparr>"

chapter \<open>Properties\<close>

section \<open>The noise LFSR\<close>

lemma drop_bit_1_zero:
  fixes x :: u16
  assumes "x \<noteq> 0" and "drop_bit 1 x = 0"
  shows "x = 1"
proof -
  from assms(2) have "unat (drop_bit 1 x) = 0" by simp
  then have "unat x div 2 = 0" by (simp add: drop_bit_eq_div unat_div)
  then have "unat x < 2" by simp
  moreover have "unat x \<noteq> 0" using assms(1) by (simp add: unat_eq_0)
  ultimately have "unat x = 1" by simp
  then have "unat x = unat (1 :: u16)" by simp
  then show ?thesis by (simp only: word_unat_eq_iff [symmetric])
qed

text \<open>One LFSR step with the tap at bit 1 or at bit 6 keeps a nonzero register nonzero:
  either a bit above bit 0 survives the shift, or the register is 1 and the feedback is 1.\<close>

lemma lfsr_step_nonzero:
  fixes x :: u16
  assumes "x \<noteq> 0" and "k = 1 \<or> k = 6"
  shows "drop_bit 1 x OR push_bit 14 ((x AND 1) XOR (drop_bit k x AND 1)) \<noteq> 0"
proof (cases "drop_bit 1 x = 0")
  case True
  with assms(1) have "x = 1" by (rule drop_bit_1_zero)
  with assms(2) show ?thesis by auto
next
  case False
  then show ?thesis by (simp add: or_eq_0_iff)
qed

lemma noise_timer_clock_lfsr:
  "noi_lfsr n \<noteq> 0 \<Longrightarrow> noi_lfsr (noise_timer_clock n) \<noteq> 0"
  using lfsr_step_nonzero [of "noi_lfsr n" 1] lfsr_step_nonzero [of "noi_lfsr n" 6]
  by (simp add: noise_timer_clock_def Let_def)

lemma frame_clock_lfsr: "noi_lfsr (noise (frame_clock au st)) = noi_lfsr (noise au)"
  by (simp add: frame_clock_def Let_def)

lemma nes_apu_step_lfsr:
  "noi_lfsr (noise au) \<noteq> 0 \<Longrightarrow> noi_lfsr (noise (nes_apu_step au)) \<noteq> 0"
  by (simp add: nes_apu_step_def Let_def frame_clock_lfsr noise_timer_clock_lfsr)

lemma apu_steps_lfsr:
  "noi_lfsr (noise au) \<noteq> 0 \<Longrightarrow> noi_lfsr (noise (apu_steps k au)) \<noteq> 0"
  by (induction k arbitrary: au) (simp_all add: nes_apu_step_lfsr)

lemma nes_apu_cpu_write_lfsr:
  "noi_lfsr (noise (nes_apu_cpu_write au addr val)) = noi_lfsr (noise au)"
  by (simp add: nes_apu_cpu_write_def Let_def frame_clock_lfsr)

lemma apu_apply_lfsr:
  "noi_lfsr (noise au) \<noteq> 0 \<Longrightarrow> noi_lfsr (noise (apu_apply c au)) \<noteq> 0"
  by (cases c)
     (simp_all add: nes_apu_step_lfsr nes_apu_execute_cycles_def apu_steps_lfsr
        nes_apu_cpu_write_lfsr nes_apu_reset_def noise_timer_clock_lfsr)

lemma apu_run_lfsr:
  "noi_lfsr (noise au) \<noteq> 0 \<Longrightarrow> noi_lfsr (noise (apu_run calls au)) \<noteq> 0"
  unfolding apu_run_def
  by (induction calls arbitrary: au) (simp_all add: apu_apply_lfsr)

text \<open>
  Claim C7.  The noise channel's LFSR is seeded with 1 by \<open>nes_apu_init\<close> and by
  \<open>nes_apu_reset\<close>, and it never becomes 0: after any list of APU calls (whole APU steps,
  runs of steps, register writes that switch the mode or the period, further resets, and
  steps of the noise timer alone) from either seed, the LFSR is nonzero.
\<close>

theorem noise_lfsr_never_zero:
  "noi_lfsr (noise (apu_run calls nes_apu_init)) \<noteq> 0 \<and>
   noi_lfsr (noise (apu_run calls (nes_apu_reset au))) \<noteq> 0"
  by (simp add: apu_run_lfsr nes_apu_init_def nes_apu_reset_def)

section \<open>Controller reads\<close>

lemma input_reads_after_eight:
  "strobe inp = 0 \<Longrightarrow> \<not> read_index inp (if c = 0 then 0 else 1) < 8 \<Longrightarrow>
   input_reads n c inp = replicate n 0x40"
  by (induction n) (simp_all add: nes_input_read_def NUM_BUTTONS_def Let_def)

text \<open>
  Claim C6, as the code has it.  With the strobe low and the read index at 0 (the state
  \<open>nes_input_reset\<close> leaves, and the one a strobe pulse leaves), the first eight reads
  of a controller return the buttons 0 to 7 (A, B, Select, Start, Up, Down, Left,
  Right) in bit 0, with bit 6 set; every later read returns \<open>0x40\<close>: bit 6 set and bit 0
  clear, where the claim and the comment in \<open>nes_input_read\<close> say 1.
\<close>

theorem controller_reads_then_zero:
  "input_reads (8 + n) c (nes_input_reset inp) =
     map (\<lambda>k. (if buttons inp (if c = 0 then 0 else 1) k \<noteq> 0 then 1 else 0) OR 0x40) [0..<8]
     @ replicate n 0x40"
proof -
  have eight: "8 + n = Suc (Suc (Suc (Suc (Suc (Suc (Suc (Suc n)))))))" by simp
  have upt8: "[0..<8] = [0, 1, 2, 3, 4, 5, 6, 7::nat]" by (simp add: upt_rec)
  show ?thesis
    unfolding eight upt8
    by (cases "c = 0")
       (simp_all add: nes_input_read_def nes_input_reset_def NUM_BUTTONS_def Let_def
          NES_BUTTON_A_def input_reads_after_eight)
qed

section \<open>NES 2.0 detection\<close>

lemma header_of_ines_image:
  "header_of (ines_image f) =
   \<lparr>hdr_magic = NES_MAGIC, hdr_prg_rom_size = 1, hdr_chr_rom_size = 1, hdr_flags6 = 0,
    hdr_flags7 = f, hdr_flags8 = 0, hdr_flags9 = 0, hdr_flags10 = 0,
    hdr_unused = [0, 0, 0, 0, 0]\<rparr>"
  by (simp add: header_of_def ines_image_def NES_MAGIC_def)

lemma length_ines_image: "length (ines_image f) = 24592"
  by (simp add: ines_image_def)

lemma load_ines_image:
  "fst (nes_cartridge_load_memory nes_cartridge_init (ines_image f)) = NES_ROM_OK \<and>
   info_is_nes_2_0 (cart_info (snd (nes_cartridge_load_memory nes_cartridge_init (ines_image f))))
     = (if f AND 0x0C = 0x0C then 1 else 0)"
  by (simp add: nes_cartridge_load_memory_def header_of_ines_image length_ines_image
        NES_ROM_HEADER_SIZE_def parse_header_def Let_def FLAGS7_NES_2_0_def
        NES_PRG_ROM_SIZE_def NES_CHR_ROM_SIZE_def FLAGS6_TRAINER_def split: prod.splits)

text \<open>
  Claim C8, as the code has it.  The loader accepts the image with \<open>flags7 = 0x08\<close>, for
  which \<open>(flags7 & 0x0C) == 0x08\<close>, and does not flag it as NES 2.0; it accepts the image
  with \<open>flags7 = 0x0C\<close> and flags that one: \<open>parse_header\<close> compares the masked byte with
  the mask \<open>FLAGS7_NES_2_0 = 0x0C\<close>.
\<close>

theorem nes_2_0_flag_compares_with_mask:
  "fst (nes_cartridge_load_memory nes_cartridge_init (ines_image 0x08)) = NES_ROM_OK \<and>
   info_is_nes_2_0 (cart_info (snd (nes_cartridge_load_memory nes_cartridge_init (ines_image 0x08)))) = 0 \<and>
   fst (nes_cartridge_load_memory nes_cartridge_init (ines_image 0x0C)) = NES_ROM_OK \<and>
   info_is_nes_2_0 (cart_info (snd (nes_cartridge_load_memory nes_cartridge_init (ines_image 0x0C)))) = 1"
  using load_ines_image [of "0x08"] load_ines_image [of "0x0C"] by simp

section \<open>MMC1 mirroring\<close>

lemma upt_0_5: "[0..<5] = [0, 1, 2, 3, 4::nat]"
  by (simp add: upt_rec)

lemma drop_bit_and_1: "drop_bit i (c::u8) AND 1 = of_bool (bit c i)"
  by (simp add: and_one_eq mod_2_eq_odd bit_iff_odd_drop_bit)

lemma and_1_bit: "(c::u8) AND 1 = of_bool (bit c 0)"
  using drop_bit_and_1 [of 0 c] by simp

lemma and_3_bits: "(c::u8) AND 3 = of_bool (bit c 0) + 2 * of_bool (bit c 1)"
proof -
  have "c AND 3 = take_bit 2 c" by (simp add: take_bit_eq_mask mask_eq_exp_minus_1)
  also have "\<dots> = of_bool (bit c 0) + 2 * of_bool (bit c 1)"
    by (simp add: numeral_2_eq_2 take_bit_Suc mod_2_eq_odd bit_0 bit_1_iff
          bit_iff_odd_drop_bit drop_bit_eq_div)
  finally show ?thesis .
qed

text \<open>The five writes latch the control value and hand its low two bits, unchanged, to
  \<open>nes_ppu_set_mirror_mode\<close>.\<close>

lemma mmc1_serial_write_mirror:
  "snd (mmc1_serial_write (m\<lparr>m1_shift_reg := 0x10, m1_shift_count := 0\<rparr>) mm 0x8000 c)
   = nes_ppu_set_mirror_mode mm (c AND 3)"
  unfolding mmc1_serial_write_def upt_0_5 and_3_bits
  by (cases "bit c 0"; cases "bit c 1"; cases "bit c 2"; cases "bit c 3"; cases "bit c 4")
     (simp_all add: mapper_1_write_def Let_def drop_bit_and_1 and_1_bit bit_drop_bit_eq
        nes_ppu_set_mirror_mode_def)

text \<open>
  Claim C5, as the code has it.  From a context with an empty shift register (as
  \<open>mapper_1_init\<close> and a reset write leave it), five writes to \<open>$8000\<close> that shift in the
  control value \<open>c\<close> leave the PPU's mirroring mode at horizontal, vertical, single 0,
  single 1 for \<open>c & 3 = 0, 1, 2, 3\<close>: the two bits are passed as they are to
  \<open>nes_ppu_set_mirror_mode\<close>, whose encoding is the enum's.  For every \<open>c\<close> this is not the
  mode of the specification's table (single-low, single-high, vertical, horizontal).
\<close>

theorem mmc1_control_sets_enum_mirroring:
  "snd (mmc1_serial_write (m\<lparr>m1_shift_reg := 0x10, m1_shift_count := 0\<rparr>) mm 0x8000 c)
     = (if c AND 3 = 0 then MIRROR_HORIZONTAL
        else if c AND 3 = 1 then MIRROR_VERTICAL
        else if c AND 3 = 2 then MIRROR_SINGLE_0
        else MIRROR_SINGLE_1) \<and>
   snd (mmc1_serial_write (m\<lparr>m1_shift_reg := 0x10, m1_shift_count := 0\<rparr>) mm 0x8000 c)
     \<noteq> mmc1_spec_mirroring c"
  unfolding mmc1_serial_write_mirror mmc1_spec_mirroring_def and_3_bits
  by (cases "bit c 0"; cases "bit c 1") (simp_all add: nes_ppu_set_mirror_mode_def)

section \<open>The bus and the CPU\<close>

lemmas bus_consts = NES_RAM_MIRRORS_def NES_RAM_END_def NES_ADDR_PPU_REG_def NES_ADDR_APU_REG_def
  NES_ADDR_CARTRIDGE_def CONTROLLER_1_def CONTROLLER_2_def JOY_STROBE_def OAM_DMA_ADDR_def

subsection \<open>Bus reads do not look at the CPU and do not change it\<close>

lemma has_mapper_callbacks_cpu [simp]:
  "has_mapper_callbacks (cpu_update f s) = has_mapper_callbacks s"
  by (simp add: has_mapper_callbacks_def)

lemma nes_sys_ppu_read_cpu [simp]:
  "nes_sys_ppu_read (cpu_update f s) a = nes_sys_ppu_read s a"
  by (simp add: nes_sys_ppu_read_def)

lemma ppu_read_vram_cpu [simp]:
  "ppu_read_vram (cpu_update f s) a = ppu_read_vram s a"
  by (simp add: ppu_read_vram_def Let_def)

lemma nes_ppu_cpu_read_cpu:
  "nes_ppu_cpu_read (cpu_update f s) a = map_option (apsnd (cpu_update f)) (nes_ppu_cpu_read s a)"
  by (cases "ppu_read_vram s (scroll_v (ppu s))") (simp_all add: nes_ppu_cpu_read_def Let_def)

lemma nes_sys_cpu_read_cpu:
  "nes_sys_cpu_read (cpu_update f s) a = map_option (apsnd (cpu_update f)) (nes_sys_cpu_read s a)"
proof -
  have pr: "(nes_cartridge_read_prg_ram (cartridge s) x \<bind> (\<lambda>v. Some (v, cpu_update f s)))
      = map_option (apsnd (cpu_update f))
          (nes_cartridge_read_prg_ram (cartridge s) x \<bind> (\<lambda>v. Some (v, s)))" for x
    by (cases "nes_cartridge_read_prg_ram (cartridge s) x") simp_all
  have mr: "(mapper_cpu_read m (cartridge s) a \<bind> (\<lambda>(v, mp). Some (v, cpu_update f s\<lparr>mapper := Some mp\<rparr>)))
      = map_option (apsnd (cpu_update f))
          (mapper_cpu_read m (cartridge s) a \<bind> (\<lambda>(v, mp). Some (v, s\<lparr>mapper := Some mp\<rparr>)))" for m
    by (cases "mapper_cpu_read m (cartridge s) a") auto
  show ?thesis
    by (auto simp: nes_sys_cpu_read_def bus_consts nes_ppu_cpu_read_cpu pr mr
          has_mapper_callbacks_def split: prod.split)
qed

lemma nes_ppu_cpu_read_keeps:
  "nes_ppu_cpu_read s a = Some (v, s') \<Longrightarrow> cpu s' = cpu s \<and> ram s' = ram s"
  by (cases "ppu_read_vram s (scroll_v (ppu s))")
     (auto simp: nes_ppu_cpu_read_def Let_def split: if_splits)

lemma nes_sys_cpu_read_keeps:
  "nes_sys_cpu_read s a = Some (v, s') \<Longrightarrow> cpu s' = cpu s \<and> ram s' = ram s"
  by (auto simp: nes_sys_cpu_read_def bus_consts split: if_splits prod.splits bind_splits
      dest: nes_ppu_cpu_read_keeps)

lemma ram_read:
  "a < 0x1FFF \<Longrightarrow> nes_sys_cpu_read s a = Some (ram s (a AND 0x7FF), s)"
  by (simp add: nes_sys_cpu_read_def bus_consts)

subsection \<open>One CPU step: indirect JMP\<close>

lemma info_6C: "info_cycles 0x6C = 5"
  by (simp add: info_cycles_def g_opcode_table_def)

lemma info_20: "info_cycles 0x20 = 6"
  by (simp add: info_cycles_def g_opcode_table_def)

text \<open>For a pointer \<open>$hhFF\<close> the address \<open>(ptr & 0xFF00) | ((ptr + 1) & 0xFF)\<close> of the
  high byte is \<open>$hh00\<close>.\<close>

lemma ptr_ff_high:
  fixes hi :: u8
  shows "((push_bit 8 (ucast hi) OR 0xFF :: u16) AND 0xFF00) OR
         (((push_bit 8 (ucast hi) OR 0xFF) + 1) AND 0xFF) = push_bit 8 (ucast hi)"
proof -
  let ?H = "push_bit 8 (ucast hi) :: u16"
  have m: "(0xFF :: u16) = mask 8" "(0xFF00 :: u16) = NOT (mask 8)"
    by (simp_all add: mask_eq_exp_minus_1)
  have d: "?H AND mask 8 = 0"
    by (rule bit_word_eqI) (auto simp: bit_simps)
  have a: "?H OR mask 8 = ?H + mask 8"
    using d by (simp add: disjunctive_add_eq_or)
  have "(?H OR mask 8) + 1 = push_bit 8 (ucast hi + 1)"
    unfolding a by (simp add: push_bit_eq_mult mask_eq_exp_minus_1 algebra_simps)
  then have l: "((?H OR mask 8) + 1) AND mask 8 = 0"
    by (simp only:) (rule bit_word_eqI, auto simp: bit_simps)
  have h: "(?H OR mask 8) AND NOT (mask 8) = ?H"
    by (rule bit_word_eqI) (auto simp: bit_simps)
  show ?thesis unfolding m l h by simp
qed

text \<open>
  Claim C3.  Let the CPU be at any address \<open>p\<close>, not stalled and with no interrupt to
  take, and let the bus deliver \<open>6C FF hi\<close> at \<open>p\<close>, \<open>p + 1\<close>, \<open>p + 2\<close>: an indirect JMP
  through the pointer \<open>$hhFF\<close>, for any page \<open>hh\<close>.  Then one step takes 5 cycles, reads
  the low byte of the target at \<open>$hhFF\<close> and the high byte at \<open>$hh00\<close>, the start of the
  pointer's own page and not \<open>$hhFF + 1\<close>, and leaves \<open>PC\<close> at the target made of the two.
  The five reads are threaded as the bus performs them (\<open>s1\<close> to \<open>s5\<close> are the system
  after each), so the statement covers reads with side effects too; beside what the
  reads do, only the program counter and the cycle counter change.
\<close>

theorem jmp_indirect_page_wrap:
  assumes "stall_cycles (cpu s) = 0" and "pending_nmi (cpu s) = 0"
    and "pending_irq (cpu s) = 0 \<or> nes_cpu_get_flag (REG s) FLAG_INTERRUPT \<noteq> 0"
    and "nes_sys_cpu_read s (reg_pc (REG s)) = Some (0x6C, s1)"
    and "nes_sys_cpu_read s1 (reg_pc (REG s) + 1) = Some (0xFF, s2)"
    and "nes_sys_cpu_read s2 (reg_pc (REG s) + 2) = Some (hi, s3)"
    and "nes_sys_cpu_read s3 (push_bit 8 (ucast hi) OR 0xFF) = Some (lo', s4)"
    and "nes_sys_cpu_read s4 (push_bit 8 (ucast hi)) = Some (hi', s5)"
  shows "nes_cpu_step wr s =
     Some (5, cpu_update (\<lambda>c. c\<lparr>reg := (reg c)\<lparr>reg_pc := ucast lo' OR push_bit 8 (ucast hi')\<rparr>,
                                  cycle_count := cycle_count c + 5, stall_cycles := 0\<rparr>) s5)"
proof -
  let ?p = "reg_pc (REG s)"
  let ?H = "push_bit 8 (ucast hi) :: u16"
  let ?T = "ucast lo' OR push_bit 8 (ucast hi') :: u16"
  have c1: "cpu s1 = cpu s" using nes_sys_cpu_read_keeps [OF assms(4)] by simp
  have r16: "read16 (set_pc (?p + 1) s1) (?p + 1) = Some (?H OR 0xFF, set_pc (?p + 1) s3)"
    using assms(5,6) by (simp add: read16_def nes_sys_cpu_read_cpu add.assoc or.commute)
  have c3: "cpu s3 = cpu s"
    using nes_sys_cpu_read_keeps [OF assms(5)] nes_sys_cpu_read_keeps [OF assms(6)] c1 by simp
  have gea: "get_effective_address (set_pc (?p + 1) s1) MODE_INDIRECT = Some (?T, set_pc (?p + 3) s5)"
    using assms(7,8)
    by (simp add: get_effective_address_def r16 nes_sys_cpu_read_cpu ptr_ff_high add.assoc)
  have ex: "execute_opcode wr (set_pc (?p + 1) s1) 0x6C = Some (set_pc ?T s5)"
    by (simp add: execute_opcode_def gea)
  have c5: "cpu s5 = cpu s"
    using nes_sys_cpu_read_keeps [OF assms(7)] nes_sys_cpu_read_keeps [OF assms(8)] c3 by simp
  show ?thesis
    using assms(1-4) c1 c5 by (auto simp: nes_cpu_step_def ex info_6C)
qed

text \<open>The instance of the claim: \<open>6C FF 02\<close> at \<open>$8000\<close> in PRG-ROM, \<open>$02FF = $40\<close>,
  \<open>$0200 = $80\<close> and \<open>$0300 = $12\<close>; the step leaves \<open>PC = $8040\<close>.\<close>

theorem jmp_indirect_page_wrap_witness:
  "nes_cpu_step (nes_sys_cpu_write 0)
       (nrom_system [0x6C, 0xFF, 0x02] ((\<lambda>a. 0)(0x02FF := 0x40, 0x0200 := 0x80, 0x0300 := 0x12))) =
     Some (5, cpu_update (\<lambda>c. c\<lparr>reg := (reg c)\<lparr>reg_pc := 0x8040\<rparr>,
                                  cycle_count := cycle_count c + 5, stall_cycles := 0\<rparr>)
       (nrom_system [0x6C, 0xFF, 0x02] ((\<lambda>a. 0)(0x02FF := 0x40, 0x0200 := 0x80, 0x0300 := 0x12))))"
  using jmp_indirect_page_wrap
    [where s = "nrom_system [0x6C, 0xFF, 0x02] ((\<lambda>a. 0)(0x02FF := 0x40, 0x0200 := 0x80, 0x0300 := 0x12))"
       and ?s1.0 = "nrom_system [0x6C, 0xFF, 0x02] ((\<lambda>a. 0)(0x02FF := 0x40, 0x0200 := 0x80, 0x0300 := 0x12))"
       and ?s2.0 = "nrom_system [0x6C, 0xFF, 0x02] ((\<lambda>a. 0)(0x02FF := 0x40, 0x0200 := 0x80, 0x0300 := 0x12))"
       and ?s3.0 = "nrom_system [0x6C, 0xFF, 0x02] ((\<lambda>a. 0)(0x02FF := 0x40, 0x0200 := 0x80, 0x0300 := 0x12))"
       and ?s4.0 = "nrom_system [0x6C, 0xFF, 0x02] ((\<lambda>a. 0)(0x02FF := 0x40, 0x0200 := 0x80, 0x0300 := 0x12))"
       and ?s5.0 = "nrom_system [0x6C, 0xFF, 0x02] ((\<lambda>a. 0)(0x02FF := 0x40, 0x0200 := 0x80, 0x0300 := 0x12))"
       and hi = "0x02" and lo' = "0x40" and hi' = "0x80" and wr = "nes_sys_cpu_write 0"]
  by (simp add: nes_sys_cpu_read_def bus_consts nrom_system_def nes_sys_init_def has_mapper_callbacks_def
      mapper_cpu_read_def mapper_0_cpu_read_def prg_fetch_def rom_fetch_def mem_read_def nes_cartridge_init_def
      nes_cpu_init_def nes_cpu_get_flag_def FLAG_INTERRUPT_def)

subsection \<open>One CPU step: JSR\<close>

lemma stack_addr_ram: "NES_STACK_BASE + ucast (sp :: u8) < (0x1FFF :: u16)"
proof -
  have "unat sp < 256" using unsigned_less [of sp, where 'a=nat] by simp
  moreover have "unat (ucast sp :: u16) \<le> unat sp"
    by (simp add: unsigned_ucast_eq take_bit_nat_less_eq_self)
  ultimately have a: "unat (ucast sp :: u16) < 256" by simp
  then have "unat (0x100 + ucast sp :: u16) = 256 + unat (ucast sp :: u16)"
    by (simp add: unat_word_ariths)
  then show ?thesis
    using a by (simp add: NES_STACK_BASE_def word_less_nat_alt)
qed

lemma ram_write:
  "a < 0x1FFF \<Longrightarrow> nes_sys_cpu_write d s a v = Some (s\<lparr>ram := (ram s)(a AND 0x7FF := v)\<rparr>)"
  by (cases d) (simp_all add: nes_sys_cpu_write_body_def bus_consts)

lemma push_ram:
  "nes_cpu_push (nes_sys_cpu_write d) s v =
     Some ((with_reg (reg_sp_update (\<lambda>_. reg_sp (REG s) - 1)) s)
            \<lparr>ram := (ram s)((NES_STACK_BASE + ucast (reg_sp (REG s))) AND 0x7FF := v)\<rparr>)"
  by (simp add: nes_cpu_push_def Let_def ram_write stack_addr_ram)

text \<open>
  Claim C4, as the code has it.  When the CPU is not stalled and has no interrupt to
  take, and the bytes at \<open>p\<close>, \<open>p + 1\<close>, \<open>p + 2\<close> are \<open>20 lo hi\<close> (so the operand is
  \<open>T = lo | hi << 8\<close>), one step takes 6 cycles, stores the high byte of \<open>p + 2\<close> at
  \<open>$0100 + SP\<close> and then its low byte at \<open>$0100 + (SP - 1)\<close>, lowers \<open>SP\<close> by two, and
  leaves \<open>PC = T + 1\<close>: one past the target the claim names.  The pushed word is the
  claimed one; the program counter is not.
\<close>

theorem jsr_sets_pc_past_target:
  assumes "stall_cycles (cpu s) = 0" and "pending_nmi (cpu s) = 0"
    and "pending_irq (cpu s) = 0 \<or> nes_cpu_get_flag (REG s) FLAG_INTERRUPT \<noteq> 0"
    and "nes_sys_cpu_read s (reg_pc (REG s)) = Some (0x20, s)"
    and "nes_sys_cpu_read s (reg_pc (REG s) + 1) = Some (lo, s)"
    and "nes_sys_cpu_read s (reg_pc (REG s) + 2) = Some (hi, s)"
  shows "nes_cpu_step (nes_sys_cpu_write d) s =
     Some (6, (cpu_update (\<lambda>c. c\<lparr>reg := (reg c)\<lparr>reg_pc := (ucast lo OR push_bit 8 (ucast hi)) + 1,
                                                   reg_sp := reg_sp (REG s) - 2\<rparr>,
                                  cycle_count := cycle_count c + 6, stall_cycles := 0\<rparr>) s)
        \<lparr>ram := (ram s)
           ((NES_STACK_BASE + ucast (reg_sp (REG s))) AND 0x7FF :=
               ucast (drop_bit 8 (reg_pc (REG s) + 2) AND 0xFF),
            (NES_STACK_BASE + ucast (reg_sp (REG s) - 1)) AND 0x7FF :=
               ucast ((reg_pc (REG s) + 2) AND 0xFF))\<rparr>)"
proof -
  let ?p = "reg_pc (REG s)"
  have gea: "get_effective_address (set_pc (?p + 1) s) MODE_ABSOLUTE =
      Some (ucast lo OR push_bit 8 (ucast hi), set_pc (?p + 3) s)"
    using assms(5,6)
    by (simp add: get_effective_address_def read16_def nes_sys_cpu_read_cpu add.assoc)
  have ex: "execute_opcode (nes_sys_cpu_write d) (set_pc (?p + 1) s) 0x20 =
      Some ((set_pc ((ucast lo OR push_bit 8 (ucast hi)) + 1)
              (with_reg (reg_sp_update (\<lambda>_. reg_sp (REG s) - 2)) s))
        \<lparr>ram := (ram s)
           ((NES_STACK_BASE + ucast (reg_sp (REG s))) AND 0x7FF :=
               ucast (drop_bit 8 (?p + 2) AND 0xFF),
            (NES_STACK_BASE + ucast (reg_sp (REG s) - 1)) AND 0x7FF :=
               ucast ((?p + 2) AND 0xFF))\<rparr>)"
  proof -
    have pm: "?p + 3 - 1 = ?p + 2" by simp
    show ?thesis
      by (simp add: execute_opcode_def gea nes_cpu_push_word_def push_ram comp_def pm
               del: add_diff_cancel_right' diff_add_cancel)
  qed
  show ?thesis using assms(1-4) by (auto simp: nes_cpu_step_def ex info_20)
qed

text \<open>The theorem at \<open>JSR $1234\<close> in PRG-ROM at \<open>$8000\<close>: the step pushes \<open>$80\<close>, \<open>$02\<close>
  and leaves \<open>PC = $1235\<close>.\<close>

theorem jsr_sets_pc_past_target_witness:
  "nes_cpu_step (nes_sys_cpu_write 0) (nrom_system [0x20, 0x34, 0x12] (\<lambda>a. 0)) =
     Some (6, (cpu_update (\<lambda>c. c\<lparr>reg := (reg c)\<lparr>reg_pc := 0x1235, reg_sp := 0xFB\<rparr>,
                                  cycle_count := 6, stall_cycles := 0\<rparr>)
                 (nrom_system [0x20, 0x34, 0x12] (\<lambda>a. 0)))
        \<lparr>ram := (\<lambda>a. 0)(0x01FD := 0x80, 0x01FC := 0x02)\<rparr>)"
  using jsr_sets_pc_past_target [of "nrom_system [0x20, 0x34, 0x12] (\<lambda>a. 0)" "0x34" "0x12" 0]
  by (simp add: nes_sys_cpu_read_def bus_consts nrom_system_def nes_sys_init_def has_mapper_callbacks_def
      mapper_cpu_read_def mapper_0_cpu_read_def prg_fetch_def rom_fetch_def mem_read_def nes_cartridge_init_def
      nes_cpu_init_def nes_cpu_get_flag_def FLAG_INTERRUPT_def NES_STACK_BASE_def)

subsection \<open>The PPU register window\<close>

text \<open>
  Claim C2, as the code has it.  The bus hands an address to the PPU only when it lies
  in \<open>$2000\<close> to \<open>$2007\<close>.  For an address from \<open>$2008\<close> to \<open>$3FFF\<close> a read falls
  through to the last \<open>return\<close> of \<open>nes_sys_cpu_read\<close>, the RAM byte at the address
  masked with \<open>0x7FF\<close>, and leaves the system as it is; a write leaves the system as it
  is.  Neither reaches the register \<open>$2000 | (A & 7)\<close>.
\<close>

theorem ppu_register_mirrors_not_decoded:
  assumes "0x2008 \<le> a" and "a \<le> 0x3FFF"
  shows "nes_sys_cpu_read s a = Some (ram s (a AND NES_RAM_END), s) \<and>
         nes_sys_cpu_write d s a v = Some s"
proof -
  have b: "\<not> a < 0x1FFF" "\<not> a < 0x2008" "\<not> 0x4000 \<le> a" "\<not> 0x4020 \<le> a" "\<not> 0x6000 \<le> a"
    using assms by (simp_all add: word_le_nat_alt word_less_nat_alt)
  have r: "nes_sys_cpu_read s a = Some (ram s (a AND NES_RAM_END), s)"
    using b by (simp add: nes_sys_cpu_read_def bus_consts)
  have w: "nes_sys_cpu_write d s a v = Some s"
    using b by (cases d) (simp_all add: nes_sys_cpu_write_body_def bus_consts)
  show ?thesis using r w by simp
qed

text \<open>
  The theorem at \<open>$200A\<close> and \<open>$2008\<close> on the system \<open>nes_sys_init\<close> leaves, beside the
  registers they would mirror: the read of \<open>$2002\<close> returns the status \<open>$80\<close> and clears
  the VBlank flag, the read of \<open>$200A\<close> returns the RAM byte 0 and clears nothing; the
  write of \<open>$FF\<close> to \<open>$2000\<close> sets \<open>PPUCTRL\<close>, the write to \<open>$2008\<close> sets nothing.
\<close>

theorem ppu_register_mirrors_not_decoded_witness:
  "(0x2008 :: u16) \<le> 0x200A \<and> (0x200A :: u16) \<le> 0x3FFF \<and>
   nes_sys_cpu_read nes_sys_init 0x200A = Some (0, nes_sys_init) \<and>
   nes_sys_cpu_write 1 nes_sys_init 0x200A 0xFF = Some nes_sys_init \<and>
   nes_sys_cpu_read nes_sys_init 0x2002 =
     Some (0x80, nes_sys_init\<lparr>ppu := (ppu nes_sys_init)\<lparr>ppu_status := 0\<rparr>\<rparr>) \<and>
   nes_sys_cpu_write 1 nes_sys_init 0x2002 0xFF = Some nes_sys_init \<and>
   nes_sys_cpu_write 1 nes_sys_init 0x2008 0xFF = Some nes_sys_init \<and>
   nes_sys_cpu_write 1 nes_sys_init 0x2000 0xFF =
     Some (nes_sys_init\<lparr>ppu := (ppu nes_sys_init)\<lparr>ppu_ctrl := 0xFF, scroll_t := 0x0C00\<rparr>\<rparr>)"
  using ppu_register_mirrors_not_decoded [of "0x200A" nes_sys_init 1 "0xFF"]
        ppu_register_mirrors_not_decoded [of "0x2008" nes_sys_init 1 "0xFF"]
  by (simp add: nes_sys_cpu_read_def nes_sys_cpu_write_body_def bus_consts nes_sys_init_def
       nes_ppu_cpu_read_def nes_ppu_cpu_write_def nes_ppu_init_def
       PPUSTATUS_VBLANK_def PPUSTATUS_SP0_HIT_def PPUSTATUS_SP_OVF_def)

section \<open>PPUDATA writes to nametable space\<close>

lemma bus_read_reg:
  "nes_sys_cpu_read s (reg_addr r) = nes_ppu_cpu_read s (reg_addr r AND 7)"
  by (cases r; simp add: nes_sys_cpu_read_def bus_consts)

lemma bus_write_reg:
  "nes_sys_cpu_write d s (reg_addr r) v = nes_ppu_cpu_write s (reg_addr r AND 7) v"
  by (cases d; cases r; simp add: nes_sys_cpu_write_body_def bus_consts)

lemma forget_vram_fields [simp]:
  "ppu (forget_vram s) = (ppu s)\<lparr>vram := (\<lambda>i. 0)\<rparr>"
  "cartridge (forget_vram s) = cartridge s"
  "mapper (forget_vram s) = mapper s"
  "g_mirror_mode (forget_vram s) = g_mirror_mode s"
  "g_frame_buffer (forget_vram s) = g_frame_buffer s"
  by (simp_all add: forget_vram_def)

lemma forget_vram_idem [simp]: "forget_vram (forget_vram s) = forget_vram s"
  by (simp add: forget_vram_def)

lemma forget_vram_ppu:
  "forget_vram (s\<lparr>ppu := p\<rparr>) = forget_vram (s\<lparr>ppu := p\<lparr>vram := x\<rparr>\<rparr>)"
  by (simp add: forget_vram_def)

lemma ppu_read_vram_forget [simp]:
  "ppu_read_vram (forget_vram s) a = ppu_read_vram s a"
  by (simp add: ppu_read_vram_def nes_sys_ppu_read_def has_mapper_callbacks_def Let_def)

lemma ppu_read_vram_ppu [simp]:
  "ppu_read_vram (s\<lparr>ppu := p\<rparr>) a = ppu_read_vram s a"
  by (simp add: ppu_read_vram_def nes_sys_ppu_read_def has_mapper_callbacks_def Let_def)

lemma increment_vram_addr_vram:
  "increment_vram_addr (p\<lparr>vram := x\<rparr>) = (increment_vram_addr p)\<lparr>vram := x\<rparr>"
  by (simp add: increment_vram_addr_def)

lemma nes_ppu_cpu_read_forget:
  "nes_ppu_cpu_read (forget_vram s) a = map_option (apsnd forget_vram) (nes_ppu_cpu_read s a)"
  by (cases "ppu_read_vram s (scroll_v (ppu s))";
      simp add: nes_ppu_cpu_read_def Let_def forget_vram_def increment_vram_addr_def)

lemma ppu_write_vram_forget:
  "map_option forget_vram (ppu_write_vram (forget_vram s) a v) =
   map_option forget_vram (ppu_write_vram s a v)"
proof -
  have h: "has_mapper_callbacks (forget_vram s) = has_mapper_callbacks s"
    by (simp add: has_mapper_callbacks_def)
  have w: "nes_sys_ppu_write (forget_vram s) b v = map_option forget_vram (nes_sys_ppu_write s b v)" for b
    unfolding nes_sys_ppu_write_def h forget_vram_fields
    by (cases "if has_mapper_callbacks s
                then mapper_ppu_write (the (mapper s)) (cartridge s) b v
                else nes_cartridge_write_chr_ram (cartridge s) (ucast b) v";
        simp add: forget_vram_def)
  show ?thesis
    unfolding ppu_write_vram_def Let_def
    by (simp add: w option.map_comp comp_def) (simp add: forget_vram_def)
qed

lemma ppu_write_vram_scroll:
  "ppu_write_vram s a v = Some s1 \<Longrightarrow>
   scroll_v (ppu s1) = scroll_v (ppu s) \<and> ppu_ctrl (ppu s1) = ppu_ctrl (ppu s)"
  by (auto simp add: ppu_write_vram_def nes_sys_ppu_write_def Let_def split: if_splits bind_splits)

lemma nes_ppu_cpu_write_forget:
  "map_option forget_vram (nes_ppu_cpu_write (forget_vram s) a v) =
   map_option forget_vram (nes_ppu_cpu_write s a v)"
proof (cases "a AND 7 = 7")
  case False
  then show ?thesis
    by (simp add: nes_ppu_cpu_write_def Let_def forget_vram_def write_ppu_scroll_x_def
          write_ppu_scroll_y_def write_ppu_addr_def)
next
  case True
  have i: "forget_vram (t\<lparr>ppu := increment_vram_addr (ppu t)\<rparr>) =
           (forget_vram t)\<lparr>ppu := increment_vram_addr (ppu (forget_vram t))\<rparr>" for t
    by (simp add: forget_vram_def increment_vram_addr_def)
  have "map_option forget_vram (nes_ppu_cpu_write t a v) =
        map_option (\<lambda>u. u\<lparr>ppu := increment_vram_addr (ppu u)\<rparr>)
          (map_option forget_vram (ppu_write_vram t (scroll_v (ppu t)) v))" for t
    using True
    by (cases "ppu_write_vram t (scroll_v (ppu t)) v"; simp add: nes_ppu_cpu_write_def Let_def i)
  then show ?thesis
    using ppu_write_vram_forget [of s "scroll_v (ppu s)" v] by simp
qed

lemma ppu_accesses_forget:
  "map_option (apsnd forget_vram) (ppu_accesses acc (forget_vram s)) =
   map_option (apsnd forget_vram) (ppu_accesses acc s)"
proof (induction acc arbitrary: s)
  case Nil
  show ?case by simp
next
  case (Cons x acc)
  have cons: "map_option (apsnd forget_vram) (do { (vs, s2) \<leftarrow> m; Some (v # vs, s2) }) =
              map_option (apfst ((#) v)) (map_option (apsnd forget_vram) m)"
    for m :: "(u8 list \<times> nes_system) option" and v
    by (cases m) auto
  show ?case
  proof (cases x)
    case (Reg_read r)
    show ?thesis
    proof (cases "nes_ppu_cpu_read s (reg_addr r AND 7)")
      case None
      then show ?thesis
        by (simp add: Reg_read bus_read_reg nes_ppu_cpu_read_forget)
    next
      case (Some y)
      obtain v s1 where y: "y = (v, s1)" by (cases y)
      have a: "ppu_accesses (x # acc) s = do { (vs, s2) \<leftarrow> ppu_accesses acc s1; Some (v # vs, s2) }"
        by (simp add: Reg_read bus_read_reg Some y)
      have b: "ppu_accesses (x # acc) (forget_vram s) =
               do { (vs, s2) \<leftarrow> ppu_accesses acc (forget_vram s1); Some (v # vs, s2) }"
        by (simp add: Reg_read bus_read_reg nes_ppu_cpu_read_forget Some y)
      show ?thesis
        unfolding a b cons by (simp only: Cons.IH)
    qed
  next
    case (Reg_write r v)
    let ?w = "nes_ppu_cpu_write s (reg_addr r AND 7) v"
    let ?w' = "nes_ppu_cpu_write (forget_vram s) (reg_addr r AND 7) v"
    have e: "map_option forget_vram ?w' = map_option forget_vram ?w"
      by (rule nes_ppu_cpu_write_forget)
    show ?thesis
    proof (cases ?w)
      case None
      then have "?w' = None" using e by simp
      then show ?thesis by (simp add: Reg_write bus_write_reg None del: nes_sys_cpu_write.simps)
    next
      case (Some s1)
      then obtain s1' where w': "?w' = Some s1'" and f: "forget_vram s1' = forget_vram s1"
        using e by (cases ?w') auto
      have "map_option (apsnd forget_vram) (ppu_accesses acc s1') =
            map_option (apsnd forget_vram) (ppu_accesses acc (forget_vram s1'))"
        by (rule Cons.IH [symmetric])
      also have "\<dots> = map_option (apsnd forget_vram) (ppu_accesses acc (forget_vram s1))"
        by (simp only: f)
      also have "\<dots> = map_option (apsnd forget_vram) (ppu_accesses acc s1)"
        by (rule Cons.IH)
      finally have "map_option (apsnd forget_vram) (ppu_accesses acc s1') =
            map_option (apsnd forget_vram) (ppu_accesses acc s1)" .
      then show ?thesis by (simp add: Reg_write bus_write_reg Some w' del: nes_sys_cpu_write.simps)
    qed
  qed
qed

lemma nametable_write:
  assumes "0x2000 \<le> scroll_v (ppu s) AND 0x3FFF" and "scroll_v (ppu s) AND 0x3FFF < 0x3F00"
  shows "nes_sys_cpu_write d s 0x2007 val =
           Some (s\<lparr>ppu := increment_vram_addr ((ppu s)
                   \<lparr>vram := (vram (ppu s))
                      (nametable_index (g_mirror_mode s) (scroll_v (ppu s) AND 0x3FFF) := val)\<rparr>)\<rparr>)"
proof -
  have n: "\<not> scroll_v (ppu s) AND 0x3FFF < 0x2000" using assms(1) by simp
  show ?thesis
    using bus_write_reg [of d s PPUDATA val] n assms(2)
    by (simp add: nes_ppu_cpu_write_def ppu_write_vram_def Let_def)
qed

lemma nametable_read:
  assumes "0x2000 \<le> scroll_v (ppu s) AND 0x3FFF" and "scroll_v (ppu s) AND 0x3FFF < 0x3F00"
  shows "nes_sys_cpu_read s 0x2007 =
           Some (ppu_data_buffer (ppu s),
                 s\<lparr>ppu := increment_vram_addr ((ppu s)
                   \<lparr>ppu_data_buffer := g_frame_buffer s
                      (unat (nametable_index (g_mirror_mode s) (scroll_v (ppu s) AND 0x3FFF)))\<rparr>)\<rparr>)"
proof -
  have n: "\<not> scroll_v (ppu s) AND 0x3FFF < 0x2000" "\<not> 0x3F00 \<le> scroll_v (ppu s) AND 0x3FFF"
    using assms by simp_all
  show ?thesis
    using bus_read_reg [of s PPUDATA] n assms(2)
    by (simp add: nes_ppu_cpu_read_def ppu_read_vram_def Let_def)
qed

lemmas ppu_eval = nes_ppu_cpu_read_def nes_ppu_cpu_write_def ppu_read_vram_def ppu_write_vram_def
  write_ppu_addr_def increment_vram_addr_def nametable_index_def read_name_table_addr_def
  read_palette_def g_nes_palette_0_def nes_sys_init_def nes_ppu_init_def PPUCTRL_INC32_def
  PPUSTATUS_VBLANK_def Let_def

lemma bus_ppuaddr_ppudata:
  "nes_sys_cpu_write d s 0x2006 v = nes_ppu_cpu_write s 6 v"
  "nes_sys_cpu_write d s 0x2007 v = nes_ppu_cpu_write s 7 v"
  "nes_sys_cpu_read s 0x2007 = nes_ppu_cpu_read s 7"
  using bus_write_reg [of d s PPUADDR v] bus_write_reg [of d s PPUDATA v] bus_read_reg [of s PPUDATA]
  by simp_all




section \<open>OAM DMA\<close>

lemma info_EA: "info_cycles 0xEA = 2"
  by (simp add: info_cycles_def g_opcode_table_def)

lemma info_8D: "info_cycles 0x8D = 4" "info_mode 0x8D = MODE_ABSOLUTE"
  by (simp_all add: info_cycles_def info_mode_def g_opcode_table_def)

lemma low_addr:
  assumes "q < 0x800"
  shows "(of_nat q :: u16) < 0x1FFF" and "(of_nat q :: u16) AND 0x7FF = of_nat q"
proof -
  have u: "unat (of_nat q :: u16) = q" using assms by (simp add: unat_of_nat)
  show "(of_nat q :: u16) < 0x1FFF" using assms by (simp add: word_less_nat_alt u)
  have "(of_nat q :: u16) < 2 ^ 11" using assms by (simp add: word_less_nat_alt u)
  then show "(of_nat q :: u16) AND 0x7FF = of_nat q"
    using less_mask_eq [of "of_nat q :: u16" 11] by (simp add: mask_eq_exp_minus_1)
qed

lemma step_nop:
  assumes "stall_cycles (cpu s) = 0" and "pending_nmi (cpu s) = 0" and "pending_irq (cpu s) = 0"
    and "reg_pc (REG s) = of_nat q" and "q < 0x800" and "ram s (of_nat q) = 0xEA"
  shows "nes_cpu_step wr s =
     Some (2, cpu_update (\<lambda>c. c\<lparr>reg := (reg c)\<lparr>reg_pc := of_nat (Suc q)\<rparr>,
                                  cycle_count := cycle_count c + 2\<rparr>) s)"
proof -
  have rd: "nes_sys_cpu_read s (of_nat q) = Some (0xEA, s)"
    using assms(5,6) by (simp add: ram_read low_addr)
  have ex: "execute_opcode wr (set_pc (of_nat q + 1) s) 0xEA = Some (set_pc (of_nat q + 1) s)"
    by (simp add: execute_opcode_def)
  show ?thesis using assms(1-4) by (simp add: nes_cpu_step_def rd ex info_EA)
qed

lemma nop_sled:
  assumes "stall_cycles (cpu s) = 0" and "pending_nmi (cpu s) = 0" and "pending_irq (cpu s) = 0"
    and "\<forall>j. 3 \<le> j \<and> j < 0x800 \<longrightarrow> ram s (of_nat j) = 0xEA"
    and "reg_pc (REG s) = of_nat q" and "3 \<le> q" and "q + n \<le> 0x7FF"
    and "m + 2 * n = 514"
  shows "execute_loop wr (of_nat m) 514 s =
     Some (cpu_update (\<lambda>c. c\<lparr>reg := (reg c)\<lparr>reg_pc := of_nat (q + n)\<rparr>,
                              cycle_count := cycle_count c + of_nat (2 * n)\<rparr>) s)"
  using assms
proof (induction n arbitrary: s q m)
  case 0
  then have "m = 514" by simp
  then show ?case using "0.prems"(5) by (simp add: execute_loop.simps [of wr 514])
next
  case (Suc n)
  let ?s1 = "cpu_update (\<lambda>c. c\<lparr>reg := (reg c)\<lparr>reg_pc := of_nat (Suc q)\<rparr>,
                                  cycle_count := cycle_count c + 2\<rparr>) s"
  have m: "m < 514" "m + 2 + 2 * n = 514" using Suc.prems(8) by simp_all
  have lt: "(of_nat m :: u32) < 514"
    using m(1) by (simp add: word_less_nat_alt unat_of_nat)
  have st: "nes_cpu_step wr s = Some (2, ?s1)"
    using Suc.prems by (intro step_nop) simp_all
  have IH: "execute_loop wr (of_nat (m + 2)) 514 ?s1 =
     Some (cpu_update (\<lambda>c. c\<lparr>reg := (reg c)\<lparr>reg_pc := of_nat (Suc q + n)\<rparr>,
                              cycle_count := cycle_count c + of_nat (2 * n)\<rparr>) ?s1)"
    using Suc.prems m by (intro Suc.IH) simp_all
  show ?case
    using lt st IH by (simp add: execute_loop.simps [of wr "of_nat m"] algebra_simps)
qed

lemma fold_oam_const:
  "n \<le> 256 \<Longrightarrow> fold (\<lambda>i m. m(of_nat i := c)) [0..<n] (m0 :: u8 \<Rightarrow> u8) =
     (\<lambda>a. if unat a < n then c else m0 a)"
proof (induction n)
  case 0
  then show ?case by simp
next
  case (Suc n)
  then have n: "n < 256" by simp
  have eq: "\<And>a :: u8. (a = of_nat n) = (unat a = n)"
    using n by (auto simp: unat_of_nat)
  show ?case using Suc n by (auto simp: fun_eq_iff less_Suc_eq eq)
qed

lemma fold_oam_all:
  "fold (\<lambda>i m. m(of_nat i := c)) [0..<256] (m0 :: u8 \<Rightarrow> u8) = (\<lambda>a. c)"
proof -
  have "\<And>a :: u8. unat a < 256" using unsigned_less [where 'a = nat and 'b = 8] by simp
  then show ?thesis by (simp add: fold_oam_const)
qed

lemma page2_byte:
  assumes "i < 256"
  shows "((\<lambda>a. 0xEA)(0 := 0x8D, 1 := 0x14, 2 := 0x40)) (0x200 + of_nat i :: u16) = (0xEA :: u8)"
proof -
  have "unat (0x200 + of_nat i :: u16) = 512 + i"
    using assms by (simp add: unat_word_ariths unat_of_nat)
  then have "(0x200 + of_nat i :: u16) \<noteq> 0" "(0x200 + of_nat i :: u16) \<noteq> 1"
    "(0x200 + of_nat i :: u16) \<noteq> 2"
    by (auto simp: word_unat_eq_iff)
  then show ?thesis by simp
qed

lemma sled_byte:
  "3 \<le> j \<and> j < 0x800 \<longrightarrow> ((\<lambda>a. 0xEA)(0 := 0x8D, 1 := 0x14, 2 := 0x40)) (of_nat j :: u16) = (0xEA :: u8)"
proof (intro impI)
  assume j: "3 \<le> j \<and> j < 0x800"
  then have "unat (of_nat j :: u16) = j" by (simp add: unat_of_nat)
  then have "(of_nat j :: u16) \<noteq> 0" "(of_nat j :: u16) \<noteq> 1" "(of_nat j :: u16) \<noteq> 2"
    using j by (auto simp: word_unat_eq_iff)
  then show "((\<lambda>a. 0xEA)(0 := 0x8D, 1 := 0x14, 2 := 0x40)) (of_nat j :: u16) = (0xEA :: u8)"
    by simp
qed

lemma dma_copy:
  "fold (\<lambda>i m. m(0 + of_nat i := ((\<lambda>a. 0xEA)(0 := 0x8D, 1 := 0x14, 2 := 0x40)) (0x200 + of_nat i :: u16)))
       [0..<256] (m0 :: u8 \<Rightarrow> u8) = (\<lambda>a. 0xEA)"
proof -
  have "fold (\<lambda>i m. m(0 + of_nat i := ((\<lambda>a. 0xEA)(0 := 0x8D, 1 := 0x14, 2 := 0x40)) (0x200 + of_nat i :: u16)))
       [0..<256] m0 = fold (\<lambda>i m. m(of_nat i := 0xEA)) [0..<256] m0"
  proof (rule fold_cong)
    fix x assume "x \<in> set [0..<256]"
    then have "x < 256" by simp
    then show "(\<lambda>m :: u8 \<Rightarrow> u8. m(0 + of_nat x := ((\<lambda>a. 0xEA)(0 := 0x8D, 1 := 0x14, 2 := 0x40)) (0x200 + of_nat x :: u16))) =
               (\<lambda>m. m(of_nat x := 0xEA))"
      by (simp only: page2_byte add_0_left)
  qed simp_all
  then show ?thesis by (simp only: fold_oam_all)
qed

text \<open>The step of \<open>dma_system c\<close>, for every \<open>c\<close>.\<close>

lemma dma_step_eval:
  "nes_cpu_step (nes_sys_cpu_write 1) (dma_system c) =
     Some (4, (dma_system c)
        \<lparr>cpu := nes_cpu_init\<lparr>reg := (reg nes_cpu_init)\<lparr>reg_a := 0x02, reg_pc := 0x0104\<rparr>,
                            cycle_count := c + 518\<rparr>,
         ppu := nes_ppu_init\<lparr>oam := (\<lambda>i. 0xEA)\<rparr>\<rparr>)"
proof -
  let ?s = "dma_system c"
  let ?mem = "(\<lambda>a. 0xEA)(0 := 0x8D, 1 := 0x14, 2 := 0x40) :: u16 \<Rightarrow> u8"
  have f: "stall_cycles (cpu ?s) = 0" "pending_nmi (cpu ?s) = 0" "pending_irq (cpu ?s) = 0"
    "reg_pc (REG ?s) = 0" "ram ?s = ?mem" "ppu ?s = nes_ppu_init"
    by (simp_all add: dma_system_def nes_sys_init_def nes_cpu_init_def)
  have rd: "nes_sys_cpu_read ?s 0 = Some (0x8D, ?s)" "nes_sys_cpu_read ?s 1 = Some (0x14, ?s)"
    "nes_sys_cpu_read ?s 2 = Some (0x40, ?s)"
    by (simp_all add: ram_read f)
  have gea: "get_effective_address (set_pc 1 ?s) MODE_ABSOLUTE = Some (0x4014, set_pc 3 ?s)"
    using rd f(4) by (simp add: get_effective_address_def read16_def nes_sys_cpu_read_cpu)
  have sled: "execute_loop (nes_sys_cpu_write 0) (of_nat 0) 514 (set_pc 3 ?s) =
     Some (cpu_update (\<lambda>c. c\<lparr>reg := (reg c)\<lparr>reg_pc := of_nat (3 + 257)\<rparr>,
                              cycle_count := cycle_count c + of_nat (2 * 257)\<rparr>) (set_pc 3 ?s))"
  proof (rule nop_sled)
    have "ram (set_pc 3 ?s) = ?mem" by (simp add: f)
    then show "\<forall>j. 3 \<le> j \<and> j < 0x800 \<longrightarrow> ram (set_pc 3 ?s) (of_nat j) = 0xEA"
      using sled_byte by (simp only:) blast
  qed (simp_all add: f)
  let ?s1 = "cpu_update (\<lambda>c. c\<lparr>reg := (reg c)\<lparr>reg_pc := of_nat (3 + 257)\<rparr>,
                              cycle_count := cycle_count c + of_nat (2 * 257)\<rparr>) (set_pc 3 ?s)"
  have od: "nes_sys_cpu_write (Suc 0) (set_pc 3 ?s) 0x4014 2 =
      Some (?s1\<lparr>ppu := nes_ppu_oam_dma (ppu ?s1)
                         (\<lambda>i. ram ?s1 (push_bit 8 (ucast (2 :: u8)) + of_nat i))\<rparr>)"
    using sled
    by (simp add: nes_sys_cpu_write_body_def bus_consts nes_sys_oam_dma_def
          nes_cpu_execute_cycles_def)
  have pp: "ppu ?s1 = nes_ppu_init" and rr: "ram ?s1 = ?mem" by (simp_all add: f)
  have pb: "push_bit 8 (ucast (2 :: u8)) = (0x200 :: u16)" by simp
  have oa: "ppu_oam_addr nes_ppu_init = 0" by (simp add: nes_ppu_init_def)
  have cp: "nes_ppu_oam_dma (ppu ?s1) (\<lambda>i. ram ?s1 (push_bit 8 (ucast (2 :: u8)) + of_nat i)) =
              nes_ppu_init\<lparr>oam := (\<lambda>i. 0xEA)\<rparr>"
    by (simp only: pp rr pb nes_ppu_oam_dma_def oa dma_copy)
  have dma: "nes_sys_cpu_write (Suc 0) (set_pc 3 ?s) 0x4014 2 =
     Some ((cpu_update (\<lambda>c. c\<lparr>reg := (reg c)\<lparr>reg_pc := 0x104\<rparr>,
                              cycle_count := cycle_count c + 514\<rparr>) ?s)
            \<lparr>ppu := nes_ppu_init\<lparr>oam := (\<lambda>i. 0xEA)\<rparr>\<rparr>)"
    by (simp only: od cp) (simp add: comp_def)
  have ex: "execute_opcode (nes_sys_cpu_write (Suc 0)) (set_pc 1 ?s) 0x8D =
     Some ((cpu_update (\<lambda>c. c\<lparr>reg := (reg c)\<lparr>reg_pc := 0x104\<rparr>,
                              cycle_count := cycle_count c + 514\<rparr>) ?s)
            \<lparr>ppu := nes_ppu_init\<lparr>oam := (\<lambda>i. 0xEA)\<rparr>\<rparr>)"
  proof -
    have ra: "reg_a (REG ?s) = 2"
      by (simp add: dma_system_def nes_sys_init_def nes_cpu_init_def)
    show ?thesis
      using dma
      by (simp add: execute_opcode_def store_byte_def gea info_8D ra
            del: nes_sys_cpu_write.simps)
  qed
  show ?thesis
    using f(1-4) rd(1)
    by (simp add: nes_cpu_step_def ex info_8D del: nes_sys_cpu_write.simps)
       (simp add: dma_system_def nes_sys_init_def nes_cpu_init_def)
qed

text \<open>
  Claim C1, as the code has it.  \<open>nes_sys_oam_dma\<close> does not stall the CPU: it calls
  \<open>nes_cpu_execute_cycles(sys->cpu, 514)\<close>, which fetches and executes the instructions
  that follow until at least 514 cycles are counted, whatever the parity of the cycle
  counter, and copies the page afterwards.  On \<open>dma_system c\<close> the step that executes
  \<open>STA $4014\<close> returns 4, and when it returns 257 \<open>NOP\<close>s have been executed (\<open>PC\<close> has
  gone from \<open>$0003\<close> to \<open>$0104\<close>), the cycle counter has advanced by 518, the 514 of the
  transfer and the 4 of the store, for every \<open>c\<close>, even or odd, and the OAM holds the
  256 bytes \<open>$EA\<close> of page 2.
\<close>

theorem oam_dma_runs_instructions_for_514_cycles:
  "nes_cpu_step (nes_sys_cpu_write 1) (dma_system c) =
     Some (4, (dma_system c)
        \<lparr>cpu := nes_cpu_init\<lparr>reg := (reg nes_cpu_init)\<lparr>reg_a := 0x02, reg_pc := 0x0104\<rparr>,
                            cycle_count := c + 518\<rparr>,
         ppu := nes_ppu_init\<lparr>oam := (\<lambda>i. 0xEA)\<rparr>\<rparr>)"
  by (rule dma_step_eval)

section \<open>The IRQ latch\<close>

lemma pred_option_bind:
  "pred_option P m \<Longrightarrow> (\<And>x. P x \<Longrightarrow> pred_option Q (f x)) \<Longrightarrow> pred_option Q (m \<bind> f)"
  by (cases m) simp_all

lemma pred_option_if:
  "(c \<Longrightarrow> pred_option P a) \<Longrightarrow> (\<not> c \<Longrightarrow> pred_option P b) \<Longrightarrow> pred_option P (if c then a else b)"
  by simp

lemma irq_read:
  assumes "irq_clear s"
  shows "pred_option (\<lambda>(v, s'). irq_clear s') (nes_sys_cpu_read s a)"
proof (cases "nes_sys_cpu_read s a")
  case None
  then show ?thesis by simp
next
  case (Some x)
  obtain v s' where x: "x = (v, s')" by (cases x)
  have "cpu s' = cpu s" using nes_sys_cpu_read_keeps [of s a v s'] Some x by simp
  then show ?thesis using assms Some x by (simp add: irq_clear_def)
qed

lemma irq_push:
  assumes wr: "\<And>s a v. irq_clear s \<Longrightarrow> pred_option irq_clear (wr s a v)"
  shows "irq_clear s \<Longrightarrow> pred_option irq_clear (nes_cpu_push wr s v)"
  unfolding nes_cpu_push_def Let_def by (rule wr) (simp add: irq_clear_def)

lemma irq_pop: "irq_clear s \<Longrightarrow> pred_option (\<lambda>(v, s'). irq_clear s') (nes_cpu_pop s)"
  unfolding nes_cpu_pop_def Let_def by (rule irq_read) (simp add: irq_clear_def)

named_theorems irq_intros

lemma irq_bind [irq_intros]:
  "pred_option irq_clear m \<Longrightarrow> (\<And>s'. irq_clear s' \<Longrightarrow> pred_option Q (f s')) \<Longrightarrow>
   pred_option Q (m \<bind> f)"
  by (cases m) simp_all

lemma irq_bind2 [irq_intros]:
  "pred_option (\<lambda>(v, s'). irq_clear s') m \<Longrightarrow>
   (\<And>v s'. irq_clear s' \<Longrightarrow> pred_option Q (f v s')) \<Longrightarrow>
   pred_option Q (m \<bind> (\<lambda>(v, s'). f v s'))"
  by (cases m) auto

lemma irq_Some [irq_intros]: "irq_clear s \<Longrightarrow> pred_option irq_clear (Some s)"
  by simp

lemma irq_Some2 [irq_intros]: "irq_clear s \<Longrightarrow> pred_option (\<lambda>(v, s'). irq_clear s') (Some (v, s))"
  by simp

lemma irq_cpu_update [simp]:
  "irq_clear (cpu_update (reg_update f) s) = irq_clear s"
  "irq_clear (cpu_update (stall_cycles_update g) s) = irq_clear s"
  "irq_clear (cpu_update (cycle_count_update h) s) = irq_clear s"
  by (simp_all add: irq_clear_def)

lemmas [irq_intros] = pred_option_if irq_read irq_pop

lemma irq_push_word [irq_intros]:
  assumes wr: "\<And>s a v. irq_clear s \<Longrightarrow> pred_option irq_clear (wr s a v)"
  shows "irq_clear s \<Longrightarrow> pred_option irq_clear (nes_cpu_push_word wr s v)"
  unfolding nes_cpu_push_word_def
  by (intro irq_intros irq_push wr)

lemma irq_pop_word [irq_intros]:
  "irq_clear s \<Longrightarrow> pred_option (\<lambda>(v, s'). irq_clear s') (nes_cpu_pop_word s)"
  unfolding nes_cpu_pop_word_def
  by (intro irq_intros)

lemma irq_read16 [irq_intros]:
  "irq_clear s \<Longrightarrow> pred_option (\<lambda>(v, s'). irq_clear s') (read16 s a)"
  unfolding read16_def
  by (intro irq_intros)

lemma irq_fetch_pc [irq_intros]:
  "irq_clear s \<Longrightarrow> pred_option (\<lambda>(v, s'). irq_clear s') (fetch_pc s)"
  unfolding fetch_pc_def
  by (intro irq_intros) simp

lemma irq_page_penalty [simp]: "irq_clear (page_penalty b a s) = irq_clear s"
  by (simp add: page_penalty_def)

lemma irq_get_effective_address [irq_intros]:
  "irq_clear s \<Longrightarrow> pred_option (\<lambda>(v, s'). irq_clear s') (get_effective_address s mode)"
  unfolding get_effective_address_def Let_def
  by (cases mode; simp; intro irq_intros; simp)

lemma irq_load_byte [irq_intros]:
  "irq_clear s \<Longrightarrow> pred_option (\<lambda>(v, s'). irq_clear s') (load_byte s mode)"
  unfolding load_byte_def
  by (cases mode; simp; intro irq_intros; simp)

lemma irq_store_byte [irq_intros]:
  assumes wr: "\<And>s a v. irq_clear s \<Longrightarrow> pred_option irq_clear (wr s a v)"
  shows "irq_clear s \<Longrightarrow> pred_option irq_clear (store_byte wr s mode v)"
  unfolding store_byte_def
  by (intro irq_intros wr)

lemma irq_do_branch [irq_intros]:
  "irq_clear s \<Longrightarrow> pred_option irq_clear (do_branch s c)"
  unfolding do_branch_def Let_def
  by (intro irq_intros; simp)

lemma irq_op_load [irq_intros]:
  "irq_clear s \<Longrightarrow> pred_option irq_clear (op_load s mode f)"
  unfolding op_load_def
  by (intro irq_intros; simp)

lemma irq_op_reg [irq_intros]:
  "irq_clear s \<Longrightarrow> pred_option irq_clear (op_reg s f)"
  unfolding op_reg_def by simp

lemma irq_op_rmw [irq_intros]:
  assumes wr: "\<And>s a v. irq_clear s \<Longrightarrow> pred_option irq_clear (wr s a v)"
  shows "irq_clear s \<Longrightarrow> pred_option irq_clear (op_rmw wr s mode g)"
  unfolding op_rmw_def
  by (intro irq_intros wr; simp split: prod.split; intro allI impI irq_intros wr; simp)

lemma irq_interrupt_sequence [irq_intros]:
  assumes wr: "\<And>s a v. irq_clear s \<Longrightarrow> pred_option irq_clear (wr s a v)"
  shows "irq_clear s \<Longrightarrow> pred_option (\<lambda>(v, s'). irq_clear s') (interrupt_sequence wr s vec)"
  unfolding interrupt_sequence_def Let_def
  by (intro irq_intros irq_push wr; simp add: irq_clear_def)

lemma irq_execute_opcode [irq_intros]:
  assumes wr: "\<And>s a v. irq_clear s \<Longrightarrow> pred_option irq_clear (wr s a v)"
  shows "irq_clear s \<Longrightarrow> pred_option irq_clear (execute_opcode wr s opcode)"
  unfolding execute_opcode_def Let_def
  by (intro irq_intros irq_push wr; (assumption | simp add: irq_clear_def))

lemma irq_nes_cpu_step [irq_intros]:
  assumes wr: "\<And>s a v. irq_clear s \<Longrightarrow> pred_option irq_clear (wr s a v)"
  shows "irq_clear s \<Longrightarrow> pred_option (\<lambda>(v, s'). irq_clear s') (nes_cpu_step wr s)"
  unfolding nes_cpu_step_def Let_def
  by (intro irq_intros irq_interrupt_sequence irq_execute_opcode wr;
      (assumption | simp add: irq_clear_def))

lemma irq_execute_loop_aux:
  assumes "execute_loop wr e c s = Some y"
  shows "(\<forall>s a v. irq_clear s \<longrightarrow> pred_option irq_clear (wr s a v)) \<longrightarrow> irq_clear s \<longrightarrow> irq_clear y"
proof (rule execute_loop.raw_induct
    [where P = "\<lambda>wr e c s y. (\<forall>s a v. irq_clear s \<longrightarrow> pred_option irq_clear (wr s a v)) \<longrightarrow>
                   irq_clear s \<longrightarrow> irq_clear y", OF _ assms])
  fix el :: "bus_write \<Rightarrow> u32 \<Rightarrow> u32 \<Rightarrow> nes_system \<Rightarrow> nes_system option"
    and wr e c s y
  assume IH: "\<And>wr e c s y. el wr e c s = Some y \<Longrightarrow>
      (\<forall>s a v. irq_clear s \<longrightarrow> pred_option irq_clear (wr s a v)) \<longrightarrow> irq_clear s \<longrightarrow> irq_clear y"
    and eq: "(if e < c then nes_cpu_step wr s \<bind> (\<lambda>(k, s1). el wr (e + ucast k) c s1)
             else Some s) = Some y"
  show "(\<forall>s a v. irq_clear s \<longrightarrow> pred_option irq_clear (wr s a v)) \<longrightarrow> irq_clear s \<longrightarrow> irq_clear y"
  proof (intro impI)
    assume safe: "\<forall>s a v. irq_clear s \<longrightarrow> pred_option irq_clear (wr s a v)"
      and s: "irq_clear s"
    show "irq_clear y"
    proof (cases "e < c")
      case True
      with eq obtain k s1 where st: "nes_cpu_step wr s = Some (k, s1)"
        and el: "el wr (e + ucast k) c s1 = Some y"
        by (auto simp: bind_eq_Some_conv)
      have "irq_clear s1"
        using irq_nes_cpu_step [of wr s] safe s st by simp
      then show ?thesis using IH [OF el] safe by simp
    next
      case False
      with eq s show ?thesis by simp
    qed
  qed
qed

lemma irq_execute_cycles [irq_intros]:
  assumes wr: "\<And>s a v. irq_clear s \<Longrightarrow> pred_option irq_clear (wr s a v)"
  shows "irq_clear s \<Longrightarrow> pred_option irq_clear (nes_cpu_execute_cycles wr s n)"
  using irq_execute_loop_aux [of wr 0 n s] wr
  by (cases "execute_loop wr 0 n s") (simp_all add: nes_cpu_execute_cycles_def)

lemma irq_oam_dma:
  assumes wr: "\<And>s a v. irq_clear s \<Longrightarrow> pred_option irq_clear (wr s a v)"
  shows "irq_clear s \<Longrightarrow> pred_option irq_clear (nes_sys_oam_dma wr s page)"
  unfolding nes_sys_oam_dma_def
  by (intro irq_intros irq_execute_cycles wr; (assumption | simp add: irq_clear_def))

lemma pred_option_bindI:
  "(\<And>x. m = Some x \<Longrightarrow> pred_option P (f x)) \<Longrightarrow> pred_option P (m \<bind> f)"
  by (cases m) simp_all

lemma ppu_write_vram_cpu: "pred_option (\<lambda>s'. cpu s' = cpu s) (ppu_write_vram s a v)"
  unfolding ppu_write_vram_def nes_sys_ppu_write_def Let_def
  by (intro pred_option_if pred_option_bindI; simp)

lemma nes_ppu_cpu_write_cpu: "pred_option (\<lambda>s'. cpu s' = cpu s) (nes_ppu_cpu_write s a v)"
proof -
  have "pred_option (\<lambda>s'. cpu s' = cpu s)
          (ppu_write_vram s (scroll_v (ppu s)) v \<bind> (\<lambda>s1. Some (s1\<lparr>ppu := increment_vram_addr (ppu s1)\<rparr>)))"
    using ppu_write_vram_cpu [of s "scroll_v (ppu s)" v]
    by (cases "ppu_write_vram s (scroll_v (ppu s)) v") simp_all
  then show ?thesis
    unfolding nes_ppu_cpu_write_def Let_def
    by (intro pred_option_if; simp)
qed

lemma irq_ppu_cpu_write: "irq_clear s \<Longrightarrow> pred_option irq_clear (nes_ppu_cpu_write s a v)"
  using nes_ppu_cpu_write_cpu [of s a v]
  by (cases "nes_ppu_cpu_write s a v") (simp_all add: irq_clear_def)

lemma irq_write_body:
  assumes dma: "\<And>s v. irq_clear s \<Longrightarrow> pred_option irq_clear (oam_dma s v)"
  shows "irq_clear s \<Longrightarrow> pred_option irq_clear (nes_sys_cpu_write_body oam_dma s a v)"
  unfolding nes_sys_cpu_write_body_def bus_consts
  by (intro pred_option_if pred_option_bindI irq_ppu_cpu_write dma;
      (assumption | clarsimp simp: irq_clear_def))

lemma irq_nes_sys_cpu_write:
  "irq_clear s \<Longrightarrow> pred_option irq_clear (nes_sys_cpu_write d s a v)"
proof (induction d arbitrary: s a v)
  case 0
  then show ?case by (simp add: irq_write_body)
next
  case (Suc d)
  have dma: "\<And>s v. irq_clear s \<Longrightarrow> pred_option irq_clear (nes_sys_oam_dma (nes_sys_cpu_write d) s v)"
    by (rule irq_oam_dma) (rule Suc.IH)
  show ?case using Suc.prems by (simp add: irq_write_body [OF dma])
qed

lemma irq_frame_loop:
  "irq_clear s \<Longrightarrow> pred_option irq_clear (frame_loop pstep (nes_sys_cpu_write d) n s)"
proof (induction n arbitrary: s)
  case 0
  then show ?case by simp
next
  case (Suc n)
  show ?case
  proof (cases "frame_complete s \<noteq> 0 \<or> pstep s = None")
    case True
    then show ?thesis using Suc.prems by auto
  next
    case False
    then obtain vb p' fb' where ps: "pstep s = Some (vb, p', fb')" by auto
    define s2 where "s2 = (if vb \<noteq> 0 \<and> ppu_ctrl p' AND PPUCTRL_NMI \<noteq> 0
        then nes_cpu_trigger_nmi (s\<lparr>ppu := p', g_frame_buffer := fb'\<rparr>)
        else s\<lparr>ppu := p', g_frame_buffer := fb'\<rparr>)"
    have s2: "irq_clear s2"
      using Suc.prems by (simp add: s2_def irq_clear_def nes_cpu_trigger_nmi_def)
    have "pred_option irq_clear
            (nes_cpu_execute_cycles (nes_sys_cpu_write d) s2 NES_CPU_PPU_RATIO \<bind>
             frame_loop pstep (nes_sys_cpu_write d) n)"
      by (intro irq_bind irq_execute_cycles irq_nes_sys_cpu_write Suc.IH s2)
    then show ?thesis using False ps by (simp add: s2_def Let_def)
  qed
qed

lemma irq_step_frame:
  "irq_clear s \<Longrightarrow> pred_option (\<lambda>(r, s'). irq_clear s') (nes_sys_step_frame pstep d s)"
  unfolding nes_sys_step_frame_def
  by (intro pred_option_if irq_bind irq_frame_loop; simp add: irq_clear_def)

lemma irq_cpu_reset: "pred_option irq_clear (nes_cpu_reset s)"
  unfolding nes_cpu_reset_def Let_def
  by (intro irq_intros; simp add: irq_clear_def)

lemma irq_sys_reset: "pred_option irq_clear (nes_sys_reset s)"
  unfolding nes_sys_reset_def
  by (intro irq_bind irq_cpu_reset; simp add: irq_clear_def)

lemma irq_handle_key_event:
  assumes "irq_clear (drv_sys d)"
    and "\<forall>k st. drv_files d k = Some st \<longrightarrow> pending_irq (file_cpu st) = 0"
  shows "pred_option (\<lambda>d'. irq_clear (drv_sys d') \<and>
            (\<forall>k st. drv_files d' k = Some st \<longrightarrow> pending_irq (file_cpu st) = 0))
          (handle_key_event key pressed d)"
proof -
  have r: "pred_option (\<lambda>d'. irq_clear (drv_sys d') \<and>
            (\<forall>k st. drv_files d' k = Some st \<longrightarrow> pending_irq (file_cpu st) = 0))
          (nes_sys_reset (drv_sys d) \<bind> (\<lambda>s'. Some (d\<lparr>drv_sys := s'\<rparr>)))"
    using irq_sys_reset [of "drv_sys d"] assms(2)
    by (cases "nes_sys_reset (drv_sys d)") simp_all
  have l: "irq_clear (nes_sys_load_state (drv_sys d) (drv_files d (g_save_slot d)))"
    using assms by (auto simp: nes_sys_load_state_def irq_clear_def split: option.split)
  show ?thesis
    using assms r l
    by (cases key) (auto simp: handle_key_event_def irq_clear_def nes_sys_save_state_def)
qed

lemma irq_process_events:
  assumes "irq_clear (drv_sys d)"
    and "\<forall>k st. drv_files d k = Some st \<longrightarrow> pending_irq (file_cpu st) = 0"
  shows "pred_option (\<lambda>(r, d'). irq_clear (drv_sys d') \<and>
            (\<forall>k st. drv_files d' k = Some st \<longrightarrow> pending_irq (file_cpu st) = 0))
          (nes_platform_process_events evs d)"
  using assms
proof (induction evs d rule: nes_platform_process_events.induct)
  case (1 d)
  then show ?case by simp
next
  case (2 evs d)
  then show ?case by (simp add: irq_clear_def)
next
  case (3 k evs d)
  show ?case
    using irq_handle_key_event [OF "3.prems", of k 1] "3.IH"
    by (cases "handle_key_event k 1 d") auto
next
  case (4 k evs d)
  show ?case
    using irq_handle_key_event [OF "4.prems", of k 0] "4.IH"
    by (cases "handle_key_event k 0 d") auto
qed

lemma irq_main_loop:
  assumes "irq_clear (drv_sys d)"
    and "\<forall>k st. drv_files d k = Some st \<longrightarrow> pending_irq (file_cpu st) = 0"
  shows "pred_option (\<lambda>d'. irq_clear (drv_sys d') \<and>
            (\<forall>k st. drv_files d' k = Some st \<longrightarrow> pending_irq (file_cpu st) = 0))
          (main_loop iters d)"
  using assms
proof (induction iters arbitrary: d)
  case Nil
  then show ?case by simp
next
  case (Cons it iters)
  obtain evs pstep depth where it: "it = (evs, pstep, depth)" by (cases it)
  show ?case
  proof (cases "nes_platform_process_events evs d")
    case None
    then show ?thesis using Cons.prems it by simp
  next
    case (Some x)
    obtain r d1 where x: "x = (r, d1)" by (cases x)
    have d1: "irq_clear (drv_sys d1)"
      "\<forall>k st. drv_files d1 k = Some st \<longrightarrow> pending_irq (file_cpu st) = 0"
      using irq_process_events [OF Cons.prems, of evs] Some x by simp_all
    show ?thesis
    proof (cases "nes_sys_step_frame pstep depth (drv_sys d1)")
      case None
      then show ?thesis using Cons.prems it Some x d1 by simp
    next
      case (Some y)
      obtain r' s' where y: "y = (r', s')" by (cases y)
      have "irq_clear s'" using irq_step_frame [OF d1(1), of pstep depth] Some y by simp
      then have "pred_option (\<lambda>d'. irq_clear (drv_sys d') \<and>
            (\<forall>k st. drv_files d' k = Some st \<longrightarrow> pending_irq (file_cpu st) = 0))
          (main_loop iters (d1\<lparr>drv_sys := s'\<rparr>))"
        using d1(2) by (intro Cons.IH) simp_all
      then show ?thesis
        using Cons.prems it \<open>nes_platform_process_events evs d = Some x\<close> x d1 Some y by simp
    qed
  qed
qed

subsection \<open>The CPU step under two bus writes that agree where the latch is clear\<close>

lemma cong_bind:
  "m = m' \<Longrightarrow> pred_option irq_clear m' \<Longrightarrow> (\<And>s'. irq_clear s' \<Longrightarrow> f s' = g s') \<Longrightarrow>
   m \<bind> f = m' \<bind> g"
  by (cases m') simp_all

lemma cong_bind2:
  "m = m' \<Longrightarrow> pred_option (\<lambda>(v, s'). irq_clear s') m' \<Longrightarrow>
   (\<And>v s'. irq_clear s' \<Longrightarrow> f v s' = g v s') \<Longrightarrow>
   m \<bind> (\<lambda>(v, s'). f v s') = m' \<bind> (\<lambda>(v, s'). g v s')"
  by (cases m') auto

lemma cong_bind_same: "m = (m' :: 'a option) \<Longrightarrow> m \<bind> f = m' \<bind> f"
  by simp

lemma cong_if:
  "(c \<Longrightarrow> a = a') \<Longrightarrow> (\<not> c \<Longrightarrow> b = b') \<Longrightarrow> (if c then a else b) = (if c then a' else b')"
  by simp

lemma cong_case_prod:
  "(\<And>a b. f a b = g a b) \<Longrightarrow> (case p of (a, b) \<Rightarrow> f a b) = (case p of (a, b) \<Rightarrow> g a b)"
  by (cases p) simp

lemma cong_push:
  assumes agree: "\<And>s a v. irq_clear s \<Longrightarrow> wr s a v = wr' s a v"
  shows "irq_clear s \<Longrightarrow> nes_cpu_push wr s v = nes_cpu_push wr' s v"
  unfolding nes_cpu_push_def Let_def by (rule agree) simp

lemma cong_push_word:
  assumes agree: "\<And>s a v. irq_clear s \<Longrightarrow> wr s a v = wr' s a v"
    and safe: "\<And>s a v. irq_clear s \<Longrightarrow> pred_option irq_clear (wr' s a v)"
  shows "irq_clear s \<Longrightarrow> nes_cpu_push_word wr s v = nes_cpu_push_word wr' s v"
  unfolding nes_cpu_push_word_def
  by (intro cong_bind cong_push irq_push agree safe; assumption)

lemma cong_store_byte:
  assumes agree: "\<And>s a v. irq_clear s \<Longrightarrow> wr s a v = wr' s a v"
  shows "irq_clear s \<Longrightarrow> store_byte wr s mode v = store_byte wr' s mode v"
  unfolding store_byte_def
  by (intro refl cong_bind2 irq_intros agree; assumption)

lemma cong_op_rmw:
  assumes agree: "\<And>s a v. irq_clear s \<Longrightarrow> wr s a v = wr' s a v"
  shows "irq_clear s \<Longrightarrow> op_rmw wr s mode g = op_rmw wr' s mode g"
  unfolding op_rmw_def
  by (intro refl cong_bind2 cong_case_prod cong_bind_same irq_intros agree; assumption?)

lemma cong_interrupt_sequence:
  assumes agree: "\<And>s a v. irq_clear s \<Longrightarrow> wr s a v = wr' s a v"
    and safe: "\<And>s a v. irq_clear s \<Longrightarrow> pred_option irq_clear (wr' s a v)"
  shows "irq_clear s \<Longrightarrow> interrupt_sequence wr s vec = interrupt_sequence wr' s vec"
  unfolding interrupt_sequence_def
  by (intro refl cong_bind cong_push_word cong_push irq_push_word irq_push agree safe; assumption)

lemma cong_execute_opcode:
  assumes agree: "\<And>s a v. irq_clear s \<Longrightarrow> wr s a v = wr' s a v"
    and safe: "\<And>s a v. irq_clear s \<Longrightarrow> pred_option irq_clear (wr' s a v)"
  shows "irq_clear s \<Longrightarrow> execute_opcode wr s opcode = execute_opcode wr' s opcode"
  unfolding execute_opcode_def Let_def
  by (intro refl cong_if cong_bind2 cong_bind_same cong_bind
        cong_op_rmw cong_store_byte cong_push_word cong_push
        irq_push_word irq_push irq_intros agree safe;
      (assumption | simp add: irq_clear_def))

lemma cong_nes_cpu_step:
  assumes agree: "\<And>s a v. irq_clear s \<Longrightarrow> wr s a v = wr' s a v"
    and safe: "\<And>s a v. irq_clear s \<Longrightarrow> pred_option irq_clear (wr' s a v)"
  shows "irq_clear s \<Longrightarrow> nes_cpu_step wr s = nes_cpu_step wr' s"
  unfolding nes_cpu_step_def Let_def
  by (intro refl cong_if cong_bind2 cong_bind_same cong_bind
        cong_interrupt_sequence cong_execute_opcode irq_intros agree safe;
      (assumption | simp add: irq_clear_def))

subsection \<open>The functions over a step, at \<open>nes_cpu_step\<close> and at \<open>nes_cpu_step_chk\<close>\<close>

text \<open>With \<open>nes_cpu_step\<close> for the step, the functions over a step are the program's.\<close>

lemma execute_loop_with_step:
  "execute_loop_with nes_cpu_step wr e c s = execute_loop wr e c s"
proof -
  have a0: "st = nes_cpu_step \<longrightarrow> execute_loop wr e c s = Some y"
    if "execute_loop_with st wr e c s = Some y" for st y
  proof (rule execute_loop_with.raw_induct
      [where P = "\<lambda>st wr e c s y. st = nes_cpu_step \<longrightarrow> execute_loop wr e c s = Some y", OF _ that])
    fix el :: "cpu_step \<Rightarrow> bus_write \<Rightarrow> u32 \<Rightarrow> u32 \<Rightarrow> nes_system \<Rightarrow> nes_system option"
      and st wr e c s y
    assume IH: "\<And>st wr e c s y. el st wr e c s = Some y \<Longrightarrow>
        st = nes_cpu_step \<longrightarrow> execute_loop wr e c s = Some y"
      and eq: "(if e < c then st wr s \<bind> (\<lambda>(k, s1). el st wr (e + ucast k) c s1) else Some s) = Some y"
    show "st = nes_cpu_step \<longrightarrow> execute_loop wr e c s = Some y"
    proof
      assume st: "st = nes_cpu_step"
      show "execute_loop wr e c s = Some y"
      proof (cases "e < c")
        case True
        with eq obtain k s1 where k: "st wr s = Some (k, s1)" "el st wr (e + ucast k) c s1 = Some y"
          by (auto simp: bind_eq_Some_conv)
        then show ?thesis using True IH [OF k(2)] st by (simp add: execute_loop.simps [of wr e])
      next
        case False
        with eq show ?thesis by (simp add: execute_loop.simps [of wr e])
      qed
    qed
  qed
  have a: "execute_loop_with nes_cpu_step wr e c s = Some y \<Longrightarrow> execute_loop wr e c s = Some y" for y
    using a0 [of nes_cpu_step y] by simp
  have b: "execute_loop_with nes_cpu_step wr e c s = Some y"
    if "execute_loop wr e c s = Some y" for y
  proof (rule execute_loop.raw_induct
      [where P = "\<lambda>wr e c s y. execute_loop_with nes_cpu_step wr e c s = Some y", OF _ that])
    fix el :: "bus_write \<Rightarrow> u32 \<Rightarrow> u32 \<Rightarrow> nes_system \<Rightarrow> nes_system option"
      and wr e c s y
    assume IH: "\<And>wr e c s y. el wr e c s = Some y \<Longrightarrow> execute_loop_with nes_cpu_step wr e c s = Some y"
      and eq: "(if e < c then nes_cpu_step wr s \<bind> (\<lambda>(k, s1). el wr (e + ucast k) c s1) else Some s) = Some y"
    show "execute_loop_with nes_cpu_step wr e c s = Some y"
    proof (cases "e < c")
      case True
      with eq obtain k s1 where k: "nes_cpu_step wr s = Some (k, s1)" "el wr (e + ucast k) c s1 = Some y"
        by (auto simp: bind_eq_Some_conv)
      then show ?thesis using True IH [OF k(2)] by (simp add: execute_loop_with.simps [of _ wr e])
    next
      case False
      with eq show ?thesis by (simp add: execute_loop_with.simps [of _ wr e])
    qed
  qed
  show ?thesis
  proof (cases "execute_loop wr e c s")
    case None
    then show ?thesis using a by (cases "execute_loop_with nes_cpu_step wr e c s") auto
  next
    case (Some y)
    then show ?thesis using b by simp
  qed
qed

lemma write_body_cong:
  assumes "o1 s v = o2 s v"
  shows "nes_sys_cpu_write_body o1 s a v = nes_sys_cpu_write_body o2 s a v"
  unfolding nes_sys_cpu_write_body_def assms by (rule refl)

lemma nes_sys_cpu_write_with_step: "nes_sys_cpu_write_with nes_cpu_step d = nes_sys_cpu_write d"
proof (induction d)
  case 0
  show ?case by simp
next
  case (Suc d)
  have "nes_sys_oam_dma_with nes_cpu_step (nes_sys_cpu_write d) = nes_sys_oam_dma (nes_sys_cpu_write d)"
    by (intro ext)
       (simp add: nes_sys_oam_dma_with_def nes_sys_oam_dma_def nes_cpu_execute_cycles_with_def
          nes_cpu_execute_cycles_def execute_loop_with_step)
  then show ?case by (simp add: Suc.IH)
qed

lemma frame_loop_with_step:
  "frame_loop_with nes_cpu_step pstep wr n s = frame_loop pstep wr n s"
  by (induction n arbitrary: s)
     (simp_all add: nes_cpu_execute_cycles_with_def nes_cpu_execute_cycles_def execute_loop_with_step
        cong: Option.bind_cong)

lemma nes_sys_step_frame_with_step:
  "nes_sys_step_frame_with nes_cpu_step pstep d s = nes_sys_step_frame pstep d s"
  by (simp add: nes_sys_step_frame_with_def nes_sys_step_frame_def frame_loop_with_step
        nes_sys_cpu_write_with_step)

lemma main_loop_with_step: "main_loop_with nes_cpu_step iters d = main_loop iters d"
proof (induction iters arbitrary: d)
  case Nil
  show ?case by simp
next
  case (Cons it iters)
  obtain evs pstep depth where it: "it = (evs, pstep, depth)" by (cases it)
  show ?case
  proof (cases "nes_platform_process_events evs d")
    case None
    then show ?thesis by (simp add: it)
  next
    case (Some x)
    obtain r d1 where x: "x = (r, d1)" by (cases x)
    show ?thesis
    proof (cases "nes_sys_step_frame pstep depth (drv_sys d1)")
      case None
      then show ?thesis
        using \<open>nes_platform_process_events evs d = Some x\<close> x
        by (simp add: it nes_sys_step_frame_with_step)
    next
      case (Some y)
      obtain r' s' where y: "y = (r', s')" by (cases y)
      show ?thesis
        using \<open>nes_platform_process_events evs d = Some x\<close> x Some y
        by (simp add: it nes_sys_step_frame_with_step Cons.IH)
    qed
  qed
qed

lemma irq_clear_no_dispatch: "irq_clear s \<Longrightarrow> \<not> irq_dispatch s"
  by (simp add: irq_clear_def irq_dispatch_def)

lemma nes_cpu_step_chk_eq:
  assumes agree: "\<And>s a v. irq_clear s \<Longrightarrow> wr' s a v = wr s a v"
    and safe: "\<And>s a v. irq_clear s \<Longrightarrow> pred_option irq_clear (wr s a v)"
    and s: "irq_clear s"
  shows "nes_cpu_step_chk wr' s = nes_cpu_step wr s"
  using cong_nes_cpu_step [of wr' wr s, OF agree safe s] irq_clear_no_dispatch [OF s]
  by (simp add: nes_cpu_step_chk_def)

lemma execute_loop_chk_eq:
  assumes agree: "\<And>s a v. irq_clear s \<Longrightarrow> wr' s a v = wr s a v"
    and safe: "\<And>s a v. irq_clear s \<Longrightarrow> pred_option irq_clear (wr s a v)"
    and s: "irq_clear s"
  shows "execute_loop_with nes_cpu_step_chk wr' e c s = execute_loop wr e c s"
proof -
  have stp: "nes_cpu_step_chk wr' t = nes_cpu_step wr t" if "irq_clear t" for t
    by (rule nes_cpu_step_chk_eq [OF agree safe that])
  have nxt: "irq_clear t1" if "irq_clear t" "nes_cpu_step wr t = Some (k, t1)" for t k t1
    using irq_nes_cpu_step [of wr t, OF safe that(1)] that(2) by simp
  have a0: "st = nes_cpu_step_chk \<and> w = wr' \<and> irq_clear s \<longrightarrow> execute_loop wr e c s = Some y"
    if "execute_loop_with st w e c s = Some y" for st w e c s y
  proof (rule execute_loop_with.raw_induct
      [where P = "\<lambda>st w e c s y. st = nes_cpu_step_chk \<and> w = wr' \<and> irq_clear s \<longrightarrow>
                     execute_loop wr e c s = Some y", OF _ that])
    fix el :: "cpu_step \<Rightarrow> bus_write \<Rightarrow> u32 \<Rightarrow> u32 \<Rightarrow> nes_system \<Rightarrow> nes_system option"
      and st w e c s y
    assume IH: "\<And>st w e c s y. el st w e c s = Some y \<Longrightarrow>
        st = nes_cpu_step_chk \<and> w = wr' \<and> irq_clear s \<longrightarrow> execute_loop wr e c s = Some y"
      and eq: "(if e < c then st w s \<bind> (\<lambda>(k, s1). el st w (e + ucast k) c s1) else Some s) = Some y"
    show "st = nes_cpu_step_chk \<and> w = wr' \<and> irq_clear s \<longrightarrow> execute_loop wr e c s = Some y"
    proof
      assume h: "st = nes_cpu_step_chk \<and> w = wr' \<and> irq_clear s"
      show "execute_loop wr e c s = Some y"
      proof (cases "e < c")
        case True
        with eq obtain k s1 where k: "st w s = Some (k, s1)" "el st w (e + ucast k) c s1 = Some y"
          by (auto simp: bind_eq_Some_conv)
        have k1: "nes_cpu_step wr s = Some (k, s1)" using k(1) h stp [of s] by simp
        have "irq_clear s1" using nxt [OF _ k1] h by simp
        then have "execute_loop wr (e + ucast k) c s1 = Some y" using IH [OF k(2)] h by simp
        then show ?thesis using True k1 by (simp add: execute_loop.simps [of wr e])
      next
        case False
        with eq show ?thesis by (simp add: execute_loop.simps [of wr e])
      qed
    qed
  qed
  have b0: "w = wr \<and> irq_clear s \<longrightarrow> execute_loop_with nes_cpu_step_chk wr' e c s = Some y"
    if "execute_loop w e c s = Some y" for w e c s y
  proof (rule execute_loop.raw_induct
      [where P = "\<lambda>w e c s y. w = wr \<and> irq_clear s \<longrightarrow>
                     execute_loop_with nes_cpu_step_chk wr' e c s = Some y", OF _ that])
    fix el :: "bus_write \<Rightarrow> u32 \<Rightarrow> u32 \<Rightarrow> nes_system \<Rightarrow> nes_system option"
      and w e c s y
    assume IH: "\<And>w e c s y. el w e c s = Some y \<Longrightarrow>
        w = wr \<and> irq_clear s \<longrightarrow> execute_loop_with nes_cpu_step_chk wr' e c s = Some y"
      and eq: "(if e < c then nes_cpu_step w s \<bind> (\<lambda>(k, s1). el w (e + ucast k) c s1) else Some s) = Some y"
    show "w = wr \<and> irq_clear s \<longrightarrow> execute_loop_with nes_cpu_step_chk wr' e c s = Some y"
    proof
      assume h: "w = wr \<and> irq_clear s"
      show "execute_loop_with nes_cpu_step_chk wr' e c s = Some y"
      proof (cases "e < c")
        case True
        with eq obtain k s1 where k: "nes_cpu_step w s = Some (k, s1)" "el w (e + ucast k) c s1 = Some y"
          by (auto simp: bind_eq_Some_conv)
        have k1: "nes_cpu_step_chk wr' s = Some (k, s1)" using k(1) h stp [of s] by simp
        have "irq_clear s1" using nxt [of s k s1] k(1) h by simp
        then have "execute_loop_with nes_cpu_step_chk wr' (e + ucast k) c s1 = Some y"
          using IH [OF k(2)] h by simp
        then show ?thesis using True k1 by (simp add: execute_loop_with.simps [of _ wr' e])
      next
        case False
        with eq show ?thesis by (simp add: execute_loop_with.simps [of _ wr' e])
      qed
    qed
  qed
  show ?thesis
  proof (cases "execute_loop wr e c s")
    case None
    then show ?thesis
      using a0 [of nes_cpu_step_chk wr' e c s] s
      by (cases "execute_loop_with nes_cpu_step_chk wr' e c s") auto
  next
    case (Some y)
    then show ?thesis using b0 [of wr e c s y] s by simp
  qed
qed

lemma nes_sys_cpu_write_chk_eq:
  "irq_clear s \<Longrightarrow> nes_sys_cpu_write_with nes_cpu_step_chk d s a v = nes_sys_cpu_write d s a v"
proof (induction d arbitrary: s a v)
  case 0
  show ?case by simp
next
  case (Suc d)
  have "execute_loop_with nes_cpu_step_chk (nes_sys_cpu_write_with nes_cpu_step_chk d) 0 514 s =
        execute_loop (nes_sys_cpu_write d) 0 514 s"
    by (rule execute_loop_chk_eq) (rule Suc.IH, assumption, rule irq_nes_sys_cpu_write, assumption,
        rule Suc.prems)
  then have o: "nes_sys_oam_dma_with nes_cpu_step_chk (nes_sys_cpu_write_with nes_cpu_step_chk d) s v =
        nes_sys_oam_dma (nes_sys_cpu_write d) s v"
    by (simp add: nes_sys_oam_dma_with_def nes_sys_oam_dma_def nes_cpu_execute_cycles_with_def
          nes_cpu_execute_cycles_def)
  show ?case
    unfolding nes_sys_cpu_write_with.simps nes_sys_cpu_write.simps
    by (rule write_body_cong) (rule o)
qed

lemma nes_cpu_execute_cycles_chk_eq:
  assumes "irq_clear s"
  shows "nes_cpu_execute_cycles_with nes_cpu_step_chk (nes_sys_cpu_write_with nes_cpu_step_chk d) s n =
         nes_cpu_execute_cycles (nes_sys_cpu_write d) s n"
  unfolding nes_cpu_execute_cycles_with_def nes_cpu_execute_cycles_def
  by (rule execute_loop_chk_eq) (rule nes_sys_cpu_write_chk_eq, assumption,
      rule irq_nes_sys_cpu_write, assumption, rule assms)

lemma frame_loop_chk_eq:
  "irq_clear s \<Longrightarrow>
   frame_loop_with nes_cpu_step_chk pstep (nes_sys_cpu_write_with nes_cpu_step_chk d) n s =
   frame_loop pstep (nes_sys_cpu_write d) n s"
proof (induction n arbitrary: s)
  case 0
  show ?case by simp
next
  case (Suc n)
  show ?case
  proof (cases "frame_complete s \<noteq> 0 \<or> pstep s = None")
    case True
    then show ?thesis by auto
  next
    case False
    then obtain vb p' fb' where ps: "pstep s = Some (vb, p', fb')" by auto
    define s2 where "s2 = (if vb \<noteq> 0 \<and> ppu_ctrl p' AND PPUCTRL_NMI \<noteq> 0
        then nes_cpu_trigger_nmi (s\<lparr>ppu := p', g_frame_buffer := fb'\<rparr>)
        else s\<lparr>ppu := p', g_frame_buffer := fb'\<rparr>)"
    have s2: "irq_clear s2"
      using Suc.prems by (simp add: s2_def irq_clear_def nes_cpu_trigger_nmi_def)
    have ex: "nes_cpu_execute_cycles_with nes_cpu_step_chk (nes_sys_cpu_write_with nes_cpu_step_chk d)
                s2 NES_CPU_PPU_RATIO =
              nes_cpu_execute_cycles (nes_sys_cpu_write d) s2 NES_CPU_PPU_RATIO"
      by (rule nes_cpu_execute_cycles_chk_eq [OF s2])
    have "nes_cpu_execute_cycles (nes_sys_cpu_write d) s2 NES_CPU_PPU_RATIO \<bind>
            frame_loop_with nes_cpu_step_chk pstep (nes_sys_cpu_write_with nes_cpu_step_chk d) n =
          nes_cpu_execute_cycles (nes_sys_cpu_write d) s2 NES_CPU_PPU_RATIO \<bind>
            frame_loop pstep (nes_sys_cpu_write d) n"
      by (rule cong_bind [OF refl])
         (rule irq_execute_cycles, rule irq_nes_sys_cpu_write, assumption, rule s2, rule Suc.IH,
          assumption)
    then show ?thesis using False ps ex by (simp add: s2_def Let_def)
  qed
qed

lemma nes_sys_step_frame_chk_eq:
  "irq_clear s \<Longrightarrow>
   nes_sys_step_frame_with nes_cpu_step_chk pstep d s = nes_sys_step_frame pstep d s"
  by (simp add: nes_sys_step_frame_with_def nes_sys_step_frame_def frame_loop_chk_eq irq_clear_def)

lemma main_loop_chk_eq:
  assumes "irq_clear (drv_sys d)"
    and "\<forall>k st. drv_files d k = Some st \<longrightarrow> pending_irq (file_cpu st) = 0"
  shows "main_loop_with nes_cpu_step_chk iters d = main_loop iters d"
  using assms
proof (induction iters arbitrary: d)
  case Nil
  show ?case by simp
next
  case (Cons it iters)
  obtain evs pstep depth where it: "it = (evs, pstep, depth)" by (cases it)
  show ?case
  proof (cases "nes_platform_process_events evs d")
    case None
    then show ?thesis by (simp add: it)
  next
    case (Some x)
    obtain r d1 where x: "x = (r, d1)" by (cases x)
    have d1: "irq_clear (drv_sys d1)"
      "\<forall>k st. drv_files d1 k = Some st \<longrightarrow> pending_irq (file_cpu st) = 0"
      using irq_process_events [OF Cons.prems, of evs] Some x by simp_all
    have sf: "nes_sys_step_frame_with nes_cpu_step_chk pstep depth (drv_sys d1) =
              nes_sys_step_frame pstep depth (drv_sys d1)"
      by (rule nes_sys_step_frame_chk_eq [OF d1(1)])
    show ?thesis
    proof (cases "nes_sys_step_frame pstep depth (drv_sys d1)")
      case None
      then show ?thesis
        using \<open>nes_platform_process_events evs d = Some x\<close> x sf by (simp add: it)
    next
      case (Some y)
      obtain r' s' where y: "y = (r', s')" by (cases y)
      have "irq_clear s'" using irq_step_frame [OF d1(1), of pstep depth] Some y by simp
      then have "main_loop_with nes_cpu_step_chk iters (d1\<lparr>drv_sys := s'\<rparr>) =
                 main_loop iters (d1\<lparr>drv_sys := s'\<rparr>)"
        using d1(2) by (intro Cons.IH) simp_all
      then show ?thesis
        using \<open>nes_platform_process_events evs d = Some x\<close> x sf Some y by (simp add: it)
    qed
  qed
qed

lemma irq_dispatch_step:
  "irq_dispatch s \<Longrightarrow>
   nes_cpu_step wr s =
     interrupt_sequence wr (cpu_update (pending_irq_update (\<lambda>_. 0)) s) NES_VECTOR_IRQ_BRK"
  by (simp add: irq_dispatch_def nes_cpu_step_def)

lemma reset_init: "nes_sys_reset nes_sys_init = Some reset_system"
  by (simp add: nes_sys_reset_def nes_cpu_reset_def reset_system_def nes_sys_init_def
        nes_sys_cpu_read_def bus_consts has_mapper_callbacks_def NES_VECTOR_RESET_def
        nes_cpu_init_def FLAG_UNUSED_def FLAG_INTERRUPT_def)

lemma dma_execute_1:
  "nes_cpu_execute_cycles (nes_sys_cpu_write 1) (dma_system 0) 1 =
     Some ((dma_system 0)
        \<lparr>cpu := nes_cpu_init\<lparr>reg := (reg nes_cpu_init)\<lparr>reg_a := 0x02, reg_pc := 0x0104\<rparr>,
                            cycle_count := 518\<rparr>,
         ppu := nes_ppu_init\<lparr>oam := (\<lambda>i. 0xEA)\<rparr>\<rparr>)"
  using dma_step_eval [of 0]
  by (simp add: nes_cpu_execute_cycles_def execute_loop.simps [of _ 0] execute_loop.simps [of _ 4]
        del: nes_sys_cpu_write.simps)

lemma open_bus_read:
  "mapper s = Some MapperNull \<Longrightarrow> 0x8000 \<le> a \<Longrightarrow>
   nes_sys_cpu_read s a = Some (ram s (a AND 0x7FF), s)"
proof -
  assume m: "mapper s = Some MapperNull" and a: "0x8000 \<le> a"
  have b: "\<not> a < 0x1FFF" "\<not> a < 0x2008" "\<not> a < 0x4020" "\<not> a < 0x8000"
    using a by (simp_all add: word_le_nat_alt word_less_nat_alt)
  show ?thesis using b m by (simp add: nes_sys_cpu_read_def bus_consts has_mapper_callbacks_def)
qed

lemma irq_file_dispatch:
  assumes c: "cpu s = \<lparr>reg = \<lparr>reg_pc = 0, reg_a = 0, reg_x = 0, reg_y = 0, reg_sp = 0xFD,
                                reg_p = 0x20\<rparr>,
                         cycle_count = 0, pending_nmi = 0, pending_irq = 1, stall_cycles = 0\<rparr>"
    and r: "ram s 0x07FE = 0x34" "ram s 0x07FF = 0x12"
    and m: "mapper s = Some MapperNull"
  shows "nes_cpu_step (nes_sys_cpu_write 0) s =
     Some (7, s
       \<lparr>cpu := \<lparr>reg = \<lparr>reg_pc = 0x1234, reg_a = 0, reg_x = 0, reg_y = 0, reg_sp = 0xFA,
                        reg_p = 0x24\<rparr>,
                cycle_count = 7, pending_nmi = 0, pending_irq = 0, stall_cycles = 0\<rparr>,
        ram := (ram s)(0x01FD := 0, 0x01FC := 0, 0x01FB := 0x20)\<rparr>)"
proof -
  have d: "irq_dispatch s"
    by (simp add: irq_dispatch_def c nes_cpu_get_flag_def FLAG_INTERRUPT_def)
  let ?s0 = "cpu_update (pending_irq_update (\<lambda>_. 0)) s"
  let ?s1 = "(with_reg (reg_sp_update (\<lambda>_. 0xFB)) ?s0)\<lparr>ram := (ram s)(0x01FD := 0, 0x01FC := 0)\<rparr>"
  let ?s2 = "(with_reg (reg_sp_update (\<lambda>_. 0xFA)) ?s0)
               \<lparr>ram := (ram s)(0x01FD := 0, 0x01FC := 0, 0x01FB := 0x20)\<rparr>"
  have pw: "nes_cpu_push_word (nes_sys_cpu_write 0) ?s0 (reg_pc (REG ?s0)) = Some ?s1"
    by (simp add: nes_cpu_push_word_def push_ram c NES_STACK_BASE_def
          del: nes_sys_cpu_write.simps)
  have p: "nes_cpu_push (nes_sys_cpu_write 0) ?s1 (reg_p (REG ?s1) OR FLAG_UNUSED) = Some ?s2"
    by (simp add: push_ram c NES_STACK_BASE_def FLAG_UNUSED_def
          del: nes_sys_cpu_write.simps)
  have r1: "nes_sys_cpu_read ?s2 NES_VECTOR_IRQ_BRK = Some (0x34, ?s2)"
    using open_bus_read [of ?s2 "0xFFFE"] m r by (simp add: NES_VECTOR_IRQ_BRK_def)
  have r2: "nes_sys_cpu_read ?s2 (NES_VECTOR_IRQ_BRK + 1) = Some (0x12, ?s2)"
    using open_bus_read [of ?s2 "0xFFFF"] m r by (simp add: NES_VECTOR_IRQ_BRK_def)
  have "interrupt_sequence (nes_sys_cpu_write 0) ?s0 NES_VECTOR_IRQ_BRK =
     Some (7, cpu_update (cycle_count_update (\<lambda>c. c + 7))
               (with_reg (\<lambda>r. r\<lparr>reg_p := reg_p r OR FLAG_INTERRUPT\<rparr>)
                  (set_pc (ucast (0x34 :: u8) OR push_bit 8 (ucast (0x12 :: u8))) ?s2)))"
    unfolding interrupt_sequence_def
    by (simp only: pw p r1 r2 Option.bind.bind_lunit prod.case Let_def)
  also have "cpu_update (cycle_count_update (\<lambda>c. c + 7))
               (with_reg (\<lambda>r. r\<lparr>reg_p := reg_p r OR FLAG_INTERRUPT\<rparr>)
                  (set_pc (ucast (0x34 :: u8) OR push_bit 8 (ucast (0x12 :: u8))) ?s2)) =
     s\<lparr>cpu := \<lparr>reg = \<lparr>reg_pc = 0x1234, reg_a = 0, reg_x = 0, reg_y = 0, reg_sp = 0xFA,
                        reg_p = 0x24\<rparr>,
                cycle_count = 7, pending_nmi = 0, pending_irq = 0, stall_cycles = 0\<rparr>,
        ram := (ram s)(0x01FD := 0, 0x01FC := 0, 0x01FB := 0x20)\<rparr>"
    by (simp add: c FLAG_INTERRUPT_def)
  finally have "interrupt_sequence (nes_sys_cpu_write 0) ?s0 NES_VECTOR_IRQ_BRK =
     Some (7, s
       \<lparr>cpu := \<lparr>reg = \<lparr>reg_pc = 0x1234, reg_a = 0, reg_x = 0, reg_y = 0, reg_sp = 0xFA,
                        reg_p = 0x24\<rparr>,
                cycle_count = 7, pending_nmi = 0, pending_irq = 0, stall_cycles = 0\<rparr>,
        ram := (ram s)(0x01FD := 0, 0x01FC := 0, 0x01FB := 0x20)\<rparr>)" .
  then show ?thesis unfolding irq_dispatch_step [OF d] .
qed

subsection \<open>The IRQ branch is never entered\<close>




end
